theory Spec2Isabelle
  imports Complex_Main
begin

section \<open>Conventions of the embedding\<close>

text \<open>
  The repository is Python. Its functions are embedded as HOL functions:
  \<^item> a Python \<open>str\<close> is a \<open>string\<close> (a list of 8-bit characters; the text handled here is
    ASCII: digits, unit letters, marker lines);
  \<^item> a Python \<open>float\<close> is a \<open>real\<close>: the arithmetic of the source is followed operation by
    operation, the rounding of binary64 is not modelled;
  \<^item> a Python \<open>int\<close> is an \<open>int\<close>;
  \<^item> every \<open>raise\<close> is a value \<open>Inl e\<close> of the result type \<open>error + 'a\<close>. The workload
    scripts raise \<open>ValueError\<close> throughout and tell the cases apart by the message only;
    the constructors of \<open>error\<close> name the cases. The evaluator has its own exceptions,
    \<open>evaluator_exn\<close>;
  \<^item> a regular expression is the list of the matches Python's backtracking engine tries,
    in its order of preference;
  \<^item> what a function reads from outside (the lines of a file, the result of a command)
    is an argument of its model.
\<close>

datatype error =
    FormatError              \<comment> \<open>\<open>ValueError("Unrecognized ... value")\<close>, \<open>ValueError("Unsupported ...")\<close>\<close>
  | MissingFieldError "string list"  \<comment> \<open>\<open>ValueError("Missing fields: ...")\<close>\<close>
  | StructureError           \<comment> \<open>nested start, mismatched end, unterminated section\<close>
  | EmptyResultError         \<comment> \<open>\<open>ValueError("... no worker sections found ...")\<close>\<close>
  | EmptyInputError          \<comment> \<open>\<open>ValueError("No worker stats provided for scoring.")\<close>\<close>
  | DivisionError            \<comment> \<open>\<open>ValueError("Average latency is zero; cannot compute score.")\<close>\<close>
  | ZeroDivisionError        \<comment> \<open>Python's own exception of \<open>/\<close> with a zero divisor\<close>
  | IntValueError            \<comment> \<open>\<open>ValueError\<close> of the builtin \<open>int(...)\<close>\<close>

fun ebind :: "'e + 'a \<Rightarrow> ('a \<Rightarrow> 'e + 'b) \<Rightarrow> 'e + 'b" where
  "ebind (Inl e) f = Inl e"
| "ebind (Inr v) f = f v"


text \<open>A \<open>for\<close> loop whose body may raise: the state is threaded through the elements and
  the first error ends the loop.\<close>

fun efold :: "('s \<Rightarrow> 'a \<Rightarrow> 'e + 's) \<Rightarrow> 'a list \<Rightarrow> 's \<Rightarrow> 'e + 's" where
  "efold f [] s = Inr s"
| "efold f (x # xs) s = (case f s x of Inl e \<Rightarrow> Inl e | Inr s' \<Rightarrow> efold f xs s')"

section \<open>Python strings\<close>

text \<open>The characters \<open>str.isspace\<close> accepts below code point 128; \<open>str.strip()\<close> and
  \<open>str.split()\<close> without arguments use them.\<close>

definition is_space :: "char \<Rightarrow> bool" where
  "is_space c = (c \<in> set [CHR 0x09, CHR 0x0A, CHR 0x0B, CHR 0x0C, CHR 0x0D,
                            CHR 0x1C, CHR 0x1D, CHR 0x1E, CHR 0x1F, CHR '' ''])"

definition is_digit :: "char \<Rightarrow> bool" where
  "is_digit c = (c \<in> set ''0123456789'')"

definition is_lower :: "char \<Rightarrow> bool" where
  "is_lower c = (c \<in> set ''abcdefghijklmnopqrstuvwxyz'')"

definition is_upper :: "char \<Rightarrow> bool" where
  "is_upper c = (c \<in> set ''ABCDEFGHIJKLMNOPQRSTUVWXYZ'')"

definition lower_table :: "(char \<times> char) list" where
  "lower_table = zip ''ABCDEFGHIJKLMNOPQRSTUVWXYZ'' ''abcdefghijklmnopqrstuvwxyz''"

definition lower_char :: "char \<Rightarrow> char" where
  "lower_char c = (case map_of lower_table c of Some d \<Rightarrow> d | None \<Rightarrow> c)"

definition py_lower :: "string \<Rightarrow> string" where
  "py_lower s = map lower_char s"

definition py_strip :: "string \<Rightarrow> string" where
  "py_strip s = rev (dropWhile is_space (rev (dropWhile is_space s)))"

definition rstrip_newline :: "string \<Rightarrow> string" where
  "rstrip_newline s = rev (dropWhile (\<lambda>c. c = CHR 0x0A) (rev s))"

definition startswith :: "string \<Rightarrow> string \<Rightarrow> bool" where
  "startswith s p = (take (length p) s = p)"

text \<open>\<open>str.split()\<close>: the maximal runs of non-space characters. The first argument is the
  run being read, reversed.\<close>

fun split_from :: "string \<Rightarrow> string \<Rightarrow> string list" where
  "split_from cur [] = (if cur = [] then [] else [rev cur])"
| "split_from cur (c # cs) =
     (if is_space c then (if cur = [] then split_from [] cs else rev cur # split_from [] cs)
      else split_from (c # cur) cs)"

definition py_split :: "string \<Rightarrow> string list" where
  "py_split s = split_from [] s"

text \<open>\<open>s.split(sep)\<close> for a one-character separator, and the two halves of
  \<open>s.split(sep, 1)\<close> for an \<open>s\<close> that holds the separator.\<close>

fun split_on :: "char \<Rightarrow> string \<Rightarrow> string list" where
  "split_on d [] = [[]]"
| "split_on d (c # cs) =
     (if c = d then [] # split_on d cs
      else (case split_on d cs of [] \<Rightarrow> [[c]] | h # t \<Rightarrow> (c # h) # t))"

definition split_once :: "char \<Rightarrow> string \<Rightarrow> string \<times> string" where
  "split_once d s = (takeWhile (\<lambda>c. c \<noteq> d) s, drop 1 (dropWhile (\<lambda>c. c \<noteq> d) s))"

text \<open>\<open>str(n)\<close> for an integer.\<close>

fun str_nat :: "nat \<Rightarrow> string" where
  "str_nat n = (if n < 10 then [''0123456789'' ! n]
                else str_nat (n div 10) @ [''0123456789'' ! (n mod 10)])"

declare str_nat.simps [simp del]

definition str_int :: "int \<Rightarrow> string" where
  "str_int i = (if i < 0 then CHR ''-'' # str_nat (nat (- i)) else str_nat (nat i))"

section \<open>Regular expressions\<close>

text \<open>
  The patterns of the scripts are built from a few backtracking matchers. A matcher maps
  the text still to read to the list of its matches there, each a pair of the text
  consumed and the text left, in the order in which Python's backtracking engine tries
  them: a greedy repetition offers its longest match first. \<open>re.fullmatch\<close> returns the
  first alternative that leaves nothing.
\<close>

type_synonym matcher = "string \<Rightarrow> (string \<times> string) list"

definition m_lit :: "string \<Rightarrow> matcher" where
  "m_lit p s = (if take (length p) s = p then [(p, drop (length p) s)] else [])"

fun m_star :: "(char \<Rightarrow> bool) \<Rightarrow> matcher" where
  "m_star P [] = [([], [])]"
| "m_star P (c # cs) =
     (if P c then map (\<lambda>(x, r). (c # x, r)) (m_star P cs) else []) @ [([], c # cs)]"

definition m_plus :: "(char \<Rightarrow> bool) \<Rightarrow> matcher" where
  "m_plus P s = (case s of [] \<Rightarrow> []
                 | c # cs \<Rightarrow> if P c then map (\<lambda>(x, r). (c # x, r)) (m_star P cs) else [])"

definition m_opt :: "matcher \<Rightarrow> matcher" where
  "m_opt m s = m s @ [([], s)]"

definition m_seq :: "matcher \<Rightarrow> matcher \<Rightarrow> matcher" where
  "m_seq a b s = concat (map (\<lambda>(x, r). map (\<lambda>(y, r'). (x @ y, r')) (b r)) (a s))"

text \<open>\<open>$\<close> without \<open>re.MULTILINE\<close>: at the end, or before a newline that ends the text.\<close>

definition m_dollar :: matcher where
  "m_dollar s = (if s = [] \<or> s = [CHR 0x0A] then [([], s)] else [])"

text \<open>A pattern of two groups, and \<open>re.fullmatch\<close> on it.\<close>

definition match2 :: "matcher \<Rightarrow> matcher \<Rightarrow> string \<Rightarrow> ((string \<times> string) \<times> string) list" where
  "match2 g1 g2 s = concat (map (\<lambda>(x, r). map (\<lambda>(y, r'). ((x, y), r')) (g2 r)) (g1 s))"

definition fullmatch2 :: "matcher \<Rightarrow> matcher \<Rightarrow> string \<Rightarrow> (string \<times> string) option" where
  "fullmatch2 g1 g2 s =
     (case filter (\<lambda>(g, r). r = []) (match2 g1 g2 s) of [] \<Rightarrow> None | (g, r) # _ \<Rightarrow> Some g)"

text \<open>\<open>[0-9]*\.?[0-9]+\<close>, \<open>[a-z]+\<close> and \<open>[kmg]?\<close>.\<close>

definition re_number :: matcher where
  "re_number = m_seq (m_star is_digit) (m_seq (m_opt (m_lit ''.'')) (m_plus is_digit))"

definition re_letters :: matcher where
  "re_letters = m_plus is_lower"

definition re_kmg_opt :: matcher where
  "re_kmg_opt = m_opt (\<lambda>s. case s of [] \<Rightarrow> []
                          | c # cs \<Rightarrow> if c \<in> set ''kmg'' then [([c], cs)] else [])"

text \<open>\<open>float(text)\<close> for a text matched by \<open>[0-9]*\.?[0-9]+\<close>: its decimal value.\<close>

definition digit_val :: "char \<Rightarrow> nat" where
  "digit_val c = of_char c - 48"

definition nat_of_digits :: "string \<Rightarrow> nat" where
  "nat_of_digits ds = foldl (\<lambda>a c. 10 * a + digit_val c) 0 ds"

definition float_of_decimal :: "string \<Rightarrow> real" where
  "float_of_decimal s =
     (let ip = takeWhile is_digit s;
          fp = drop 1 (dropWhile is_digit s)
      in real (nat_of_digits ip) + real (nat_of_digits fp) / 10 ^ length fp)"

section \<open>\<open>workloads/basic-workload-summary.py\<close>\<close>

subsection \<open>Module constants\<close>

definition LATENCY_UNITS_MS :: "(string \<times> real) list" where
  "LATENCY_UNITS_MS = [(''us'', 1 / 1000), (''ms'', 1), (''s'', 1000)]"

definition THROUGHPUT_SUFFIXES :: "(string \<times> real) list" where
  "THROUGHPUT_SUFFIXES = [([], 1), (''k'', 10 ^ 3), (''m'', 10 ^ 6), (''g'', 10 ^ 9)]"

text \<open>\<open>_WORKER_RE = wrk_client_(\d+)\.log$\<close>: the matches at the start of the text (the
  group), and \<open>_WORKER_RE.search\<close>, which tries every start from the left.\<close>

definition worker_re_at :: "string \<Rightarrow> string list" where
  "worker_re_at s =
     concat (map (\<lambda>(_, r1).
       concat (map (\<lambda>(d, r2).
         concat (map (\<lambda>(_, r3).
           map (\<lambda>_. d) (m_dollar r3))
         (m_lit ''.log'' r2)))
       (m_plus is_digit r1)))
     (m_lit ''wrk_client_'' s))"

fun worker_re_search :: "string \<Rightarrow> string option" where
  "worker_re_search s =
     (case worker_re_at s of
        d # _ \<Rightarrow> Some d
      | [] \<Rightarrow> (case s of [] \<Rightarrow> None | _ # t \<Rightarrow> worker_re_search t))"

declare worker_re_search.simps [simp del]

text \<open>\<open>_SECTION_START_RE = ^===== (.+) START =====$\<close> and
  \<open>_SECTION_END_RE = ^===== (.+) END =====$\<close>, used with \<open>.match\<close>: the group of the first
  match at the start of the text. The dot takes any character but a newline.\<close>

definition section_re_match :: "string \<Rightarrow> string \<Rightarrow> string option" where
  "section_re_match kind s =
     (case concat (map (\<lambda>(_, r1).
             concat (map (\<lambda>(name, r2).
               concat (map (\<lambda>(_, r3).
                 map (\<lambda>_. name) (m_dollar r3))
               (m_lit (kind @ '' ====='') r2)))
             (m_plus (\<lambda>c. c \<noteq> CHR 0x0A) r1)))
           (m_lit ''===== '' s)) of
        [] \<Rightarrow> None
      | name # _ \<Rightarrow> Some name)"

definition SECTION_START_RE_match :: "string \<Rightarrow> string option" where
  "SECTION_START_RE_match s = section_re_match '' START'' s"

definition SECTION_END_RE_match :: "string \<Rightarrow> string option" where
  "SECTION_END_RE_match s = section_re_match '' END'' s"

subsection \<open>Records\<close>

text \<open>A \<open>pathlib.Path\<close> value, kept as the expression that built it.\<close>

datatype pypath = Path string | Parent pypath | Div pypath string

record worker_stats =
  worker_id :: string
  latency_avg_ms :: real
  latency_stdev_ms :: real
  req_per_sec_avg :: real
  req_per_sec_stdev :: real
  log_path :: pypath

record run_metrics =
  workers :: nat
  avg_latency_ms :: real
  latency_stddev_ms :: real
  avg_req_per_sec :: real
  req_per_sec_stddev :: real
  score :: real

subsection \<open>UnitParser: \<open>parse_latency\<close>, \<open>parse_throughput\<close>\<close>

definition parse_latency :: "string \<Rightarrow> error + real" where
  "parse_latency token =
     (case fullmatch2 re_number re_letters (py_lower token) of
        None \<Rightarrow> Inl FormatError
      | Some (num, u) \<Rightarrow>
          (case map_of LATENCY_UNITS_MS u of
             None \<Rightarrow> Inl FormatError
           | Some factor \<Rightarrow> Inr (float_of_decimal num * factor)))"

definition parse_throughput :: "string \<Rightarrow> error + real" where
  "parse_throughput token0 =
     (let token = py_strip token0 in
      if py_lower token \<in> set [''nan'', ''-nan'', ''+nan''] then Inr 0
      else case fullmatch2 re_number re_kmg_opt (py_lower token) of
             None \<Rightarrow> Inl FormatError
           | Some (num, suffix) \<Rightarrow>
               (case map_of THROUGHPUT_SUFFIXES suffix of
                  None \<Rightarrow> Inl FormatError
                | Some factor \<Rightarrow> Inr (float_of_decimal num * factor)))"

subsection \<open>WorkerLogReader: \<open>_extract_metrics_from_lines\<close>\<close>

text \<open>The four local variables of the loop, \<open>None\<close> until a line sets them.\<close>

record extract_vars =
  v_latency_avg_ms :: "real option"
  v_latency_stdev_ms :: "real option"
  v_req_avg :: "real option"
  v_req_stdev :: "real option"

definition extract_init :: extract_vars where
  "extract_init = \<lparr> v_latency_avg_ms = None, v_latency_stdev_ms = None,
                     v_req_avg = None, v_req_stdev = None \<rparr>"

text \<open>The body of the loop on one line.\<close>

definition extract_step :: "extract_vars \<Rightarrow> string \<Rightarrow> error + extract_vars" where
  "extract_step st raw_line =
     (let line = py_strip raw_line in
      if startswith line ''Latency'' then
        (let parts = py_split line in
         if length parts < 3 then Inr st
         else ebind (parse_latency (parts ! 1)) (\<lambda>a.
              ebind (parse_latency (parts ! 2)) (\<lambda>b.
              Inr (st\<lparr> v_latency_avg_ms := Some a, v_latency_stdev_ms := Some b \<rparr>))))
      else if startswith line ''Req/Sec'' then
        (let parts = py_split line in
         if length parts < 3 then Inr st
         else ebind (parse_throughput (parts ! 1)) (\<lambda>a.
              ebind (parse_throughput (parts ! 2)) (\<lambda>b.
              Inr (st\<lparr> v_req_avg := Some a, v_req_stdev := Some b \<rparr>))))
      else Inr st)"

definition missing_fields :: "extract_vars \<Rightarrow> string list" where
  "missing_fields st =
     map fst (filter (\<lambda>(name, v). v = None)
       [(''latency_avg'', v_latency_avg_ms st),
        (''latency_stdev'', v_latency_stdev_ms st),
        (''req_per_sec_avg'', v_req_avg st),
        (''req_per_sec_stdev'', v_req_stdev st)])"

definition extract_metrics_from_lines :: "string list \<Rightarrow> error + (real \<times> real \<times> real \<times> real)" where
  "extract_metrics_from_lines lines =
     ebind (efold extract_step lines extract_init) (\<lambda>st.
       if missing_fields st \<noteq> [] then Inl (MissingFieldError (missing_fields st))
       else Inr (the (v_latency_avg_ms st), the (v_latency_stdev_ms st),
                 the (v_req_avg st), the (v_req_stdev st)))"

subsection \<open>Worker identity: \<open>_deduce_worker_id\<close>\<close>

text \<open>\<open>Path(text).name\<close> and \<open>.stem\<close> of a POSIX path: the last component that is neither
  empty nor a dot, and that name up to its last dot when the dot is neither its first
  nor its last character.\<close>

definition path_name :: "string \<Rightarrow> string" where
  "path_name p =
     (let parts = filter (\<lambda>c. c \<noteq> [] \<and> c \<noteq> ''.'') (split_on (CHR ''/'') p)
      in if parts = [] then [] else last parts)"

definition rfind :: "char \<Rightarrow> string \<Rightarrow> int" where
  "rfind c s = (if c \<in> set s then int (length s) - 1 - int (length (takeWhile (\<lambda>x. x \<noteq> c) (rev s)))
                else - 1)"

definition stem_of_name :: "string \<Rightarrow> string" where
  "stem_of_name name =
     (let i = rfind (CHR ''.'') name
      in if 0 < i \<and> i < int (length name) - 1 then take (nat i) name else name)"

definition path_stem :: "string \<Rightarrow> string" where
  "path_stem p = stem_of_name (path_name p)"

definition deduce_worker_id :: "string \<Rightarrow> string" where
  "deduce_worker_id p =
     (case worker_re_search (path_name p) of
        Some digits \<Rightarrow> digits
      | None \<Rightarrow> path_stem p)"

definition parse_wrk_log :: "string \<Rightarrow> string list \<Rightarrow> error + worker_stats" where
  "parse_wrk_log p lines =
     (let wid = deduce_worker_id p in
      ebind (extract_metrics_from_lines lines) (\<lambda>(la, ls, ra, rs).
        Inr \<lparr> worker_id = wid, latency_avg_ms = la, latency_stdev_ms = ls,
              req_per_sec_avg = ra, req_per_sec_stdev = rs, log_path = Path p \<rparr>))"

subsection \<open>AggregatedLogSplitter: \<open>parse_aggregated_log\<close>\<close>

record splitter_vars =
  v_stats :: "worker_stats list"
  v_current_name :: "string option"
  v_current_lines :: "string list"

definition splitter_init :: splitter_vars where
  "splitter_init = \<lparr> v_stats = [], v_current_name = None, v_current_lines = [] \<rparr>"

text \<open>The body of the loop on one line of the file \<open>p\<close>.\<close>

definition splitter_step :: "string \<Rightarrow> splitter_vars \<Rightarrow> string \<Rightarrow> error + splitter_vars" where
  "splitter_step p st raw_line =
     (let stripped = rstrip_newline raw_line in
      case SECTION_START_RE_match stripped of
        Some name \<Rightarrow>
          if v_current_name st \<noteq> None then Inl StructureError
          else Inr (st\<lparr> v_current_name := Some name, v_current_lines := [] \<rparr>)
      | None \<Rightarrow>
          (case (SECTION_END_RE_match stripped, v_current_name st) of
             (Some end_name, Some cur) \<Rightarrow>
               if end_name \<noteq> cur then Inl StructureError
               else
                 (let wid = deduce_worker_id cur in
                  ebind (extract_metrics_from_lines (v_current_lines st)) (\<lambda>(la, ls, ra, rs).
                    Inr (st\<lparr> v_stats := v_stats st @
                               [\<lparr> worker_id = wid, latency_avg_ms = la, latency_stdev_ms = ls,
                                  req_per_sec_avg = ra, req_per_sec_stdev = rs,
                                  log_path = Div (Parent (Path p)) cur \<rparr>],
                             v_current_name := None, v_current_lines := [] \<rparr>)))
           | _ \<Rightarrow>
               if v_current_name st \<noteq> None
               then Inr (st\<lparr> v_current_lines := v_current_lines st @ [raw_line] \<rparr>)
               else Inr st))"

definition parse_aggregated_log :: "string \<Rightarrow> string list \<Rightarrow> error + worker_stats list" where
  "parse_aggregated_log p lines =
     ebind (efold (splitter_step p) lines splitter_init) (\<lambda>st.
       if v_current_name st \<noteq> None then Inl StructureError
       else if v_stats st = [] then Inl EmptyResultError
       else Inr (v_stats st))"

subsection \<open>RunScorer: \<open>compute_run_metrics\<close>\<close>

text \<open>\<open>statistics.mean\<close> and \<open>statistics.pstdev\<close> of the standard library, on a non-empty list
  (both raise on an empty one; \<open>compute_run_metrics\<close> guards the call).\<close>

definition mean :: "real list \<Rightarrow> real" where
  "mean xs = sum_list xs / real (length xs)"

definition pstdev :: "real list \<Rightarrow> real" where
  "pstdev xs = sqrt (sum_list (map (\<lambda>x. (x - mean xs)\<^sup>2) xs) / real (length xs))"

definition compute_run_metrics :: "worker_stats list \<Rightarrow> error + run_metrics" where
  "compute_run_metrics stats =
     (if stats = [] then Inl EmptyInputError
      else
        let latency_values = map latency_avg_ms stats;
            req_values = map req_per_sec_avg stats;
            avg_latency = mean latency_values;
            avg_req = mean req_values;
            latency_stddev = (if length stats > 1 then pstdev latency_values else 0);
            req_stddev = (if length stats > 1 then pstdev req_values else 0)
        in if avg_latency = 0 then Inl DivisionError
           else Inr \<lparr> workers = length stats,
                      avg_latency_ms = avg_latency,
                      latency_stddev_ms = latency_stddev,
                      avg_req_per_sec = avg_req,
                      req_per_sec_stddev = req_stddev,
                      score = avg_req / avg_latency \<rparr>)"

section \<open>\<open>workloads/per-connection-workload-summary.py\<close>\<close>

text \<open>The fields of \<open>WorkerSummary\<close>, each prefixed with \<open>ws_\<close>.\<close>

record worker_summary =
  ws_worker_id :: string
  ws_total_requests :: int
  ws_success :: int
  ws_failure :: int
  ws_duration_sec :: real
  ws_throughput_req_per_sec :: real
  ws_latency_avg_ms :: real
  ws_latency_min_ms :: real
  ws_latency_max_ms :: real
  ws_summary_path :: pypath

text \<open>\<open>int(text)\<close> on a string: surrounding whitespace is dropped, a sign may lead, and the
  digits may be grouped by single underscores.\<close>

definition py_int :: "string \<Rightarrow> error + int" where
  "py_int text =
     (let t = py_strip text;
          (neg, body) = (case t of
                           [] \<Rightarrow> (False, t)
                         | c # r \<Rightarrow> if c = CHR ''-'' then (True, r)
                                    else if c = CHR ''+'' then (False, r)
                                    else (False, t));
          groups = split_on (CHR ''_'') body
      in if list_all (\<lambda>g. g \<noteq> [] \<and> list_all is_digit g) groups
         then Inr ((if neg then - 1 else 1) * int (nat_of_digits (concat groups)))
         else Inl IntValueError)"

text \<open>\<open>a / b\<close> on numbers: Python raises \<open>ZeroDivisionError\<close> when \<open>b\<close> is zero.\<close>

definition truediv :: "real \<Rightarrow> real \<Rightarrow> error + real" where
  "truediv a b = (if b = 0 then Inl ZeroDivisionError else Inr (a / b))"

definition required_keys :: "string list" where
  "required_keys = [''success'', ''failure'', ''latency_sum_ns'', ''latency_count'',
                    ''latency_min_ns'', ''latency_max_ns'', ''duration_ns'']"

text \<open>The body of the loop that fills \<open>data\<close> from the \<open>key=value\<close> lines.\<close>

definition summary_line :: "(string \<rightharpoonup> string) \<Rightarrow> string \<Rightarrow> (string \<rightharpoonup> string)" where
  "summary_line data raw_line =
     (let line = py_strip raw_line in
      if line = [] \<or> CHR ''='' \<notin> set line then data
      else (let (key, v) = split_once (CHR ''='') line
            in data(py_strip key \<mapsto> py_strip v)))"

definition extract_worker_id :: "string \<Rightarrow> string" where
  "extract_worker_id p =
     (let name = path_stem p
      in if startswith name ''worker_'' then snd (split_once (CHR ''_'') name) else name)"

definition parse_summary_file :: "string \<Rightarrow> string list \<Rightarrow> error + worker_summary" where
  "parse_summary_file p lines =
     (let data = foldl summary_line Map.empty lines;
          missing = filter (\<lambda>key. data key = None) required_keys
      in if missing \<noteq> [] then Inl (MissingFieldError missing)
      else
        ebind (py_int (the (data ''success''))) (\<lambda>success.
        ebind (py_int (the (data ''failure''))) (\<lambda>failure.
        let total_requests = success + failure in
        ebind (py_int (the (data ''latency_count''))) (\<lambda>latency_count.
        ebind (py_int (the (data ''latency_sum_ns''))) (\<lambda>latency_sum_ns.
        ebind (py_int (the (data ''latency_min_ns''))) (\<lambda>latency_min_ns.
        ebind (py_int (the (data ''latency_max_ns''))) (\<lambda>latency_max_ns.
        ebind (py_int (the (data ''duration_ns''))) (\<lambda>duration_ns.
        ebind (if duration_ns > 0 then truediv (real_of_int duration_ns) (10 ^ 9) else Inr 0)
          (\<lambda>duration_sec.
        ebind (if duration_sec > 0 then truediv (real_of_int total_requests) duration_sec
               else Inr 0)
          (\<lambda>throughput_req_per_sec.
        ebind (if latency_count > 0
               then ebind (truediv (real_of_int latency_sum_ns) (real_of_int latency_count))
                      (\<lambda>q. truediv q (10 ^ 6))
               else Inr 0)
          (\<lambda>latency_avg.
        ebind (if latency_min_ns > 0 then truediv (real_of_int latency_min_ns) (10 ^ 6) else Inr 0)
          (\<lambda>latency_min.
        ebind (if latency_max_ns > 0 then truediv (real_of_int latency_max_ns) (10 ^ 6) else Inr 0)
          (\<lambda>latency_max.
        Inr \<lparr> ws_worker_id = extract_worker_id p,
              ws_total_requests = total_requests,
              ws_success = success,
              ws_failure = failure,
              ws_duration_sec = duration_sec,
              ws_throughput_req_per_sec = throughput_req_per_sec,
              ws_latency_avg_ms = latency_avg,
              ws_latency_min_ms = latency_min,
              ws_latency_max_ms = latency_max,
              ws_summary_path = Path p \<rparr>)))))))))))))"


section \<open>\<open>openevolve_eval.py\<close>\<close>

subsection \<open>What the evaluator finds outside itself\<close>

text \<open>
  \<open>evaluate\<close> runs external commands, polls a process and reads files. Each such
  observation is a field of the record \<open>world\<close>, and \<open>evaluate\<close> is a function of it.
  The outcomes are those the code tells apart: a command that cannot be started raises
  \<open>FileNotFoundError\<close>, otherwise it completes with a return code and its output.
\<close>

record completed_process =
  returncode :: int
  stdout :: string
  stderr :: string

datatype run_outcome = FileNotFoundError string | Completed completed_process

datatype evaluator_exn = RuntimeError string | ValueError string | TypeError string

record world =
  go_generate :: run_outcome
    \<comment> \<open>\<open>subprocess.run(("go", "generate", "./..."))\<close>\<close>
  popen_servers :: "string option"
    \<comment> \<open>\<open>subprocess.Popen(SERVER_LAUNCH_CMD)\<close>: \<open>Some msg\<close> is \<open>FileNotFoundError(msg)\<close>\<close>
  wait_for_server_logs :: bool
    \<comment> \<open>what \<open>_wait_for_server_logs(server_proc)\<close> returns\<close>
  poll_after_wait :: "int option"
    \<comment> \<open>\<open>server_proc.poll()\<close> once the wait has failed\<close>
  poll_when_ready :: "int option"
    \<comment> \<open>\<open>server_proc.poll()\<close> once the logs have appeared\<close>
  scan_server_logs_for_errors :: "(string \<times> string) list"
    \<comment> \<open>the items of the dictionary \<open>_scan_server_logs_for_errors()\<close> returns\<close>
  workload :: run_outcome
    \<comment> \<open>\<open>subprocess.run(("sudo", "-n", "./basic-workload.sh", "20", "10"))\<close>\<close>
  path_exists :: "string \<Rightarrow> bool"
  metrics_rows :: "(string \<rightharpoonup> string option) list"
    \<comment> \<open>the rows \<open>csv.DictReader\<close> yields for the metrics file; a cell is \<open>None\<close> in a short row\<close>
  float_of_str :: "string \<Rightarrow> real option"
    \<comment> \<open>the builtin \<open>float\<close> on a string, \<open>None\<close> when it raises \<open>ValueError\<close>\<close>
  collect_artifact :: "string \<Rightarrow> string option"
    \<comment> \<open>what \<open>_collect_artifact(path)\<close> returns\<close>
  latest_log :: "string \<Rightarrow> string option"
    \<comment> \<open>what \<open>_latest_log(pattern, launch_started_at)\<close> returns\<close>
  server_output :: "string list"
    \<comment> \<open>the buffer the reader thread has filled when the servers are torn down\<close>

subsection \<open>Module constants and the result\<close>

definition METRICS_DEFAULTS :: "string \<rightharpoonup> real" where
  "METRICS_DEFAULTS = [''average_tput'' \<mapsto> 0, ''average_latency'' \<mapsto> 0, ''total_score'' \<mapsto> 0,
                       ''run_successful'' \<mapsto> 0, ''compile_successful'' \<mapsto> 0]"

definition summary_path :: string where
  "summary_path = ''workloads/wrk_log/basic-workload-summary.csv''"

definition metrics_path :: string where
  "metrics_path = ''workloads/wrk_log/basic-workload-summary-metrics.csv''"

text \<open>\<open>EvaluationResult(metrics=..., artifacts=...)\<close> keeps the two dictionaries it is given.\<close>

record evaluation_result =
  metrics :: "string \<rightharpoonup> real"
  artifacts :: "string \<rightharpoonup> string"

subsection \<open>The helpers\<close>

definition run_go_generate :: "world \<Rightarrow> bool \<times> string" where
  "run_go_generate w =
     (case go_generate w of
        FileNotFoundError msg \<Rightarrow> (False, ''Failed to execute go generate: '' @ msg)
      | Completed c \<Rightarrow> (returncode c = 0, py_strip (stdout c @ stderr c)))"

definition start_servers :: "world \<Rightarrow> evaluator_exn + unit" where
  "start_servers w =
     (case popen_servers w of
        Some msg \<Rightarrow> Inl (RuntimeError (''Failed to launch servers: '' @ msg))
      | None \<Rightarrow> Inr ())"

definition run_workload :: "world \<Rightarrow> bool \<times> completed_process" where
  "run_workload w =
     (case workload w of
        FileNotFoundError msg \<Rightarrow> (False, \<lparr> returncode = 127, stdout = [], stderr = msg \<rparr>)
      | Completed c \<Rightarrow> (returncode c = 0, c))"

text \<open>\<open>float(row.get(key, 0.0))\<close>: the default when the column is absent, \<open>TypeError\<close> on the
  \<open>None\<close> of a short row, \<open>ValueError\<close> on a text that is not a number.\<close>

definition float_cell :: "world \<Rightarrow> (string \<rightharpoonup> string option) \<Rightarrow> string \<Rightarrow> evaluator_exn + real" where
  "float_cell w row key =
     (case row key of
        None \<Rightarrow> Inr 0
      | Some None \<Rightarrow> Inl (TypeError ''float() argument must be a string or a real number'')
      | Some (Some text) \<Rightarrow>
          (case float_of_str w text of
             None \<Rightarrow> Inl (ValueError ''could not convert string to float'')
           | Some x \<Rightarrow> Inr x))"

definition parse_metrics_csv :: "world \<Rightarrow> evaluator_exn + (real \<times> real \<times> real)" where
  "parse_metrics_csv w =
     (case metrics_rows w of
        [] \<Rightarrow> Inl (ValueError ''No rows found in metrics CSV'')
      | row # _ \<Rightarrow>
          ebind (float_cell w row ''avg_req_per_sec'') (\<lambda>avg_tput.
          ebind (float_cell w row ''avg_latency_ms'') (\<lambda>avg_latency.
          ebind (float_cell w row ''score'') (\<lambda>score.
          Inr (avg_tput, avg_latency, score)))))"

definition str_opt_int :: "int option \<Rightarrow> string" where
  "str_opt_int c = (case c of None \<Rightarrow> ''None'' | Some i \<Rightarrow> str_int i)"

subsection \<open>\<open>evaluate\<close>\<close>

text \<open>The \<open>finally\<close> block: the servers are torn down, and the captured output is added to
  \<open>artifacts\<close>, the dictionary the returned result holds, unless the buffer is empty or the
  key is there already.\<close>

definition finally_block :: "world \<Rightarrow> evaluation_result \<Rightarrow> evaluation_result" where
  "finally_block w r =
     (if server_output w \<noteq> [] \<and> artifacts r ''launch_servers_output'' = None
      then r\<lparr> artifacts := (artifacts r)(''launch_servers_output'' \<mapsto> concat (server_output w)) \<rparr>
      else r)"

text \<open>The optional artifact of an auxiliary log: \<open>_latest_log\<close>, then \<open>_collect_artifact\<close>.\<close>

definition add_latest_log :: "world \<Rightarrow> string \<Rightarrow> string \<Rightarrow> (string \<rightharpoonup> string) \<Rightarrow> (string \<rightharpoonup> string)" where
  "add_latest_log w pattern key a =
     (case latest_log w pattern of
        None \<Rightarrow> a
      | Some p \<Rightarrow> (case collect_artifact w p of None \<Rightarrow> a | Some content \<Rightarrow> a(key \<mapsto> content)))"

text \<open>The \<open>try\<close> block once the servers have been started; \<open>m\<close> and \<open>a\<close> are the
  dictionaries \<open>metrics\<close> and \<open>artifacts\<close>.\<close>

definition evaluate_try :: "world \<Rightarrow> (string \<rightharpoonup> real) \<Rightarrow> (string \<rightharpoonup> string)
                             \<Rightarrow> evaluator_exn + evaluation_result" where
  "evaluate_try w m a =
     (if \<not> wait_for_server_logs w then
        Inr \<lparr> metrics = m,
              artifacts = a(''launch_failure'' \<mapsto>
                ''Server logs did not appear before timeout (exit_code=''
                  @ str_opt_int (poll_after_wait w) @ '').'') \<rparr>
      else if poll_when_ready w \<noteq> None then
        Inr \<lparr> metrics = m,
              artifacts = a(''launch_failure'' \<mapsto>
                ''launch_servers.sh exited early with code '' @ str_opt_int (poll_when_ready w)) \<rparr>
      else if scan_server_logs_for_errors w \<noteq> [] then
        Inr \<lparr> metrics = m,
              artifacts = (fold (\<lambda>(name, content) a'. a'(''log_'' @ name \<mapsto> content))
                             (scan_server_logs_for_errors w) a)
                          (''launch_failure'' \<mapsto> ''Detected 'error' keyword in server logs.'') \<rparr>
      else
        (let (workload_ok, workload_result) = run_workload w;
             a = a(''workload_stdout'' \<mapsto> stdout workload_result,
                   ''workload_stderr'' \<mapsto> stderr workload_result)
         in if \<not> workload_ok then
              Inr \<lparr> metrics = m,
                    artifacts = a(''workload_failure'' \<mapsto>
                      ''basic-workload.sh exited with code '' @ str_int (returncode workload_result)) \<rparr>
            else if \<not> path_exists w summary_path \<or> \<not> path_exists w metrics_path then
              Inr \<lparr> metrics = m,
                    artifacts = a(''workload_failure'' \<mapsto>
                      ''Expected workload summary files were not generated.'') \<rparr>
            else
              ebind (parse_metrics_csv w) (\<lambda>(avg_tput, avg_latency, total_score).
                let m = m(''average_tput'' \<mapsto> avg_tput, ''average_latency'' \<mapsto> avg_latency,
                          ''total_score'' \<mapsto> total_score, ''run_successful'' \<mapsto> 1);
                    a = (case collect_artifact w summary_path of
                           None \<Rightarrow> a | Some c \<Rightarrow> a(''basic_workload_summary_csv'' \<mapsto> c));
                    a = (case collect_artifact w metrics_path of
                           None \<Rightarrow> a | Some c \<Rightarrow> a(''basic_workload_metrics_csv'' \<mapsto> c));
                    a = add_latest_log w ''acceptq_stats*.log'' ''acceptq_stats_log'' a;
                    a = add_latest_log w ''cpu_stats*.log'' ''cpu_stats_log'' a
                in Inr \<lparr> metrics = m, artifacts = a \<rparr>)))"

text \<open>\<open>evaluate\<close> itself. An exception of the \<open>try\<close> block passes through the \<open>finally\<close>
  block to the caller; a result returned from it goes through \<open>finally_block\<close>. When
  \<open>_start_servers\<close> raises \<open>RuntimeError\<close> the local buffer \<open>server_output\<close> is still the
  empty list, so the \<open>finally\<close> block adds nothing. \<open>_terminate_process\<close> only acts on the
  process and does not touch the result.\<close>

definition evaluate :: "world \<Rightarrow> evaluator_exn + evaluation_result" where
  "evaluate w =
     (let m = METRICS_DEFAULTS;
          (compile_ok, compile_output) = run_go_generate w;
          a = [''compile_output'' \<mapsto> compile_output]
      in if \<not> compile_ok then Inr \<lparr> metrics = m, artifacts = a \<rparr>
         else
           (let m = m(''compile_successful'' \<mapsto> 1) in
            case start_servers w of
              Inl (RuntimeError msg) \<Rightarrow>
                Inr \<lparr> metrics = m, artifacts = a(''launch_failure'' \<mapsto> msg) \<rparr>
            | Inl exn \<Rightarrow> Inl exn
            | Inr _ \<Rightarrow>
                (case evaluate_try w m a of
                   Inl exn \<Rightarrow> Inl exn
                 | Inr r \<Rightarrow> Inr (finally_block w r))))"

section \<open>Notions used in the statements\<close>

text \<open>The lines of a worker's output that set the latency fields, and those that set the
  throughput fields: they begin (once stripped) with the heading and have at least three
  tokens. \<open>line_token i l\<close> is token \<open>i\<close> of line \<open>l\<close>.\<close>

definition latency_lines :: "string list \<Rightarrow> string list" where
  "latency_lines lines =
     filter (\<lambda>l. startswith (py_strip l) ''Latency'' \<and> 3 \<le> length (py_split (py_strip l))) lines"

definition req_lines :: "string list \<Rightarrow> string list" where
  "req_lines lines =
     filter (\<lambda>l. startswith (py_strip l) ''Req/Sec'' \<and> 3 \<le> length (py_split (py_strip l))) lines"

definition line_token :: "nat \<Rightarrow> string \<Rightarrow> string" where
  "line_token i l = py_split (py_strip l) ! i"

text \<open>The loop invariant of \<open>_extract_metrics_from_lines\<close>: the fields hold what the last
  setting line read so far gave.\<close>

definition latency_inv :: "string list \<Rightarrow> extract_vars \<Rightarrow> bool" where
  "latency_inv lines st =
     (if latency_lines lines = [] then v_latency_avg_ms st = None \<and> v_latency_stdev_ms st = None
      else (\<exists>a b. parse_latency (line_token 1 (last (latency_lines lines))) = Inr a
                 \<and> parse_latency (line_token 2 (last (latency_lines lines))) = Inr b
                 \<and> v_latency_avg_ms st = Some a \<and> v_latency_stdev_ms st = Some b))"

definition req_inv :: "string list \<Rightarrow> extract_vars \<Rightarrow> bool" where
  "req_inv lines st =
     (if req_lines lines = [] then v_req_avg st = None \<and> v_req_stdev st = None
      else (\<exists>a b. parse_throughput (line_token 1 (last (req_lines lines))) = Inr a
                 \<and> parse_throughput (line_token 2 (last (req_lines lines))) = Inr b
                 \<and> v_req_avg st = Some a \<and> v_req_stdev st = Some b))"

text \<open>The numbers of the unit parser, as the pattern \<open>[0-9]*\.?[0-9]+\<close> reads them: digits,
  or digits (possibly none), a dot and at least one digit; and the characters such a
  number is made of.\<close>

definition is_number :: "string \<Rightarrow> bool" where
  "is_number n = (\<exists>a b. list_all is_digit a \<and> list_all is_digit b \<and> b \<noteq> []
                        \<and> (n = a @ b \<or> n = a @ ''.'' @ b))"

definition is_numchar :: "char \<Rightarrow> bool" where
  "is_numchar c = (is_digit c \<or> c = CHR ''.'')"

text \<open>The texts \<open>_WORKER_RE\<close> matches at their start, with the digits it captures, and the
  lines the section patterns match, with the name they capture (\<open>kind\<close> is \<open>START\<close> or
  \<open>END\<close> with a space before it). A single newline may follow either.\<close>

definition worker_shape :: "string \<Rightarrow> string \<Rightarrow> bool" where
  "worker_shape s d =
     (\<exists>tail. s = ''wrk_client_'' @ d @ ''.log'' @ tail \<and> d \<noteq> [] \<and> list_all is_digit d
             \<and> (tail = [] \<or> tail = [CHR 0x0A]))"

definition section_shape :: "string \<Rightarrow> string \<Rightarrow> string \<Rightarrow> bool" where
  "section_shape kind s name =
     (\<exists>tail. s = ''===== '' @ name @ kind @ '' ====='' @ tail \<and> name \<noteq> []
             \<and> list_all (\<lambda>c. c \<noteq> CHR 0x0A) name \<and> (tail = [] \<or> tail = [CHR 0x0A]))"

text \<open>The stage at which \<open>evaluate\<close> stops, read off the observations in the order of the
  pipeline.\<close>

datatype stage = CompileFailed | LaunchFailed | NotReady | ExitedEarly | ErrorsInLogs
  | WorkloadFailed | ArtifactsMissing | SummaryParsed

definition stopped_at :: "world \<Rightarrow> stage" where
  "stopped_at w =
     (if \<not> fst (run_go_generate w) then CompileFailed
      else if popen_servers w \<noteq> None then LaunchFailed
      else if \<not> wait_for_server_logs w then NotReady
      else if poll_when_ready w \<noteq> None then ExitedEarly
      else if scan_server_logs_for_errors w \<noteq> [] then ErrorsInLogs
      else if \<not> fst (run_workload w) then WorkloadFailed
      else if \<not> path_exists w summary_path \<or> \<not> path_exists w metrics_path then ArtifactsMissing
      else SummaryParsed)"

text \<open>\<open>evaluate\<close> returns a result, not an exception, in which \<open>run_successful\<close> is 0 and
  the artifact \<open>key\<close> holds the text \<open>tx\<close>.\<close>

definition returns_failure :: "world \<Rightarrow> string \<Rightarrow> string \<Rightarrow> bool" where
  "returns_failure w key tx =
     (\<exists>r. evaluate w = Inr r \<and> metrics r ''run_successful'' = Some 0
          \<and> artifacts r key = Some tx)"


text \<open>Sample observations for the instances below: a run in which every stage succeeds,
  and variants of it in which one observation differs.\<close>

definition world_ok :: world where
  "world_ok =
     \<lparr> go_generate = Completed \<lparr> returncode = 0, stdout = [], stderr = [] \<rparr>,
       popen_servers = None,
       wait_for_server_logs = True,
       poll_after_wait = None,
       poll_when_ready = None,
       scan_server_logs_for_errors = [],
       workload = Completed \<lparr> returncode = 0, stdout = ''done'', stderr = [] \<rparr>,
       path_exists = (\<lambda>_. True),
       metrics_rows = [[''workers'' \<mapsto> Some ''3'', ''avg_latency_ms'' \<mapsto> Some ''10.000000'',
                        ''avg_req_per_sec'' \<mapsto> Some ''200.000000'', ''score'' \<mapsto> Some ''20.000000'']],
       float_of_str = (\<lambda>s. if s = ''10.000000'' then Some 10
                            else if s = ''200.000000'' then Some 200
                            else if s = ''20.000000'' then Some 20 else None),
       collect_artifact = (\<lambda>_. None),
       latest_log = (\<lambda>_. None),
       server_output = [''starting servers''] \<rparr>"

definition world_compile_error :: world where
  "world_compile_error =
     world_ok\<lparr> go_generate := Completed \<lparr> returncode = 1, stdout = [], stderr = ''build failed'' \<rparr> \<rparr>"

definition world_not_ready :: world where
  "world_not_ready = world_ok\<lparr> wait_for_server_logs := False, poll_after_wait := Some 1 \<rparr>"

definition world_go_missing :: world where
  "world_go_missing = world_ok\<lparr> go_generate := FileNotFoundError ''go'' \<rparr>"

definition world_launch_missing :: world where
  "world_launch_missing = world_ok\<lparr> popen_servers := Some ''launch_servers.sh'' \<rparr>"

definition world_exited_early :: world where
  "world_exited_early = world_ok\<lparr> poll_when_ready := Some 3 \<rparr>"

definition world_error_logs :: world where
  "world_error_logs =
     world_ok\<lparr> scan_server_logs_for_errors := [(''server1.log'', ''bind error'')] \<rparr>"

definition world_workload_missing :: world where
  "world_workload_missing = world_ok\<lparr> workload := FileNotFoundError ''basic-workload.sh'' \<rparr>"

definition world_workload_exit_2 :: world where
  "world_workload_exit_2 =
     world_ok\<lparr> workload := Completed \<lparr> returncode = 2, stdout = [], stderr = ''wrk failed'' \<rparr> \<rparr>"

definition world_no_summary :: world where
  "world_no_summary = world_ok\<lparr> path_exists := (\<lambda>p. p \<noteq> summary_path) \<rparr>"

definition world_no_rows :: world where
  "world_no_rows = world_ok\<lparr> metrics_rows := [] \<rparr>"

definition world_bad_number :: world where
  "world_bad_number = world_ok\<lparr> metrics_rows := [[''avg_req_per_sec'' \<mapsto> Some ''n/a'']] \<rparr>"


section \<open>Properties\<close>

subsection \<open>Loops and error values\<close>

lemma efold_append:
  "efold f (xs @ ys) s = (case efold f xs s of Inl e \<Rightarrow> Inl e | Inr s' \<Rightarrow> efold f ys s')"
  by (induction xs arbitrary: s) (auto split: sum.splits)

lemma efold_snoc:
  "efold f (xs @ [x]) s = (case efold f xs s of Inl e \<Rightarrow> Inl e | Inr s' \<Rightarrow> f s' x)"
  by (simp add: efold_append split: sum.splits)

lemma parse_latency_error: "parse_latency t = Inl e \<Longrightarrow> e = FormatError"
  by (auto simp: parse_latency_def split: option.splits prod.splits)

lemma parse_throughput_error: "parse_throughput t = Inl e \<Longrightarrow> e = FormatError"
  by (auto simp: parse_throughput_def Let_def split: option.splits prod.splits if_splits)

lemma ebind_Inr_iff: "ebind m f = Inr y \<longleftrightarrow> (\<exists>v. m = Inr v \<and> f v = Inr y)"
  by (cases m) auto

lemma ebind_Inl_iff: "ebind m f = Inl e \<longleftrightarrow> m = Inl e \<or> (\<exists>v. m = Inr v \<and> f v = Inl e)"
  by (cases m) auto

lemma extract_step_error: "extract_step st l = Inl e \<Longrightarrow> e = FormatError"
  by (auto simp: extract_step_def Let_def ebind_Inl_iff split: if_splits
           dest: parse_latency_error parse_throughput_error)

lemma extract_loop_error: "efold extract_step lines st = Inl e \<Longrightarrow> e = FormatError"
  by (induction lines arbitrary: st) (auto split: sum.splits dest: extract_step_error)

lemma not_both_prefixes: "startswith l ''Req/Sec'' \<Longrightarrow> \<not> startswith l ''Latency''"
  by (auto simp: startswith_def)

lemma extract_step_short:
  "(startswith (py_strip l) ''Latency'' \<or> startswith (py_strip l) ''Req/Sec'')
     \<Longrightarrow> length (py_split (py_strip l)) < 3 \<Longrightarrow> extract_step st l = Inr st"
  by (auto simp: extract_step_def Let_def)

lemma extract_step_latency:
  "startswith (py_strip l) ''Latency'' \<Longrightarrow> 3 \<le> length (py_split (py_strip l)) \<Longrightarrow>
   extract_step st l = Inr st' \<longleftrightarrow>
     (\<exists>a b. parse_latency (line_token 1 l) = Inr a \<and> parse_latency (line_token 2 l) = Inr b
            \<and> st' = st\<lparr> v_latency_avg_ms := Some a, v_latency_stdev_ms := Some b \<rparr>)"
  by (auto simp: extract_step_def Let_def line_token_def ebind_Inr_iff)

lemma extract_step_req:
  "startswith (py_strip l) ''Req/Sec'' \<Longrightarrow> 3 \<le> length (py_split (py_strip l)) \<Longrightarrow>
   extract_step st l = Inr st' \<longleftrightarrow>
     (\<exists>a b. parse_throughput (line_token 1 l) = Inr a \<and> parse_throughput (line_token 2 l) = Inr b
            \<and> st' = st\<lparr> v_req_avg := Some a, v_req_stdev := Some b \<rparr>)"
  using not_both_prefixes[of "py_strip l"]
  by (auto simp: extract_step_def Let_def line_token_def ebind_Inr_iff)

lemma extract_step_other:
  "\<not> (startswith (py_strip l) ''Latency'' \<and> 3 \<le> length (py_split (py_strip l))) \<Longrightarrow>
   \<not> (startswith (py_strip l) ''Req/Sec'' \<and> 3 \<le> length (py_split (py_strip l))) \<Longrightarrow>
   extract_step st l = Inr st"
  by (auto simp: extract_step_def Let_def)

lemma extract_loop_inv:
  "efold extract_step lines extract_init = Inr st \<Longrightarrow> latency_inv lines st \<and> req_inv lines st"
proof (induction lines arbitrary: st rule: rev_induct)
  case Nil
  then show ?case
    by (auto simp: latency_inv_def req_inv_def latency_lines_def req_lines_def extract_init_def)
next
  case (snoc l lines)
  from snoc.prems obtain st0 where
    st0: "efold extract_step lines extract_init = Inr st0" and step: "extract_step st0 l = Inr st"
    by (auto simp: efold_snoc split: sum.splits)
  from snoc.IH[OF st0] have inv: "latency_inv lines st0" "req_inv lines st0" by auto
  consider
    (lat) "startswith (py_strip l) ''Latency''" "3 \<le> length (py_split (py_strip l))"
  | (req) "startswith (py_strip l) ''Req/Sec''" "3 \<le> length (py_split (py_strip l))"
  | (other) "\<not> (startswith (py_strip l) ''Latency'' \<and> 3 \<le> length (py_split (py_strip l)))"
            "\<not> (startswith (py_strip l) ''Req/Sec'' \<and> 3 \<le> length (py_split (py_strip l)))"
    by blast
  then show ?case
  proof cases
    case lat
    then have nr: "\<not> startswith (py_strip l) ''Req/Sec''"
      using not_both_prefixes by blast
    from lat step obtain a b where
      "parse_latency (line_token 1 l) = Inr a" "parse_latency (line_token 2 l) = Inr b"
      "st = st0\<lparr> v_latency_avg_ms := Some a, v_latency_stdev_ms := Some b \<rparr>"
      by (auto simp: extract_step_latency)
    with lat nr inv show ?thesis
      by (auto simp: latency_inv_def req_inv_def latency_lines_def req_lines_def)
  next
    case req
    then have nl: "\<not> startswith (py_strip l) ''Latency''"
      using not_both_prefixes by blast
    from req step obtain a b where
      "parse_throughput (line_token 1 l) = Inr a" "parse_throughput (line_token 2 l) = Inr b"
      "st = st0\<lparr> v_req_avg := Some a, v_req_stdev := Some b \<rparr>"
      by (auto simp: extract_step_req)
    with req nl inv show ?thesis
      by (auto simp: latency_inv_def req_inv_def latency_lines_def req_lines_def)
  next
    case other
    with step have "st = st0" by (simp add: extract_step_other)
    with other inv show ?thesis
      by (auto simp: latency_inv_def req_inv_def latency_lines_def req_lines_def)
  qed
qed

lemma missing_fields_Nil:
  "missing_fields st = [] \<longleftrightarrow>
     v_latency_avg_ms st \<noteq> None \<and> v_latency_stdev_ms st \<noteq> None
     \<and> v_req_avg st \<noteq> None \<and> v_req_stdev st \<noteq> None"
  by (auto simp: missing_fields_def)

lemma extract_Inr_iff:
  "extract_metrics_from_lines lines = Inr r \<longleftrightarrow>
     (\<exists>st. efold extract_step lines extract_init = Inr st \<and> missing_fields st = []
          \<and> r = (the (v_latency_avg_ms st), the (v_latency_stdev_ms st),
                 the (v_req_avg st), the (v_req_stdev st)))"
  by (auto simp: extract_metrics_from_lines_def ebind_Inr_iff)

text \<open>
  Claim C1, as the code has it. When \<open>_extract_metrics_from_lines\<close> returns, the latency
  average and standard deviation are those parsed from tokens 1 and 2 of the LAST line
  that begins with \<open>Latency\<close> and has at least three tokens, and the throughput values
  those of the last such line beginning with \<open>Req/Sec\<close>: a later matching line overwrites
  an earlier one.
\<close>

theorem last_matching_line_wins:
  "extract_metrics_from_lines lines = Inr (la, ls, ra, rs) \<longrightarrow>
     latency_lines lines \<noteq> [] \<and> req_lines lines \<noteq> []
     \<and> parse_latency (line_token 1 (last (latency_lines lines))) = Inr la
     \<and> parse_latency (line_token 2 (last (latency_lines lines))) = Inr ls
     \<and> parse_throughput (line_token 1 (last (req_lines lines))) = Inr ra
     \<and> parse_throughput (line_token 2 (last (req_lines lines))) = Inr rs"
proof
  assume "extract_metrics_from_lines lines = Inr (la, ls, ra, rs)"
  then obtain st where st: "efold extract_step lines extract_init = Inr st"
    and m: "missing_fields st = []"
    and r: "la = the (v_latency_avg_ms st)" "ls = the (v_latency_stdev_ms st)"
           "ra = the (v_req_avg st)" "rs = the (v_req_stdev st)"
    by (auto simp: extract_Inr_iff)
  from extract_loop_inv[OF st] have "latency_inv lines st" "req_inv lines st" by auto
  with m r show "latency_lines lines \<noteq> [] \<and> req_lines lines \<noteq> []
     \<and> parse_latency (line_token 1 (last (latency_lines lines))) = Inr la
     \<and> parse_latency (line_token 2 (last (latency_lines lines))) = Inr ls
     \<and> parse_throughput (line_token 1 (last (req_lines lines))) = Inr ra
     \<and> parse_throughput (line_token 2 (last (req_lines lines))) = Inr rs"
    by (auto simp: latency_inv_def req_inv_def missing_fields_Nil split: if_splits)
qed

theorem last_matching_line_wins_witness:
  "extract_metrics_from_lines [''Latency 1ms 1ms'', ''Latency 2ms 3ms'', ''Req/Sec 1 1'', ''Req/Sec 2k 4k'']
     = Inr (2, 3, 2000, 4000)
   \<and> last (latency_lines [''Latency 1ms 1ms'', ''Latency 2ms 3ms'', ''Req/Sec 1 1'', ''Req/Sec 2k 4k''])
     = ''Latency 2ms 3ms''
   \<and> parse_latency (line_token 1
        (last (latency_lines [''Latency 1ms 1ms'', ''Latency 2ms 3ms'', ''Req/Sec 1 1'', ''Req/Sec 2k 4k''])))
     = Inr 2
   \<and> parse_throughput (line_token 2
        (last (req_lines [''Latency 1ms 1ms'', ''Latency 2ms 3ms'', ''Req/Sec 1 1'', ''Req/Sec 2k 4k''])))
     = Inr 4000"
proof -
  have ev: "extract_metrics_from_lines
              [''Latency 1ms 1ms'', ''Latency 2ms 3ms'', ''Req/Sec 1 1'', ''Req/Sec 2k 4k'']
            = Inr (2, 3, 2000, 4000)"
    by code_simp
  have l: "last (latency_lines [''Latency 1ms 1ms'', ''Latency 2ms 3ms'', ''Req/Sec 1 1'', ''Req/Sec 2k 4k''])
     = ''Latency 2ms 3ms''"
    by code_simp
  show ?thesis
    using last_matching_line_wins
            [of "[''Latency 1ms 1ms'', ''Latency 2ms 3ms'', ''Req/Sec 1 1'', ''Req/Sec 2k 4k'']"
                2 3 2000 4000] ev l
    by simp
qed

text \<open>
  The claim as the specification words it (the first matching line wins) fails: with two
  \<open>Latency\<close> lines and two \<open>Req/Sec\<close> lines the values returned are those of the second
  lines, not those parsed from the first ones.
\<close>

theorem first_matching_line_counterexample:
  "extract_metrics_from_lines [''Latency 1ms 1ms'', ''Latency 2ms 3ms'', ''Req/Sec 1 1'', ''Req/Sec 2k 4k'']
     = Inr (2, 3, 2000, 4000)
   \<and> parse_latency (line_token 1 ''Latency 1ms 1ms'') = Inr 1
   \<and> parse_latency (line_token 2 ''Latency 1ms 1ms'') = Inr 1
   \<and> parse_throughput (line_token 1 ''Req/Sec 1 1'') = Inr 1
   \<and> parse_throughput (line_token 2 ''Req/Sec 1 1'') = Inr 1"
  by code_simp

text \<open>
  Claim C10. A line beginning with \<open>Latency\<close> or \<open>Req/Sec\<close> that has fewer than three
  tokens leaves the variables of the loop as they were and raises nothing, so the result
  is that of the input without the line (a later line can still set the fields); and
  \<open>MissingFieldError\<close> is raised exactly when the loop reaches the end of the input with a
  field still unset, naming the unset fields.
\<close>

theorem short_line_skipped:
  "((startswith (py_strip l) ''Latency'' \<or> startswith (py_strip l) ''Req/Sec'')
      \<and> length (py_split (py_strip l)) < 3
    \<longrightarrow> extract_step st l = Inr st
        \<and> extract_metrics_from_lines (xs @ l # ys) = extract_metrics_from_lines (xs @ ys))
   \<and> (extract_metrics_from_lines lines = Inl (MissingFieldError ms)
        \<longleftrightarrow> (\<exists>st'. efold extract_step lines extract_init = Inr st'
                  \<and> ms = missing_fields st'
                  \<and> (v_latency_avg_ms st' = None \<or> v_latency_stdev_ms st' = None
                      \<or> v_req_avg st' = None \<or> v_req_stdev st' = None)))"
proof (intro conjI impI)
  assume a: "(startswith (py_strip l) ''Latency'' \<or> startswith (py_strip l) ''Req/Sec'')
      \<and> length (py_split (py_strip l)) < 3"
  then show "extract_step st l = Inr st" by (simp add: extract_step_short)
  have "efold extract_step (xs @ l # ys) extract_init = efold extract_step (xs @ ys) extract_init"
    using a by (auto simp: efold_append extract_step_short split: sum.splits)
  then show "extract_metrics_from_lines (xs @ l # ys) = extract_metrics_from_lines (xs @ ys)"
    by (simp add: extract_metrics_from_lines_def)
next
  show "extract_metrics_from_lines lines = Inl (MissingFieldError ms)
        \<longleftrightarrow> (\<exists>st'. efold extract_step lines extract_init = Inr st'
                  \<and> ms = missing_fields st'
                  \<and> (v_latency_avg_ms st' = None \<or> v_latency_stdev_ms st' = None
                      \<or> v_req_avg st' = None \<or> v_req_stdev st' = None))"
  proof (cases "efold extract_step lines extract_init")
    case (Inl e)
    then have "e = FormatError" by (rule extract_loop_error)
    with Inl show ?thesis by (simp add: extract_metrics_from_lines_def)
  next
    case (Inr st')
    then show ?thesis
      using missing_fields_Nil[of st']
      by (auto simp: extract_metrics_from_lines_def)
  qed
qed

theorem short_line_skipped_witness:
  "startswith (py_strip ''  Latency 5ms'') ''Latency''
   \<and> length (py_split (py_strip ''  Latency 5ms'')) < 3
   \<and> extract_metrics_from_lines ([''junk''] @ ''  Latency 5ms'' # [''Latency 1ms 2ms'', ''Req/Sec 3 4''])
       = Inr (1, 2, 3, 4)
   \<and> extract_metrics_from_lines [''Req/Sec 3 4'', ''  Latency 5ms'']
       = Inl (MissingFieldError [''latency_avg'', ''latency_stdev''])"
proof -
  have a: "startswith (py_strip ''  Latency 5ms'') ''Latency''
           \<and> length (py_split (py_strip ''  Latency 5ms'')) < 3"
    by code_simp
  have b: "extract_metrics_from_lines ([''junk''] @ [''Latency 1ms 2ms'', ''Req/Sec 3 4'']) = Inr (1, 2, 3, 4)"
    by code_simp
  have c: "efold extract_step [''Req/Sec 3 4'', ''  Latency 5ms''] extract_init
             = Inr \<lparr> v_latency_avg_ms = None, v_latency_stdev_ms = None,
                     v_req_avg = Some 3, v_req_stdev = Some 4 \<rparr>"
    by code_simp
  have d: "missing_fields \<lparr> v_latency_avg_ms = None, v_latency_stdev_ms = None,
                     v_req_avg = Some 3, v_req_stdev = Some 4 \<rparr> = [''latency_avg'', ''latency_stdev'']"
    by code_simp
  show ?thesis
    using short_line_skipped
            [of "''  Latency 5ms''" extract_init "[''junk'']" "[''Latency 1ms 2ms'', ''Req/Sec 3 4'']"
                "[''Req/Sec 3 4'', ''  Latency 5ms'']" "[''latency_avg'', ''latency_stdev'']"]
          a b c d
    by auto
qed

subsection \<open>Regular expressions: what the matchers accept\<close>

lemma m_lit_set: "(x, r) \<in> set (m_lit p s) \<longleftrightarrow> x = p \<and> s = p @ r"
  by (auto simp: m_lit_def) (metis append_take_drop_id)

lemma m_star_set: "(x, r) \<in> set (m_star P s) \<longleftrightarrow> s = x @ r \<and> list_all P x"
  by (induction s arbitrary: x r) (auto simp: Cons_eq_append_conv)

lemma m_plus_set: "(x, r) \<in> set (m_plus P s) \<longleftrightarrow> s = x @ r \<and> x \<noteq> [] \<and> list_all P x"
  by (cases s) (auto simp: m_plus_def m_star_set Cons_eq_append_conv)

lemma m_opt_set: "(x, r) \<in> set (m_opt m s) \<longleftrightarrow> (x, r) \<in> set (m s) \<or> (x = [] \<and> r = s)"
  by (auto simp: m_opt_def)

lemma m_seq_set:
  "(z, r) \<in> set (m_seq a b s) \<longleftrightarrow>
     (\<exists>x y r1. z = x @ y \<and> (x, r1) \<in> set (a s) \<and> (y, r) \<in> set (b r1))"
  by (fastforce simp: m_seq_def)

lemma m_dollar_set:
  "(x, r) \<in> set (m_dollar s) \<longleftrightarrow> x = [] \<and> r = s \<and> (s = [] \<or> s = [CHR 0x0A])"
  by (auto simp: m_dollar_def)

lemma match2_set:
  "((x, y), r) \<in> set (match2 g1 g2 s) \<longleftrightarrow> (\<exists>r1. (x, r1) \<in> set (g1 s) \<and> (y, r) \<in> set (g2 r1))"
  by (fastforce simp: match2_def)

lemma re_number_set: "(x, r) \<in> set (re_number s) \<longleftrightarrow> s = x @ r \<and> is_number x"
proof
  assume "(x, r) \<in> set (re_number s)"
  then obtain a y r1 where x: "x = a @ y" and a: "(a, r1) \<in> set (m_star is_digit s)"
    and y: "(y, r) \<in> set (m_seq (m_opt (m_lit ''.'')) (m_plus is_digit) r1)"
    unfolding re_number_def m_seq_set by blast
  from y obtain d b r2 where y2: "y = d @ b" and d: "(d, r2) \<in> set (m_opt (m_lit ''.'') r1)"
    and b: "(b, r) \<in> set (m_plus is_digit r2)"
    unfolding m_seq_set by blast
  from a have s: "s = a @ r1" and da: "list_all is_digit a" by (simp_all add: m_star_set)
  from b have r2: "r2 = b @ r" and db: "b \<noteq> []" "list_all is_digit b" by (simp_all add: m_plus_set)
  from d have "(d = ''.'' \<and> r1 = ''.'' @ r2) \<or> (d = [] \<and> r2 = r1)"
    by (auto simp: m_opt_set m_lit_set)
  then show "s = x @ r \<and> is_number x"
  proof
    assume "d = ''.'' \<and> r1 = ''.'' @ r2"
    with x y2 s r2 da db show ?thesis unfolding is_number_def by auto
  next
    assume "d = [] \<and> r2 = r1"
    with x y2 s r2 da db show ?thesis unfolding is_number_def by auto
  qed
next
  assume "s = x @ r \<and> is_number x"
  then obtain a b where s: "s = x @ r" and da: "list_all is_digit a" and db: "list_all is_digit b" "b \<noteq> []"
    and x: "x = a @ b \<or> x = a @ ''.'' @ b"
    unfolding is_number_def by blast
  from x show "(x, r) \<in> set (re_number s)"
  proof
    assume x: "x = a @ b"
    have 1: "(a, b @ r) \<in> set (m_star is_digit s)" using s x da by (simp add: m_star_set)
    have 2: "([], b @ r) \<in> set (m_opt (m_lit ''.'') (b @ r))" by (simp add: m_opt_set)
    have 3: "(b, r) \<in> set (m_plus is_digit (b @ r))" using db by (simp add: m_plus_set)
    have "([] @ b, r) \<in> set (m_seq (m_opt (m_lit ''.'')) (m_plus is_digit) (b @ r))"
      unfolding m_seq_set using 2 3 by blast
    then have "(a @ b, r) \<in> set (re_number s)"
      unfolding re_number_def m_seq_set[of _ _ "m_star is_digit"] using 1 by auto
    with x show ?thesis by simp
  next
    assume x: "x = a @ ''.'' @ b"
    have 1: "(a, ''.'' @ b @ r) \<in> set (m_star is_digit s)" using s x da by (simp add: m_star_set)
    have 2: "(''.'', b @ r) \<in> set (m_opt (m_lit ''.'') (''.'' @ b @ r))" by (simp add: m_opt_set m_lit_set)
    have 3: "(b, r) \<in> set (m_plus is_digit (b @ r))" using db by (simp add: m_plus_set)
    have "(''.'' @ b, r) \<in> set (m_seq (m_opt (m_lit ''.'')) (m_plus is_digit) (''.'' @ b @ r))"
      unfolding m_seq_set using 2 3 by blast
    then have "(a @ ''.'' @ b, r) \<in> set (re_number s)"
      unfolding re_number_def m_seq_set[of _ _ "m_star is_digit"] using 1 by blast
    with x show ?thesis by simp
  qed
qed

lemma re_letters_set: "(y, r) \<in> set (re_letters s) \<longleftrightarrow> s = y @ r \<and> y \<noteq> [] \<and> list_all is_lower y"
  by (simp add: re_letters_def m_plus_set)

lemma re_kmg_opt_set:
  "(y, r) \<in> set (re_kmg_opt s) \<longleftrightarrow> s = y @ r \<and> y \<in> {[], ''k'', ''m'', ''g''}"
  by (cases s) (auto simp: re_kmg_opt_def m_opt_def)

subsection \<open>Letter case and character classes\<close>

lemma lower_char_id: "\<not> is_upper c \<Longrightarrow> lower_char c = c"
proof -
  assume a: "\<not> is_upper c"
  have "map fst lower_table = ''ABCDEFGHIJKLMNOPQRSTUVWXYZ''"
    unfolding lower_table_def by (rule map_fst_zip) simp
  then have "fst ` set lower_table = set ''ABCDEFGHIJKLMNOPQRSTUVWXYZ''"
    by (metis set_map)
  with a have "map_of lower_table c = None"
    unfolding is_upper_def map_of_eq_None_iff by blast
  then show ?thesis by (simp add: lower_char_def)
qed

lemma lower_char_cases: "lower_char c = c \<or> is_lower (lower_char c)"
proof (cases "map_of lower_table c")
  case None
  then show ?thesis by (simp add: lower_char_def)
next
  case (Some d)
  then have "(c, d) \<in> set lower_table"
    by (rule map_of_SomeD)
  then have "d \<in> set ''abcdefghijklmnopqrstuvwxyz''"
    unfolding lower_table_def by (rule set_zip_rightD)
  then have "is_lower d" unfolding is_lower_def .
  with Some show ?thesis by (simp add: lower_char_def)
qed

lemma numchar_not_upper: "is_numchar c \<Longrightarrow> \<not> is_upper c"
  by (auto simp: is_numchar_def is_digit_def is_upper_def)

lemma numchar_not_lower: "is_numchar c \<Longrightarrow> \<not> is_lower c"
  by (auto simp: is_numchar_def is_digit_def is_lower_def)

lemma lower_not_upper: "is_lower c \<Longrightarrow> \<not> is_upper c"
  by (auto simp: is_lower_def is_upper_def)

lemma space_not_upper: "is_space c \<Longrightarrow> \<not> is_upper c"
  by (auto simp: is_space_def is_upper_def)

lemma numchar_not_space: "is_numchar c \<Longrightarrow> \<not> is_space c"
  by (auto simp: is_numchar_def is_digit_def is_space_def)

lemma lower_not_space: "is_lower c \<Longrightarrow> \<not> is_space c"
  by (auto simp: is_lower_def is_space_def)

lemma lower_char_numchar: "is_numchar (lower_char c) \<Longrightarrow> lower_char c = c"
  using lower_char_cases[of c] numchar_not_lower by blast

lemma py_lower_numchars: "list_all is_numchar n \<Longrightarrow> py_lower n = n"
  by (induction n) (auto simp: py_lower_def lower_char_id numchar_not_upper)

lemma py_lower_numchars_inv: "list_all is_numchar (py_lower n) \<Longrightarrow> py_lower n = n"
  by (induction n) (auto simp: py_lower_def intro: lower_char_numchar)

lemma py_lower_lower: "list_all is_lower u \<Longrightarrow> py_lower u = u"
  by (induction u) (auto simp: py_lower_def lower_char_id lower_not_upper)

lemma py_lower_append: "py_lower (a @ b) = py_lower a @ py_lower b"
  by (simp add: py_lower_def)

lemma is_number_numchars: "is_number n \<Longrightarrow> list_all is_numchar n"
  by (auto simp: is_number_def is_numchar_def list_all_iff)

lemma is_number_nonempty: "is_number n \<Longrightarrow> n \<noteq> []"
  by (auto simp: is_number_def)

lemma takeWhile_prefix:
  "list_all P x \<Longrightarrow> y = [] \<or> \<not> P (hd y) \<Longrightarrow> takeWhile P (x @ y) = x"
  by (induction x) (auto simp: takeWhile_eq_Nil_iff)

lemma split_unique:
  assumes "x @ y = x' @ y'" "list_all P x" "list_all P x'"
    "y = [] \<or> \<not> P (hd y)" "y' = [] \<or> \<not> P (hd y')"
  shows "x = x' \<and> y = y'"
proof -
  have "x = takeWhile P (x @ y)" using assms(2,4) by (simp add: takeWhile_prefix)
  also have "\<dots> = takeWhile P (x' @ y')" using assms(1) by simp
  also have "\<dots> = x'" using assms(3,5) by (simp add: takeWhile_prefix)
  finally have "x = x'" .
  with assms(1) show ?thesis by simp
qed

lemma fullmatch2_None:
  "fullmatch2 g1 g2 s = None \<longleftrightarrow> (\<forall>g. (g, []) \<notin> set (match2 g1 g2 s))"
proof
  assume "fullmatch2 g1 g2 s = None"
  then have "filter (\<lambda>(g, r). r = []) (match2 g1 g2 s) = []"
    by (auto simp: fullmatch2_def split: list.splits)
  then show "\<forall>g. (g, []) \<notin> set (match2 g1 g2 s)"
    by (auto simp: filter_empty_conv)
next
  assume a: "\<forall>g. (g, []) \<notin> set (match2 g1 g2 s)"
  have "filter (\<lambda>(g, r). r = []) (match2 g1 g2 s) = []"
    unfolding filter_empty_conv using a by auto
  then show "fullmatch2 g1 g2 s = None" by (simp add: fullmatch2_def)
qed

lemma fullmatch2_SomeD:
  "fullmatch2 g1 g2 s = Some g \<Longrightarrow> (g, []) \<in> set (match2 g1 g2 s)"
proof -
  assume a: "fullmatch2 g1 g2 s = Some g"
  then obtain r rest where f: "filter (\<lambda>(g, r). r = []) (match2 g1 g2 s) = (g, r) # rest"
    by (auto simp: fullmatch2_def split: list.splits)
  then have "(g, r) \<in> set (filter (\<lambda>(g, r). r = []) (match2 g1 g2 s))" by simp
  then show ?thesis by auto
qed

lemma fullmatch2_unique:
  assumes "(g, []) \<in> set (match2 g1 g2 s)"
    and "\<And>g'. (g', []) \<in> set (match2 g1 g2 s) \<Longrightarrow> g' = g"
  shows "fullmatch2 g1 g2 s = Some g"
proof (cases "fullmatch2 g1 g2 s")
  case None
  with assms(1) show ?thesis by (cases g) (auto simp: fullmatch2_None)
next
  case (Some g')
  then have "(g', []) \<in> set (match2 g1 g2 s)" by (rule fullmatch2_SomeD)
  then have "g' = g" by (rule assms(2))
  with Some show ?thesis by simp
qed

lemma match_number_letters:
  "((x, y), []) \<in> set (match2 re_number re_letters s)
     \<longleftrightarrow> s = x @ y \<and> is_number x \<and> y \<noteq> [] \<and> list_all is_lower y"
  by (auto simp: match2_set re_number_set re_letters_set)

lemma match_number_kmg:
  "((x, y), []) \<in> set (match2 re_number re_kmg_opt s)
     \<longleftrightarrow> s = x @ y \<and> is_number x \<and> y \<in> {[], ''k'', ''m'', ''g''}"
  by (auto simp: match2_set re_number_set re_kmg_opt_set)

lemma fullmatch_number_letters:
  assumes "is_number n" "u \<noteq> []" "list_all is_lower u"
  shows "fullmatch2 re_number re_letters (n @ u) = Some (n, u)"
proof (rule fullmatch2_unique)
  show "((n, u), []) \<in> set (match2 re_number re_letters (n @ u))"
    using assms by (simp add: match_number_letters)
next
  fix g' assume a: "(g', []) \<in> set (match2 re_number re_letters (n @ u))"
  obtain x y where g': "g' = (x, y)" by (cases g')
  from a g' have 1: "n @ u = x @ y" "is_number x" "y \<noteq> []" "list_all is_lower y"
    by (simp_all add: match_number_letters)
  have "\<not> is_numchar (hd u)" "\<not> is_numchar (hd y)"
    using assms(2,3) 1(3,4) numchar_not_lower by (cases u; cases y; auto)+
  then have "n = x \<and> u = y"
    using split_unique[of n u x y is_numchar] 1 assms(1) is_number_numchars by blast
  with g' show "g' = (n, u)" by simp
qed

lemma kmg_not_numchar: "y \<in> {[], ''k'', ''m'', ''g''} \<Longrightarrow> y = [] \<or> \<not> is_numchar (hd y)"
  by (auto simp: is_numchar_def is_digit_def)

lemma fullmatch_number_kmg:
  assumes "is_number n" "u \<in> {[], ''k'', ''m'', ''g''}"
  shows "fullmatch2 re_number re_kmg_opt (n @ u) = Some (n, u)"
proof (rule fullmatch2_unique)
  show "((n, u), []) \<in> set (match2 re_number re_kmg_opt (n @ u))"
    using assms by (simp add: match_number_kmg)
next
  fix g' assume a: "(g', []) \<in> set (match2 re_number re_kmg_opt (n @ u))"
  obtain x y where g': "g' = (x, y)" by (cases g')
  from a g' have 1: "n @ u = x @ y" "is_number x" "y \<in> {[], ''k'', ''m'', ''g''}"
    by (simp_all add: match_number_kmg)
  have "n = x \<and> u = y"
    using split_unique[of n u x y is_numchar] 1 assms is_number_numchars kmg_not_numchar
    by blast
  with g' show "g' = (n, u)" by simp
qed

subsection \<open>UnitParser\<close>

lemma py_lower_take: "py_lower (take k t) = take k (py_lower t)"
  by (simp add: py_lower_def take_map)

lemma py_lower_drop: "py_lower (drop k t) = drop k (py_lower t)"
  by (simp add: py_lower_def drop_map)

lemma py_lower_split:
  assumes "py_lower t = num @ u'" "list_all is_numchar num"
  shows "\<exists>u. t = num @ u \<and> py_lower u = u'"
proof -
  let ?n = "take (length num) t" and ?u = "drop (length num) t"
  have "py_lower ?n = num" using assms(1) by (simp add: py_lower_take)
  then have "?n = num" using py_lower_numchars_inv[of ?n] assms(2) by simp
  moreover have "py_lower ?u = u'" using assms(1) by (simp add: py_lower_drop)
  ultimately show ?thesis by (metis append_take_drop_id)
qed

lemma latency_units_dom:
  "map_of LATENCY_UNITS_MS u = Some f \<Longrightarrow> u \<in> {''us'', ''ms'', ''s''}"
  by (auto simp: LATENCY_UNITS_MS_def split: if_splits)

lemma latency_unit_lower: "u \<in> {''us'', ''ms'', ''s''} \<Longrightarrow> u \<noteq> [] \<and> list_all is_lower u"
  by (auto simp: is_lower_def)

lemma parse_latency_ok:
  assumes "is_number n" "py_lower u \<in> {''us'', ''ms'', ''s''}"
  shows "parse_latency (n @ u) =
           (case map_of LATENCY_UNITS_MS (py_lower u) of
              None \<Rightarrow> Inl FormatError
            | Some factor \<Rightarrow> Inr (float_of_decimal n * factor))"
proof -
  have "py_lower (n @ u) = n @ py_lower u"
    using assms(1) by (simp add: py_lower_append py_lower_numchars is_number_numchars)
  moreover have "fullmatch2 re_number re_letters (n @ py_lower u) = Some (n, py_lower u)"
    using assms latency_unit_lower[of "py_lower u"] by (intro fullmatch_number_letters) auto
  ultimately show ?thesis by (simp add: parse_latency_def)
qed

lemma parse_latency_Inr_shape:
  assumes "parse_latency t \<noteq> Inl FormatError"
  shows "\<exists>n u. t = n @ u \<and> is_number n \<and> py_lower u \<in> {''us'', ''ms'', ''s''}"
proof -
  from assms obtain num u' f where
    m: "fullmatch2 re_number re_letters (py_lower t) = Some (num, u')"
    and f: "map_of LATENCY_UNITS_MS u' = Some f"
    by (auto simp: parse_latency_def split: option.splits prod.splits)
  from m have "((num, u'), []) \<in> set (match2 re_number re_letters (py_lower t))"
    by (rule fullmatch2_SomeD)
  then have s: "py_lower t = num @ u'" and n: "is_number num"
    by (simp_all add: match_number_letters)
  from py_lower_split[OF s is_number_numchars[OF n]] obtain u where
    "t = num @ u" "py_lower u = u'" by blast
  with n latency_units_dom[OF f] show ?thesis by blast
qed

lemma is_number_1_5: "is_number ''1.5''"
  unfolding is_number_def
  by (rule exI[of _ "''1''"], rule exI[of _ "''5''"]) (simp add: is_digit_def)

lemma no_shape_10m:
  "\<nexists>n u. ''10m'' = n @ u \<and> is_number n \<and> py_lower u \<in> {''us'', ''ms'', ''s''}"
  by (auto simp: Cons_eq_append_conv py_lower_def lower_char_def lower_table_def)

text \<open>
  Claim C7. For every token \<open>n @ u\<close> made of a number \<open>n\<close> (digits, with an optional dot
  before the last run of digits) and a unit \<open>u\<close> that is \<open>us\<close>, \<open>ms\<close> or \<open>s\<close> in any letter
  case, \<open>parse_latency\<close> returns the value of \<open>n\<close> times 1e-3, 1 and 1e3 respectively; every
  token that is not such a number followed by such a unit fails with \<open>FormatError\<close>; and
  \<open>parse_latency("1.5s") = 1500\<close>, \<open>parse_latency("200us") = 0.2\<close>,
  \<open>parse_latency("10ms") = 10\<close>.
\<close>

theorem parse_latency_units:
  "(is_number n \<and> py_lower u = ''us'' \<longrightarrow> parse_latency (n @ u) = Inr (float_of_decimal n * (1 / 1000)))
   \<and> (is_number n \<and> py_lower u = ''ms'' \<longrightarrow> parse_latency (n @ u) = Inr (float_of_decimal n * 1))
   \<and> (is_number n \<and> py_lower u = ''s'' \<longrightarrow> parse_latency (n @ u) = Inr (float_of_decimal n * 1000))
   \<and> ((\<nexists>n u. t = n @ u \<and> is_number n \<and> py_lower u \<in> {''us'', ''ms'', ''s''})
        \<longrightarrow> parse_latency t = Inl FormatError)
   \<and> parse_latency ''1.5s'' = Inr 1500
   \<and> parse_latency ''200us'' = Inr (2 / 10)
   \<and> parse_latency ''10ms'' = Inr 10"
proof (intro conjI impI)
  assume "is_number n \<and> py_lower u = ''us''"
  then show "parse_latency (n @ u) = Inr (float_of_decimal n * (1 / 1000))"
    by (simp add: parse_latency_ok LATENCY_UNITS_MS_def)
next
  assume "is_number n \<and> py_lower u = ''ms''"
  then show "parse_latency (n @ u) = Inr (float_of_decimal n * 1)"
    by (simp add: parse_latency_ok LATENCY_UNITS_MS_def)
next
  assume "is_number n \<and> py_lower u = ''s''"
  then show "parse_latency (n @ u) = Inr (float_of_decimal n * 1000)"
    by (simp add: parse_latency_ok LATENCY_UNITS_MS_def)
next
  assume "\<nexists>n u. t = n @ u \<and> is_number n \<and> py_lower u \<in> {''us'', ''ms'', ''s''}"
  then show "parse_latency t = Inl FormatError"
    using parse_latency_Inr_shape[of t] by blast
next
  show "parse_latency ''1.5s'' = Inr 1500" by code_simp
  show "parse_latency ''200us'' = Inr (2 / 10)" by code_simp
  show "parse_latency ''10ms'' = Inr 10" by code_simp
qed

theorem parse_latency_units_witness:
  "is_number ''1.5''
   \<and> py_lower ''US'' = ''us'' \<and> parse_latency (''1.5'' @ ''US'') = Inr (15 / 10000)
   \<and> py_lower ''mS'' = ''ms'' \<and> parse_latency (''1.5'' @ ''mS'') = Inr (15 / 10)
   \<and> py_lower ''S'' = ''s'' \<and> parse_latency (''1.5'' @ ''S'') = Inr 1500
   \<and> (\<nexists>n u. ''10m'' = n @ u \<and> is_number n \<and> py_lower u \<in> {''us'', ''ms'', ''s''})
   \<and> parse_latency ''10m'' = Inl FormatError"
proof -
  have l: "py_lower ''US'' = ''us''" "py_lower ''mS'' = ''ms''" "py_lower ''S'' = ''s''"
    by code_simp+
  have v: "float_of_decimal ''1.5'' = 15 / 10" by code_simp
  show ?thesis
    using parse_latency_units[of "''1.5''" "''US''" "''10m''"]
          parse_latency_units[of "''1.5''" "''mS''" "''10m''"]
          parse_latency_units[of "''1.5''" "''S''" "''10m''"]
          is_number_1_5 no_shape_10m l v
    by simp
qed

lemma py_strip_id: "s \<noteq> [] \<Longrightarrow> \<not> is_space (hd s) \<Longrightarrow> \<not> is_space (last s) \<Longrightarrow> py_strip s = s"
proof -
  assume a: "s \<noteq> []" "\<not> is_space (hd s)" "\<not> is_space (last s)"
  have 1: "dropWhile is_space s = s" using a(2) by (simp add: dropWhile_eq_self_iff)
  have "hd (rev s) = last s" using a(1) by (simp add: hd_rev)
  then have 2: "dropWhile is_space (rev s) = rev s" using a(3) by (simp add: dropWhile_eq_self_iff)
  show ?thesis by (simp add: py_strip_def 1 2)
qed

lemma lower_char_space: "is_space c \<Longrightarrow> lower_char c = c"
  by (simp add: lower_char_id space_not_upper)

lemma throughput_suffixes_dom:
  "map_of THROUGHPUT_SUFFIXES u = Some f \<Longrightarrow> u \<in> {[], ''k'', ''m'', ''g''}"
  by (auto simp: THROUGHPUT_SUFFIXES_def split: if_splits)

lemma kmg_no_space: "py_lower sfx \<in> {[], ''k'', ''m'', ''g''} \<Longrightarrow> sfx = [] \<or> \<not> is_space (last sfx)"
proof -
  assume a: "py_lower sfx \<in> {[], ''k'', ''m'', ''g''}"
  show ?thesis
  proof (cases sfx)
    case Nil then show ?thesis by simp
  next
    case (Cons c cs)
    with a have cs: "cs = []" and l: "lower_char c \<in> {CHR ''k'', CHR ''m'', CHR ''g''}"
      by (auto simp: py_lower_def)
    have "\<not> is_space c"
    proof
      assume "is_space c"
      then have "lower_char c = c" "is_space (lower_char c)" by (simp_all add: lower_char_space)
      with l show False by (auto simp: is_space_def)
    qed
    with Cons cs show ?thesis by simp
  qed
qed

lemma number_suffix_strip:
  assumes "is_number n" "py_lower sfx \<in> {[], ''k'', ''m'', ''g''}"
  shows "py_strip (n @ sfx) = n @ sfx"
proof (rule py_strip_id)
  from assms(1) have ne: "n \<noteq> []" by (rule is_number_nonempty)
  then show "n @ sfx \<noteq> []" by simp
  from assms(1) have nc: "list_all is_numchar n" by (rule is_number_numchars)
  with ne have "is_numchar (hd n)" "is_numchar (last n)" by (auto simp: list_all_iff)
  then have h: "\<not> is_space (hd n)" "\<not> is_space (last n)" by (auto dest: numchar_not_space)
  from ne h(1) show "\<not> is_space (hd (n @ sfx))" by simp
  from kmg_no_space[OF assms(2)] h(2) ne show "\<not> is_space (last (n @ sfx))"
    by (cases "sfx = []") auto
qed

lemma number_not_nan:
  assumes "is_number n"
  shows "n @ s \<notin> set [''nan'', ''-nan'', ''+nan'']"
proof -
  from assms have ne: "n \<noteq> []" by (rule is_number_nonempty)
  from assms have "list_all is_numchar n" by (rule is_number_numchars)
  with ne have "is_numchar (hd (n @ s))" by (cases n) auto
  moreover have "\<not> is_numchar (CHR ''n'')" "\<not> is_numchar (CHR ''-'')" "\<not> is_numchar (CHR ''+'')"
    by (simp_all add: is_numchar_def is_digit_def)
  ultimately show ?thesis by auto
qed

lemma parse_throughput_ok:
  assumes "is_number n" "py_lower sfx \<in> {[], ''k'', ''m'', ''g''}"
  shows "parse_throughput (n @ sfx) =
           (case map_of THROUGHPUT_SUFFIXES (py_lower sfx) of
              None \<Rightarrow> Inl FormatError
            | Some factor \<Rightarrow> Inr (float_of_decimal n * factor))"
proof -
  have s: "py_strip (n @ sfx) = n @ sfx" using assms by (rule number_suffix_strip)
  have l: "py_lower (n @ sfx) = n @ py_lower sfx"
    using assms(1) by (simp add: py_lower_append py_lower_numchars is_number_numchars)
  have nn: "n @ py_lower sfx \<notin> set [''nan'', ''-nan'', ''+nan'']"
    using assms(1) by (rule number_not_nan)
  have m: "fullmatch2 re_number re_kmg_opt (n @ py_lower sfx) = Some (n, py_lower sfx)"
    using assms by (rule fullmatch_number_kmg)
  show ?thesis
    unfolding parse_throughput_def Let_def s l using nn m by simp
qed

lemma nan_token_strip:
  assumes "py_lower t \<in> set [''nan'', ''-nan'', ''+nan'']"
  shows "py_strip t = t"
proof (rule py_strip_id)
  from assms show ne: "t \<noteq> []" by (auto simp: py_lower_def)
  have ns: "\<And>c. c \<in> set t \<Longrightarrow> \<not> is_space c"
  proof
    fix c assume c: "c \<in> set t" and sp: "is_space c"
    then have "lower_char c = c" by (simp add: lower_char_space)
    moreover from c have "lower_char c \<in> set (py_lower t)" by (simp add: py_lower_def)
    ultimately have "c \<in> set (py_lower t)" by simp
    with assms have "c \<in> {CHR ''n'', CHR ''a'', CHR ''-'', CHR ''+''}" by auto
    with sp show False by (auto simp: is_space_def)
  qed
  from ne show "\<not> is_space (hd t)" by (simp add: ns)
  from ne show "\<not> is_space (last t)" by (simp add: ns)
qed

lemma parse_throughput_Inr_shape:
  assumes "parse_throughput t \<noteq> Inl FormatError"
    and "py_lower (py_strip t) \<notin> set [''nan'', ''-nan'', ''+nan'']"
  shows "\<exists>n sfx. py_strip t = n @ sfx \<and> is_number n \<and> py_lower sfx \<in> {[], ''k'', ''m'', ''g''}"
proof -
  from assms obtain num u' f where
    m: "fullmatch2 re_number re_kmg_opt (py_lower (py_strip t)) = Some (num, u')"
    and f: "map_of THROUGHPUT_SUFFIXES u' = Some f"
    by (auto simp: parse_throughput_def Let_def split: option.splits prod.splits if_splits)
  from m have "((num, u'), []) \<in> set (match2 re_number re_kmg_opt (py_lower (py_strip t)))"
    by (rule fullmatch2_SomeD)
  then have s: "py_lower (py_strip t) = num @ u'" and n: "is_number num"
    by (simp_all add: match_number_kmg)
  from py_lower_split[OF s is_number_numchars[OF n]] obtain u where
    "py_strip t = num @ u" "py_lower u = u'" by blast
  with n throughput_suffixes_dom[OF f] show ?thesis by blast
qed

lemma is_number_2_5: "is_number ''2.5''"
  unfolding is_number_def
  by (rule exI[of _ "''2''"], rule exI[of _ "''5''"]) (simp add: is_digit_def)

lemma no_shape_1kk:
  "\<nexists>n sfx. ''1kk'' = n @ sfx \<and> is_number n \<and> py_lower sfx \<in> {[], ''k'', ''m'', ''g''}"
proof (intro notI, elim exE conjE)
  fix n sfx
  assume a: "''1kk'' = n @ sfx" "is_number n" "py_lower sfx \<in> {[], ''k'', ''m'', ''g''}"
  from a(2) have nc: "list_all is_numchar n" "n \<noteq> []"
    by (simp_all add: is_number_numchars is_number_nonempty)
  have n: "n = take (length n) ''1kk''" and sfx: "sfx = drop (length n) ''1kk''"
    unfolding a(1) by simp_all
  have "length ''1kk'' = length n + length sfx" unfolding a(1) by simp
  then have "length n \<le> 3" by simp
  moreover have "length n \<noteq> 0" using nc(2) by simp
  ultimately consider "length n = 1" | "length n = 2" | "length n = 3"
    by linarith
  then show False
  proof cases
    case 1
    with sfx have "sfx = ''kk''" by simp
    with a(3) show False by (simp add: py_lower_def)
  next
    case 2
    with n have "n = ''1k''" by (simp add: numeral_2_eq_2)
    with nc(1) show False by (simp add: is_numchar_def is_digit_def)
  next
    case 3
    with n have "n = ''1kk''" by (simp add: numeral_3_eq_3)
    with nc(1) show False by (simp add: is_numchar_def is_digit_def)
  qed
qed

text \<open>
  Claim C8. For every token \<open>n @ sfx\<close> made of a number \<open>n\<close> and a suffix that is empty or
  \<open>k\<close>, \<open>m\<close>, \<open>g\<close> in any letter case, \<open>parse_throughput\<close> returns the value of \<open>n\<close> times
  1, 1e3, 1e6 and 1e9 respectively; the tokens \<open>nan\<close>, \<open>-nan\<close> and \<open>+nan\<close> in any letter case
  return 0; every other token (one that, once stripped, is neither such a \<open>nan\<close> nor a
  number with such a suffix) fails with \<open>FormatError\<close>; and
  \<open>parse_throughput("2.5k") = 2500\<close>, \<open>parse_throughput("nan") = 0\<close>,
  \<open>parse_throughput("1g") = 1e9\<close>.
\<close>

theorem parse_throughput_suffixes:
  "(is_number n \<and> sfx = [] \<longrightarrow> parse_throughput (n @ sfx) = Inr (float_of_decimal n * 1))
   \<and> (is_number n \<and> py_lower sfx = ''k'' \<longrightarrow> parse_throughput (n @ sfx) = Inr (float_of_decimal n * 10 ^ 3))
   \<and> (is_number n \<and> py_lower sfx = ''m'' \<longrightarrow> parse_throughput (n @ sfx) = Inr (float_of_decimal n * 10 ^ 6))
   \<and> (is_number n \<and> py_lower sfx = ''g'' \<longrightarrow> parse_throughput (n @ sfx) = Inr (float_of_decimal n * 10 ^ 9))
   \<and> (py_lower t \<in> {''nan'', ''-nan'', ''+nan''} \<longrightarrow> parse_throughput t = Inr 0)
   \<and> (py_lower (py_strip t) \<notin> {''nan'', ''-nan'', ''+nan''}
        \<and> (\<nexists>n sfx. py_strip t = n @ sfx \<and> is_number n \<and> py_lower sfx \<in> {[], ''k'', ''m'', ''g''})
        \<longrightarrow> parse_throughput t = Inl FormatError)
   \<and> parse_throughput ''2.5k'' = Inr 2500
   \<and> parse_throughput ''nan'' = Inr 0
   \<and> parse_throughput ''1g'' = Inr (10 ^ 9)"
proof (intro conjI impI)
  assume "is_number n \<and> sfx = []"
  then show "parse_throughput (n @ sfx) = Inr (float_of_decimal n * 1)"
    using parse_throughput_ok[of n sfx] by (simp add: THROUGHPUT_SUFFIXES_def py_lower_def)
next
  assume "is_number n \<and> py_lower sfx = ''k''"
  then show "parse_throughput (n @ sfx) = Inr (float_of_decimal n * 10 ^ 3)"
    by (simp add: parse_throughput_ok THROUGHPUT_SUFFIXES_def)
next
  assume "is_number n \<and> py_lower sfx = ''m''"
  then show "parse_throughput (n @ sfx) = Inr (float_of_decimal n * 10 ^ 6)"
    by (simp add: parse_throughput_ok THROUGHPUT_SUFFIXES_def)
next
  assume "is_number n \<and> py_lower sfx = ''g''"
  then show "parse_throughput (n @ sfx) = Inr (float_of_decimal n * 10 ^ 9)"
    by (simp add: parse_throughput_ok THROUGHPUT_SUFFIXES_def)
next
  assume a: "py_lower t \<in> {''nan'', ''-nan'', ''+nan''}"
  then have "py_strip t = t" using nan_token_strip[of t] by simp
  with a show "parse_throughput t = Inr 0" by (simp add: parse_throughput_def)
next
  assume "py_lower (py_strip t) \<notin> {''nan'', ''-nan'', ''+nan''}
        \<and> (\<nexists>n sfx. py_strip t = n @ sfx \<and> is_number n \<and> py_lower sfx \<in> {[], ''k'', ''m'', ''g''})"
  then show "parse_throughput t = Inl FormatError"
    using parse_throughput_Inr_shape[of t] by auto
next
  show "parse_throughput ''2.5k'' = Inr 2500" by code_simp
  show "parse_throughput ''nan'' = Inr 0" by code_simp
  show "parse_throughput ''1g'' = Inr (10 ^ 9)" by code_simp
qed

theorem parse_throughput_suffixes_witness:
  "is_number ''2.5''
   \<and> parse_throughput (''2.5'' @ []) = Inr (25 / 10)
   \<and> py_lower ''K'' = ''k'' \<and> parse_throughput (''2.5'' @ ''K'') = Inr 2500
   \<and> py_lower ''M'' = ''m'' \<and> parse_throughput (''2.5'' @ ''M'') = Inr 2500000
   \<and> py_lower ''G'' = ''g'' \<and> parse_throughput (''2.5'' @ ''G'') = Inr 2500000000
   \<and> py_lower ''-NaN'' \<in> {''nan'', ''-nan'', ''+nan''} \<and> parse_throughput ''-NaN'' = Inr 0
   \<and> py_lower (py_strip ''1kk'') \<notin> {''nan'', ''-nan'', ''+nan''}
   \<and> (\<nexists>n sfx. py_strip ''1kk'' = n @ sfx \<and> is_number n \<and> py_lower sfx \<in> {[], ''k'', ''m'', ''g''})
   \<and> parse_throughput ''1kk'' = Inl FormatError"
proof -
  have l: "py_lower ''K'' = ''k''" "py_lower ''M'' = ''m''" "py_lower ''G'' = ''g''"
    "py_lower ''-NaN'' = ''-nan''" "py_strip ''1kk'' = ''1kk''" "py_lower ''1kk'' = ''1kk''"
    by code_simp+
  have v: "float_of_decimal ''2.5'' = 25 / 10" by code_simp
  show ?thesis
    using parse_throughput_suffixes[of "''2.5''" "[]" "''-NaN''"]
          parse_throughput_suffixes[of "''2.5''" "''K''" "''1kk''"]
          parse_throughput_suffixes[of "''2.5''" "''M''" "''1kk''"]
          parse_throughput_suffixes[of "''2.5''" "''G''" "''1kk''"]
          is_number_2_5 no_shape_1kk l v
    by simp
qed

subsection \<open>The worker and section patterns\<close>

lemma worker_re_at_set: "d \<in> set (worker_re_at s) \<longleftrightarrow> worker_shape s d"
proof
  assume "d \<in> set (worker_re_at s)"
  then obtain x1 r1 r2 x3 r3 x4 r4 where
    "(x1, r1) \<in> set (m_lit ''wrk_client_'' s)" "(d, r2) \<in> set (m_plus is_digit r1)"
    "(x3, r3) \<in> set (m_lit ''.log'' r2)" "(x4, r4) \<in> set (m_dollar r3)"
    unfolding worker_re_at_def by fastforce
  then show "worker_shape s d"
    unfolding worker_shape_def by (auto simp: m_lit_set m_plus_set m_dollar_set)
next
  assume "worker_shape s d"
  then obtain tail where s: "s = ''wrk_client_'' @ d @ ''.log'' @ tail" and d: "d \<noteq> []" "list_all is_digit d"
    and t: "tail = [] \<or> tail = [CHR 0x0A]"
    unfolding worker_shape_def by blast
  have 1: "(''wrk_client_'', d @ ''.log'' @ tail) \<in> set (m_lit ''wrk_client_'' s)"
    unfolding m_lit_set s by simp
  have 2: "(d, ''.log'' @ tail) \<in> set (m_plus is_digit (d @ ''.log'' @ tail))"
    unfolding m_plus_set using d by simp
  have 3: "(''.log'', tail) \<in> set (m_lit ''.log'' (''.log'' @ tail))"
    unfolding m_lit_set by simp
  have 4: "([], tail) \<in> set (m_dollar tail)"
    unfolding m_dollar_set using t by simp
  show "d \<in> set (worker_re_at s)"
    unfolding worker_re_at_def using 1 2 3 4 by fastforce
qed

lemma section_list_set:
  "name \<in> set (concat (map (\<lambda>(_, r1).
             concat (map (\<lambda>(name, r2).
               concat (map (\<lambda>(_, r3).
                 map (\<lambda>_. name) (m_dollar r3))
               (m_lit (kind @ '' ====='') r2)))
             (m_plus (\<lambda>c. c \<noteq> CHR 0x0A) r1)))
           (m_lit ''===== '' s)))
   \<longleftrightarrow> section_shape kind s name"
  (is "name \<in> set ?L \<longleftrightarrow> _")
proof
  assume "name \<in> set ?L"
  then obtain x1 r1 r2 x3 r3 x4 r4 where
    "(x1, r1) \<in> set (m_lit ''===== '' s)" "(name, r2) \<in> set (m_plus (\<lambda>c. c \<noteq> CHR 0x0A) r1)"
    "(x3, r3) \<in> set (m_lit (kind @ '' ====='') r2)" "(x4, r4) \<in> set (m_dollar r3)"
    by fastforce
  then show "section_shape kind s name"
    unfolding section_shape_def by (auto simp: m_lit_set m_plus_set m_dollar_set)
next
  assume "section_shape kind s name"
  then obtain tail where s: "s = ''===== '' @ name @ kind @ '' ====='' @ tail" and d: "name \<noteq> []"
    "list_all (\<lambda>c. c \<noteq> CHR 0x0A) name" and t: "tail = [] \<or> tail = [CHR 0x0A]"
    unfolding section_shape_def by blast
  have 1: "(''===== '', name @ kind @ '' ====='' @ tail) \<in> set (m_lit ''===== '' s)"
    unfolding m_lit_set s by simp
  have 2: "(name, kind @ '' ====='' @ tail)
             \<in> set (m_plus (\<lambda>c. c \<noteq> CHR 0x0A) (name @ kind @ '' ====='' @ tail))"
    unfolding m_plus_set using d by simp
  have 3: "(kind @ '' ====='', tail) \<in> set (m_lit (kind @ '' ====='') (kind @ '' ====='' @ tail))"
    unfolding m_lit_set by simp
  have 4: "([], tail) \<in> set (m_dollar tail)"
    unfolding m_dollar_set using t by simp
  show "name \<in> set ?L"
    using 1 2 3 4 by fastforce
qed

lemma hd_unique:
  assumes "y \<in> set xs" "\<And>x. x \<in> set xs \<Longrightarrow> x = y"
  shows "\<exists>t. xs = y # t"
proof (cases xs)
  case Nil
  with assms(1) show ?thesis by simp
next
  case (Cons a t)
  then have "a \<in> set xs" by simp
  then have "a = y" by (rule assms(2))
  with Cons show ?thesis by simp
qed

lemma tail_unique:
  assumes "a @ [c] @ t = a' @ [c] @ t'" "c \<noteq> CHR 0x0A"
    "t = [] \<or> t = [CHR 0x0A]" "t' = [] \<or> t' = [CHR 0x0A]"
  shows "t = t' \<and> a = a'"
proof -
  have "last (a @ [c] @ t) = last (a' @ [c] @ t')" using assms(1) by simp
  with assms(2-4) have "t = t'" by auto
  with assms(1) show ?thesis by simp
qed

lemma section_shape_unique:
  assumes "section_shape kind s n" "section_shape kind s n'"
  shows "n = n'"
proof -
  from assms obtain t t' where
    1: "s = ''===== '' @ n @ kind @ '' ====='' @ t" "t = [] \<or> t = [CHR 0x0A]"
    and 2: "s = ''===== '' @ n' @ kind @ '' ====='' @ t'" "t' = [] \<or> t' = [CHR 0x0A]"
    unfolding section_shape_def by blast
  from 1(1) 2(1) have "(n @ kind @ '' ===='') @ [CHR ''=''] @ t = (n' @ kind @ '' ===='') @ [CHR ''=''] @ t'"
    by simp
  from tail_unique[OF this _ 1(2) 2(2)] show ?thesis by simp
qed

lemma section_re_match_iff: "section_re_match kind s = Some n \<longleftrightarrow> section_shape kind s n"
proof -
  let ?L = "concat (map (\<lambda>(_, r1).
             concat (map (\<lambda>(name, r2).
               concat (map (\<lambda>(_, r3).
                 map (\<lambda>_. name) (m_dollar r3))
               (m_lit (kind @ '' ====='') r2)))
             (m_plus (\<lambda>c. c \<noteq> CHR 0x0A) r1)))
           (m_lit ''===== '' s))"
  have m: "section_re_match kind s = (case ?L of [] \<Rightarrow> None | name # _ \<Rightarrow> Some name)"
    by (simp only: section_re_match_def)
  show ?thesis
  proof
    assume "section_re_match kind s = Some n"
    with m obtain t where "?L = n # t" by (cases ?L) simp_all
    then have "n \<in> set ?L" by simp
    then show "section_shape kind s n" by (simp only: section_list_set)
  next
    assume a: "section_shape kind s n"
    then have ne: "n \<in> set ?L" by (simp only: section_list_set)
    have "\<And>x. x \<in> set ?L \<Longrightarrow> x = n"
      using section_shape_unique[OF _ a] by (simp only: section_list_set)
    from hd_unique[OF ne this] obtain t where "?L = n # t" by blast
    with m show "section_re_match kind s = Some n" by simp
  qed
qed

lemma start_end_disjoint:
  assumes "SECTION_END_RE_match s = Some n"
  shows "SECTION_START_RE_match s = None"
proof (rule ccontr)
  assume "SECTION_START_RE_match s \<noteq> None"
  then obtain n' where "SECTION_START_RE_match s = Some n'" by auto
  with assms obtain t t' where
    1: "s = ''===== '' @ n @ '' END'' @ '' ====='' @ t" "t = [] \<or> t = [CHR 0x0A]"
    and 2: "s = ''===== '' @ n' @ '' START'' @ '' ====='' @ t'" "t' = [] \<or> t' = [CHR 0x0A]"
    unfolding SECTION_END_RE_match_def SECTION_START_RE_match_def section_re_match_iff section_shape_def
    by blast
  from 1(1) 2(1) have e: "(n @ '' END ===='') @ [CHR ''=''] @ t = (n' @ '' START ===='') @ [CHR ''=''] @ t'"
    by simp
  from tail_unique[OF e _ 1(2) 2(2)] have "n @ '' END ===='' = n' @ '' START ===='' " by simp
  then have "rev (n @ '' END ===='') = rev (n' @ '' START ===='')" by simp
  then show False by simp
qed

subsection \<open>Worker identity\<close>

lemma worker_re_search_SomeD:
  "worker_re_search s = Some d \<Longrightarrow> \<exists>pre rest. s = pre @ rest \<and> worker_shape rest d"
proof (induction s)
  case Nil
  then have "d \<in> set (worker_re_at [])"
    by (subst (asm) worker_re_search.simps) (auto split: list.splits)
  then show ?case by (auto simp: worker_re_at_set)
next
  case (Cons c t)
  show ?case
  proof (cases "worker_re_at (c # t)")
    case Nil
    with Cons.prems have "worker_re_search t = Some d"
      by (subst (asm) worker_re_search.simps) simp
    from Cons.IH[OF this] obtain pre rest where "t = pre @ rest" "worker_shape rest d" by blast
    then have "c # t = (c # pre) @ rest \<and> worker_shape rest d" by simp
    then show ?thesis by blast
  next
    case (Cons d' ds)
    with Cons.prems have "d' = d"
      by (subst (asm) worker_re_search.simps) simp
    with Cons have "d \<in> set (worker_re_at (c # t))" by simp
    then have "c # t = [] @ (c # t) \<and> worker_shape (c # t) d" by (simp add: worker_re_at_set)
    then show ?thesis by blast
  qed
qed

lemma worker_re_search_NoneD:
  "worker_re_search s = None \<Longrightarrow> s = pre @ rest \<Longrightarrow> worker_re_at rest = []"
proof (induction s arbitrary: pre)
  case Nil
  then have "worker_re_at [] = []"
    by (subst (asm) worker_re_search.simps) (auto split: list.splits)
  with Nil show ?case by simp
next
  case (Cons c t)
  from Cons.prems(1) have at: "worker_re_at (c # t) = []" and t: "worker_re_search t = None"
    by (subst (asm) worker_re_search.simps; auto split: list.splits)+
  show ?case
  proof (cases pre)
    case Nil
    with Cons.prems(2) at show ?thesis by simp
  next
    case (Cons a pre')
    with Cons.prems(2) have "t = pre' @ rest" by simp
    from Cons.IH[OF t this] show ?thesis .
  qed
qed

lemma digit_not_underscore: "\<not> is_digit (CHR ''_'')"
  by (simp add: is_digit_def)

lemma worker_shape_unique:
  assumes "pre1 @ rest1 = pre2 @ rest2" "worker_shape rest1 d1" "worker_shape rest2 d2"
  shows "d1 = d2"
proof -
  from assms(2,3) obtain t1 t2 where
    1: "rest1 = ''wrk_client_'' @ d1 @ ''.log'' @ t1" "list_all is_digit d1" "t1 = [] \<or> t1 = [CHR 0x0A]"
    and 2: "rest2 = ''wrk_client_'' @ d2 @ ''.log'' @ t2" "list_all is_digit d2" "t2 = [] \<or> t2 = [CHR 0x0A]"
    unfolding worker_shape_def by blast
  from assms(1) have "(pre1 @ ''wrk_client_'' @ d1 @ ''.lo'') @ [CHR ''g''] @ t1
                    = (pre2 @ ''wrk_client_'' @ d2 @ ''.lo'') @ [CHR ''g''] @ t2"
    unfolding 1(1) 2(1) by simp
  from tail_unique[OF this _ 1(3) 2(3)]
  have "pre1 @ ''wrk_client_'' @ d1 = pre2 @ ''wrk_client_'' @ d2" by simp
  then have "rev (pre1 @ ''wrk_client_'' @ d1) = rev (pre2 @ ''wrk_client_'' @ d2)" by simp
  then have e: "rev d1 @ (CHR ''_'' # ''tneilc_krw'' @ rev pre1) = rev d2 @ (CHR ''_'' # ''tneilc_krw'' @ rev pre2)"
    by simp
  have "rev d1 = rev d2 \<and> CHR ''_'' # ''tneilc_krw'' @ rev pre1 = CHR ''_'' # ''tneilc_krw'' @ rev pre2"
    using 1(2) 2(2) digit_not_underscore
    by (intro split_unique[OF e, of is_digit]) (simp_all add: list_all_iff)
  then show ?thesis by simp
qed

lemma worker_re_search_shape:
  assumes "worker_shape rest d"
  shows "worker_re_search (pre @ rest) = Some d"
proof (cases "worker_re_search (pre @ rest)")
  case None
  then have "worker_re_at rest = []" by (rule worker_re_search_NoneD) simp
  moreover from assms have "d \<in> set (worker_re_at rest)" by (simp add: worker_re_at_set)
  ultimately show ?thesis by simp
next
  case (Some d')
  from worker_re_search_SomeD[OF this] obtain pre' rest' where
    "pre @ rest = pre' @ rest'" "worker_shape rest' d'" by blast
  from worker_shape_unique[OF this(1) assms this(2)] Some show ?thesis by simp
qed

lemma no_worker_shape_foo:
  "\<nexists>pre d tail. ''foo_12.log'' = pre @ ''wrk_client_'' @ d @ ''.log'' @ tail \<and> d \<noteq> []
          \<and> list_all is_digit d \<and> (tail = [] \<or> tail = [CHR 0x0A])"
proof (intro notI, elim exE conjE)
  fix pre d tail
  assume "''foo_12.log'' = pre @ ''wrk_client_'' @ d @ ''.log'' @ tail"
  then have "length ''foo_12.log'' = length (pre @ ''wrk_client_'' @ d @ ''.log'' @ tail)"
    by (rule arg_cong)
  then show False by simp
qed

text \<open>
  Claim C4, as the code has it. When the name of the path (its last component) ends with
  \<open>wrk_client_\<close>, a non-empty run of digits and \<open>.log\<close> (a single newline may follow), the
  identity \<open>_deduce_worker_id\<close> returns is exactly the digits; for every other name it is
  the stem of the path, the name without its last suffix.
\<close>

theorem deduce_worker_id_pattern:
  "(path_name p = pre @ ''wrk_client_'' @ d @ ''.log'' @ tail \<and> d \<noteq> [] \<and> list_all is_digit d
      \<and> (tail = [] \<or> tail = [CHR 0x0A])
    \<longrightarrow> deduce_worker_id p = d)
   \<and> ((\<nexists>pre d tail. path_name p = pre @ ''wrk_client_'' @ d @ ''.log'' @ tail \<and> d \<noteq> []
          \<and> list_all is_digit d \<and> (tail = [] \<or> tail = [CHR 0x0A]))
    \<longrightarrow> deduce_worker_id p = path_stem p)"
proof (intro conjI impI)
  assume a: "path_name p = pre @ ''wrk_client_'' @ d @ ''.log'' @ tail \<and> d \<noteq> [] \<and> list_all is_digit d
      \<and> (tail = [] \<or> tail = [CHR 0x0A])"
  then have "worker_shape (''wrk_client_'' @ d @ ''.log'' @ tail) d"
    unfolding worker_shape_def by blast
  then have "worker_re_search (pre @ ''wrk_client_'' @ d @ ''.log'' @ tail) = Some d"
    by (rule worker_re_search_shape)
  with a show "deduce_worker_id p = d" by (simp add: deduce_worker_id_def)
next
  assume a: "\<nexists>pre d tail. path_name p = pre @ ''wrk_client_'' @ d @ ''.log'' @ tail \<and> d \<noteq> []
          \<and> list_all is_digit d \<and> (tail = [] \<or> tail = [CHR 0x0A])"
  have "worker_re_search (path_name p) = None"
  proof (rule ccontr)
    assume "worker_re_search (path_name p) \<noteq> None"
    then obtain d where "worker_re_search (path_name p) = Some d" by auto
    from worker_re_search_SomeD[OF this] obtain pre rest where
      "path_name p = pre @ rest" "worker_shape rest d" by blast
    with a show False unfolding worker_shape_def by blast
  qed
  then show "deduce_worker_id p = path_stem p" by (simp add: deduce_worker_id_def)
qed

theorem deduce_worker_id_pattern_witness:
  "path_name ''wrk_log/wrk_client_12.log'' = [] @ ''wrk_client_'' @ ''12'' @ ''.log'' @ []
   \<and> list_all is_digit ''12''
   \<and> deduce_worker_id ''wrk_log/wrk_client_12.log'' = ''12''
   \<and> (\<nexists>pre d tail. path_name ''foo_12.log'' = pre @ ''wrk_client_'' @ d @ ''.log'' @ tail \<and> d \<noteq> []
          \<and> list_all is_digit d \<and> (tail = [] \<or> tail = [CHR 0x0A]))
   \<and> deduce_worker_id ''foo_12.log'' = path_stem ''foo_12.log''
   \<and> path_stem ''foo_12.log'' = ''foo_12''"
proof -
  have n: "path_name ''wrk_log/wrk_client_12.log'' = ''wrk_client_12.log''"
    "path_name ''foo_12.log'' = ''foo_12.log''" "path_stem ''foo_12.log'' = ''foo_12''"
    by code_simp+
  have d: "list_all is_digit ''12''" by code_simp
  show ?thesis
    using deduce_worker_id_pattern[of "''wrk_log/wrk_client_12.log''" "[]" "''12''" "[]"]
          deduce_worker_id_pattern[of "''foo_12.log''" "[]" "''12''" "[]"]
          no_worker_shape_foo n d
    by simp
qed

text \<open>
  The claim as the specification words it (any name of the shape
  \<open><anything>_<digits>.log\<close> gives the digits) fails: \<open>foo_12.log\<close> has that shape with the
  digits \<open>12\<close>, and its identity is the stem \<open>foo_12\<close>.
\<close>

theorem deduce_worker_id_counterexample:
  "path_name ''foo_12.log'' = ''foo'' @ ''_'' @ ''12'' @ ''.log''
   \<and> list_all is_digit ''12''
   \<and> deduce_worker_id ''foo_12.log'' = ''foo_12''"
  by code_simp

subsection \<open>AggregatedLogSplitter\<close>

lemma splitter_step_start:
  "SECTION_START_RE_match (rstrip_newline l) = Some n \<Longrightarrow>
   splitter_step p st l =
     (if v_current_name st \<noteq> None then Inl StructureError
      else Inr (st\<lparr> v_current_name := Some n, v_current_lines := [] \<rparr>))"
  by (simp add: splitter_step_def Let_def)

lemma splitter_step_end:
  "SECTION_END_RE_match (rstrip_newline l) = Some n \<Longrightarrow> v_current_name st = Some cur \<Longrightarrow>
   splitter_step p st l =
     (if n \<noteq> cur then Inl StructureError
      else ebind (extract_metrics_from_lines (v_current_lines st)) (\<lambda>(la, ls, ra, rs).
             Inr (st\<lparr> v_stats := v_stats st @
                        [\<lparr> worker_id = deduce_worker_id cur, latency_avg_ms = la,
                           latency_stdev_ms = ls, req_per_sec_avg = ra, req_per_sec_stdev = rs,
                           log_path = Div (Parent (Path p)) cur \<rparr>],
                      v_current_name := None, v_current_lines := [] \<rparr>)))"
  using start_end_disjoint[of "rstrip_newline l" n]
  by (simp add: splitter_step_def Let_def)

lemma splitter_step_plain:
  "SECTION_START_RE_match (rstrip_newline l) = None \<Longrightarrow>
   SECTION_END_RE_match (rstrip_newline l) = None \<Longrightarrow>
   splitter_step p st l =
     (if v_current_name st \<noteq> None then Inr (st\<lparr> v_current_lines := v_current_lines st @ [l] \<rparr>)
      else Inr st)"
  by (simp add: splitter_step_def Let_def)

lemma splitter_step_outside:
  "SECTION_START_RE_match (rstrip_newline l) = None \<Longrightarrow> v_current_name st = None \<Longrightarrow>
   splitter_step p st l = Inr st"
  by (simp add: splitter_step_def Let_def split: option.splits)

lemma splitter_body:
  "list_all (\<lambda>l. SECTION_START_RE_match (rstrip_newline l) = None
                 \<and> SECTION_END_RE_match (rstrip_newline l) = None) body
   \<Longrightarrow> v_current_name st = Some cur
   \<Longrightarrow> efold (splitter_step p) body st = Inr (st\<lparr> v_current_lines := v_current_lines st @ body \<rparr>)"
proof (induction body arbitrary: st)
  case Nil
  then show ?case by simp
next
  case (Cons l body)
  from Cons.prems have "splitter_step p st l = Inr (st\<lparr> v_current_lines := v_current_lines st @ [l] \<rparr>)"
    by (simp add: splitter_step_plain)
  moreover have "efold (splitter_step p) body (st\<lparr> v_current_lines := v_current_lines st @ [l] \<rparr>)
      = Inr (st\<lparr> v_current_lines := v_current_lines st @ [l] \<rparr>
               \<lparr> v_current_lines := v_current_lines (st\<lparr> v_current_lines := v_current_lines st @ [l] \<rparr>) @ body \<rparr>)"
    using Cons.prems by (intro Cons.IH) simp_all
  ultimately show ?case by simp
qed

lemma splitter_no_start:
  "list_all (\<lambda>l. SECTION_START_RE_match (rstrip_newline l) = None) lines
   \<Longrightarrow> v_current_name st = None
   \<Longrightarrow> efold (splitter_step p) lines st = Inr st"
  by (induction lines) (simp_all add: splitter_step_outside)

text \<open>
  Claim C5. In \<open>parse_aggregated_log\<close>: a START marker read while a section is open fails
  with \<open>StructureError\<close>; an END marker whose name differs from the open section's fails
  with \<open>StructureError\<close>; the end of the input with a section still open fails with
  \<open>StructureError\<close>; an input that ends outside a section with no section produced (in
  particular one without any START marker) fails with \<open>EmptyResultError\<close>; and the input
  made of the line \<open>===== a START =====\<close>, a body without marker lines that
  \<open>_extract_metrics_from_lines\<close> parses, and the line \<open>===== a END =====\<close> yields exactly one
  record, of identity \<open>a\<close>, with the parsed values.
\<close>

theorem parse_aggregated_log_structure:
  "(efold (splitter_step p) pre splitter_init = Inr st \<and> v_current_name st \<noteq> None
      \<and> SECTION_START_RE_match (rstrip_newline l) \<noteq> None
    \<longrightarrow> parse_aggregated_log p (pre @ l # post) = Inl StructureError)
   \<and> (efold (splitter_step p) pre splitter_init = Inr st \<and> v_current_name st = Some cur
      \<and> SECTION_END_RE_match (rstrip_newline l) = Some n \<and> n \<noteq> cur
    \<longrightarrow> parse_aggregated_log p (pre @ l # post) = Inl StructureError)
   \<and> (efold (splitter_step p) lines splitter_init = Inr st \<and> v_current_name st \<noteq> None
    \<longrightarrow> parse_aggregated_log p lines = Inl StructureError)
   \<and> (efold (splitter_step p) lines splitter_init = Inr st \<and> v_current_name st = None
      \<and> v_stats st = []
    \<longrightarrow> parse_aggregated_log p lines = Inl EmptyResultError)
   \<and> (list_all (\<lambda>l. SECTION_START_RE_match (rstrip_newline l) = None) lines
    \<longrightarrow> parse_aggregated_log p lines = Inl EmptyResultError)
   \<and> (rstrip_newline first_line = ''===== a START =====''
      \<and> rstrip_newline last_line = ''===== a END =====''
      \<and> list_all (\<lambda>l. SECTION_START_RE_match (rstrip_newline l) = None
                      \<and> SECTION_END_RE_match (rstrip_newline l) = None) body
      \<and> extract_metrics_from_lines body = Inr (la, lsd, ra, rs)
    \<longrightarrow> parse_aggregated_log p (first_line # body @ [last_line])
          = Inr [\<lparr> worker_id = ''a'', latency_avg_ms = la, latency_stdev_ms = lsd,
                   req_per_sec_avg = ra, req_per_sec_stdev = rs,
                   log_path = Div (Parent (Path p)) ''a'' \<rparr>])"
proof (intro conjI impI)
  assume a: "efold (splitter_step p) pre splitter_init = Inr st \<and> v_current_name st \<noteq> None
      \<and> SECTION_START_RE_match (rstrip_newline l) \<noteq> None"
  then obtain n where "SECTION_START_RE_match (rstrip_newline l) = Some n" by auto
  with a have "splitter_step p st l = Inl StructureError" by (simp add: splitter_step_start)
  with a have "efold (splitter_step p) (pre @ l # post) splitter_init = Inl StructureError"
    by (simp add: efold_append)
  then show "parse_aggregated_log p (pre @ l # post) = Inl StructureError"
    by (simp add: parse_aggregated_log_def)
next
  assume a: "efold (splitter_step p) pre splitter_init = Inr st \<and> v_current_name st = Some cur
      \<and> SECTION_END_RE_match (rstrip_newline l) = Some n \<and> n \<noteq> cur"
  then have "splitter_step p st l = Inl StructureError" by (simp add: splitter_step_end)
  with a have "efold (splitter_step p) (pre @ l # post) splitter_init = Inl StructureError"
    by (simp add: efold_append)
  then show "parse_aggregated_log p (pre @ l # post) = Inl StructureError"
    by (simp add: parse_aggregated_log_def)
next
  assume "efold (splitter_step p) lines splitter_init = Inr st \<and> v_current_name st \<noteq> None"
  then show "parse_aggregated_log p lines = Inl StructureError"
    by (simp add: parse_aggregated_log_def)
next
  assume "efold (splitter_step p) lines splitter_init = Inr st \<and> v_current_name st = None
      \<and> v_stats st = []"
  then show "parse_aggregated_log p lines = Inl EmptyResultError"
    by (simp add: parse_aggregated_log_def)
next
  assume "list_all (\<lambda>l. SECTION_START_RE_match (rstrip_newline l) = None) lines"
  then have "efold (splitter_step p) lines splitter_init = Inr splitter_init"
    by (rule splitter_no_start) (simp add: splitter_init_def)
  then show "parse_aggregated_log p lines = Inl EmptyResultError"
    by (simp add: parse_aggregated_log_def splitter_init_def)
next
  assume a: "rstrip_newline first_line = ''===== a START =====''
      \<and> rstrip_newline last_line = ''===== a END =====''
      \<and> list_all (\<lambda>l. SECTION_START_RE_match (rstrip_newline l) = None
                      \<and> SECTION_END_RE_match (rstrip_newline l) = None) body
      \<and> extract_metrics_from_lines body = Inr (la, lsd, ra, rs)"
  have m: "SECTION_START_RE_match ''===== a START ====='' = Some ''a''"
    "SECTION_END_RE_match ''===== a END ====='' = Some ''a''"
    "deduce_worker_id ''a'' = ''a''"
    by code_simp+
  let ?s1 = "splitter_init\<lparr> v_current_name := Some ''a'', v_current_lines := [] \<rparr>"
  have 1: "splitter_step p splitter_init first_line = Inr ?s1"
    using a m(1) by (simp add: splitter_step_start splitter_init_def)
  have 2: "efold (splitter_step p) body ?s1 = Inr (?s1\<lparr> v_current_lines := v_current_lines ?s1 @ body \<rparr>)"
    using a by (intro splitter_body[where cur = "''a''"]) simp_all
  let ?s2 = "?s1\<lparr> v_current_lines := v_current_lines ?s1 @ body \<rparr>"
  have 3: "splitter_step p ?s2 last_line
           = Inr (?s2\<lparr> v_stats := v_stats ?s2 @
                        [\<lparr> worker_id = ''a'', latency_avg_ms = la,
                           latency_stdev_ms = lsd, req_per_sec_avg = ra, req_per_sec_stdev = rs,
                           log_path = Div (Parent (Path p)) ''a'' \<rparr>],
                      v_current_name := None, v_current_lines := [] \<rparr>)"
    using a m(2,3) by (simp add: splitter_step_end[where cur = "''a''"] splitter_init_def)
  have "efold (splitter_step p) (first_line # body @ [last_line]) splitter_init
        = Inr (?s2\<lparr> v_stats := v_stats ?s2 @
                        [\<lparr> worker_id = ''a'', latency_avg_ms = la,
                           latency_stdev_ms = lsd, req_per_sec_avg = ra, req_per_sec_stdev = rs,
                           log_path = Div (Parent (Path p)) ''a'' \<rparr>],
                      v_current_name := None, v_current_lines := [] \<rparr>)"
    using 1 2 3 by (simp add: efold_append)
  then show "parse_aggregated_log p (first_line # body @ [last_line])
          = Inr [\<lparr> worker_id = ''a'', latency_avg_ms = la, latency_stdev_ms = lsd,
                   req_per_sec_avg = ra, req_per_sec_stdev = rs,
                   log_path = Div (Parent (Path p)) ''a'' \<rparr>]"
    by (simp add: parse_aggregated_log_def splitter_init_def)
qed

theorem parse_aggregated_log_structure_witness:
  "efold (splitter_step ''wrk_log/basic-workload.log'') [''===== a START ====='' @ [CHR 0x0A]] splitter_init
     = Inr \<lparr> v_stats = [], v_current_name = Some ''a'', v_current_lines = [] \<rparr>
   \<and> SECTION_START_RE_match (rstrip_newline (''===== b START ====='' @ [CHR 0x0A])) \<noteq> None
   \<and> parse_aggregated_log ''wrk_log/basic-workload.log''
        ([''===== a START ====='' @ [CHR 0x0A]] @ (''===== b START ====='' @ [CHR 0x0A]) # [])
       = Inl StructureError
   \<and> SECTION_END_RE_match (rstrip_newline (''===== b END ====='' @ [CHR 0x0A])) = Some ''b''
   \<and> parse_aggregated_log ''wrk_log/basic-workload.log''
        ([''===== a START ====='' @ [CHR 0x0A]] @ (''===== b END ====='' @ [CHR 0x0A]) # [])
       = Inl StructureError
   \<and> parse_aggregated_log ''wrk_log/basic-workload.log'' [''===== a START ====='' @ [CHR 0x0A]]
       = Inl StructureError
   \<and> efold (splitter_step ''wrk_log/basic-workload.log'') [''junk''] splitter_init
       = Inr \<lparr> v_stats = [], v_current_name = None, v_current_lines = [] \<rparr>
   \<and> list_all (\<lambda>l. SECTION_START_RE_match (rstrip_newline l) = None) [''junk'']
   \<and> parse_aggregated_log ''wrk_log/basic-workload.log'' [''junk''] = Inl EmptyResultError
   \<and> list_all (\<lambda>l. SECTION_START_RE_match (rstrip_newline l) = None
                   \<and> SECTION_END_RE_match (rstrip_newline l) = None)
        [''Latency 1ms 2ms'' @ [CHR 0x0A], ''Req/Sec 3 4k'' @ [CHR 0x0A]]
   \<and> extract_metrics_from_lines [''Latency 1ms 2ms'' @ [CHR 0x0A], ''Req/Sec 3 4k'' @ [CHR 0x0A]]
       = Inr (1, 2, 3, 4000)
   \<and> parse_aggregated_log ''wrk_log/basic-workload.log''
        ((''===== a START ====='' @ [CHR 0x0A])
          # [''Latency 1ms 2ms'' @ [CHR 0x0A], ''Req/Sec 3 4k'' @ [CHR 0x0A]]
          @ [''===== a END ====='' @ [CHR 0x0A]])
       = Inr [\<lparr> worker_id = ''a'', latency_avg_ms = 1, latency_stdev_ms = 2,
                req_per_sec_avg = 3, req_per_sec_stdev = 4000,
                log_path = Div (Parent (Path ''wrk_log/basic-workload.log'')) ''a'' \<rparr>]"
proof -
  have e1: "efold (splitter_step ''wrk_log/basic-workload.log'') [''===== a START ====='' @ [CHR 0x0A]] splitter_init
     = Inr \<lparr> v_stats = [], v_current_name = Some ''a'', v_current_lines = [] \<rparr>"
    by code_simp
  have e2: "SECTION_START_RE_match (rstrip_newline (''===== b START ====='' @ [CHR 0x0A])) = Some ''b''"
    by code_simp
  have e3: "SECTION_END_RE_match (rstrip_newline (''===== b END ====='' @ [CHR 0x0A])) = Some ''b''"
    by code_simp
  have e4: "efold (splitter_step ''wrk_log/basic-workload.log'') [''junk''] splitter_init
       = Inr \<lparr> v_stats = [], v_current_name = None, v_current_lines = [] \<rparr>"
    by code_simp
  have e5: "list_all (\<lambda>l. SECTION_START_RE_match (rstrip_newline l) = None) [''junk'']"
    by code_simp
  have e6: "list_all (\<lambda>l. SECTION_START_RE_match (rstrip_newline l) = None
                   \<and> SECTION_END_RE_match (rstrip_newline l) = None)
        [''Latency 1ms 2ms'' @ [CHR 0x0A], ''Req/Sec 3 4k'' @ [CHR 0x0A]]"
    by code_simp
  have e7: "extract_metrics_from_lines [''Latency 1ms 2ms'' @ [CHR 0x0A], ''Req/Sec 3 4k'' @ [CHR 0x0A]]
       = Inr (1, 2, 3, 4000)"
    by code_simp
  have e8: "rstrip_newline (''===== a START ====='' @ [CHR 0x0A]) = ''===== a START =====''"
    "rstrip_newline (''===== a END ====='' @ [CHR 0x0A]) = ''===== a END =====''"
    by code_simp+
  note t1 = parse_aggregated_log_structure
    [where p = "''wrk_log/basic-workload.log''"
       and pre = "[''===== a START ====='' @ [CHR 0x0A]]"
       and st = "\<lparr> v_stats = [], v_current_name = Some ''a'', v_current_lines = [] \<rparr>"
       and l = "''===== b START ====='' @ [CHR 0x0A]" and post = "[]"
       and lines = "[''===== a START ====='' @ [CHR 0x0A]]"
       and first_line = "''===== a START ====='' @ [CHR 0x0A]"
       and last_line = "''===== a END ====='' @ [CHR 0x0A]"
       and body = "[''Latency 1ms 2ms'' @ [CHR 0x0A], ''Req/Sec 3 4k'' @ [CHR 0x0A]]"
       and la = 1 and lsd = 2 and ra = 3 and rs = 4000]
  note t2 = parse_aggregated_log_structure
    [where p = "''wrk_log/basic-workload.log''"
       and pre = "[''===== a START ====='' @ [CHR 0x0A]]"
       and st = "\<lparr> v_stats = [], v_current_name = Some ''a'', v_current_lines = [] \<rparr>"
       and l = "''===== b END ====='' @ [CHR 0x0A]" and post = "[]"
       and cur = "''a''" and n = "''b''"
       and lines = "[''junk'']"]
  note t3 = parse_aggregated_log_structure
    [where p = "''wrk_log/basic-workload.log''"
       and st = "\<lparr> v_stats = [], v_current_name = None, v_current_lines = [] \<rparr>"
       and lines = "[''junk'']"]
  show ?thesis
    using t1 t2 t3 e1 e2 e3 e4 e5 e6 e7 e8 by simp
qed

subsection \<open>RunScorer\<close>

text \<open>
  Claim C6. \<open>compute_run_metrics\<close> fails with \<open>EmptyInputError\<close> on the empty collection,
  fails with \<open>DivisionError\<close> on every non-empty collection whose arithmetic mean of
  \<open>latency_avg_ms\<close> is 0, and otherwise returns run metrics whose score is the mean
  throughput divided by the mean latency; with exactly one worker both standard
  deviations are 0 and the score is that worker's throughput divided by its latency.
\<close>

theorem compute_run_metrics_contract:
  "compute_run_metrics [] = Inl EmptyInputError
   \<and> (stats \<noteq> [] \<and> sum_list (map latency_avg_ms stats) / real (length stats) = 0
        \<longrightarrow> compute_run_metrics stats = Inl DivisionError)
   \<and> (stats \<noteq> [] \<and> sum_list (map latency_avg_ms stats) / real (length stats) \<noteq> 0
        \<longrightarrow> (\<exists>m. compute_run_metrics stats = Inr m
              \<and> workers m = length stats
              \<and> avg_latency_ms m = sum_list (map latency_avg_ms stats) / real (length stats)
              \<and> avg_req_per_sec m = sum_list (map req_per_sec_avg stats) / real (length stats)
              \<and> score m = (sum_list (map req_per_sec_avg stats) / real (length stats))
                           / (sum_list (map latency_avg_ms stats) / real (length stats))))
   \<and> (latency_avg_ms w \<noteq> 0
        \<longrightarrow> (\<exists>m. compute_run_metrics [w] = Inr m
              \<and> latency_stddev_ms m = 0 \<and> req_per_sec_stddev m = 0
              \<and> score m = req_per_sec_avg w / latency_avg_ms w))
   \<and> (latency_avg_ms w = 0 \<longrightarrow> compute_run_metrics [w] = Inl DivisionError)"
  by (simp add: compute_run_metrics_def mean_def Let_def)

theorem compute_run_metrics_contract_witness:
  "[\<lparr> worker_id = ''1'', latency_avg_ms = 10, latency_stdev_ms = 1, req_per_sec_avg = 100,
      req_per_sec_stdev = 5, log_path = Path ''wrk_log/wrk_client_1.log'' \<rparr>,
    \<lparr> worker_id = ''2'', latency_avg_ms = 10, latency_stdev_ms = 2, req_per_sec_avg = 300,
      req_per_sec_stdev = 5, log_path = Path ''wrk_log/wrk_client_2.log'' \<rparr>] \<noteq> []
   \<and> (\<exists>m. compute_run_metrics
          [\<lparr> worker_id = ''1'', latency_avg_ms = 10, latency_stdev_ms = 1, req_per_sec_avg = 100,
             req_per_sec_stdev = 5, log_path = Path ''wrk_log/wrk_client_1.log'' \<rparr>,
           \<lparr> worker_id = ''2'', latency_avg_ms = 10, latency_stdev_ms = 2, req_per_sec_avg = 300,
             req_per_sec_stdev = 5, log_path = Path ''wrk_log/wrk_client_2.log'' \<rparr>] = Inr m
        \<and> workers m = 2 \<and> avg_latency_ms m = 10 \<and> avg_req_per_sec m = 200 \<and> score m = 20)
   \<and> (\<exists>m. compute_run_metrics
          [\<lparr> worker_id = ''1'', latency_avg_ms = 10, latency_stdev_ms = 1, req_per_sec_avg = 100,
             req_per_sec_stdev = 5, log_path = Path ''wrk_log/wrk_client_1.log'' \<rparr>] = Inr m
        \<and> latency_stddev_ms m = 0 \<and> req_per_sec_stddev m = 0 \<and> score m = 10)
   \<and> compute_run_metrics
          [\<lparr> worker_id = ''3'', latency_avg_ms = 0, latency_stdev_ms = 0, req_per_sec_avg = 100,
             req_per_sec_stdev = 5, log_path = Path ''wrk_log/wrk_client_3.log'' \<rparr>]
        = Inl DivisionError"
  using compute_run_metrics_contract
          [of "[\<lparr> worker_id = ''1'', latency_avg_ms = 10, latency_stdev_ms = 1,
                   req_per_sec_avg = 100, req_per_sec_stdev = 5,
                   log_path = Path ''wrk_log/wrk_client_1.log'' \<rparr>,
                 \<lparr> worker_id = ''2'', latency_avg_ms = 10, latency_stdev_ms = 2,
                   req_per_sec_avg = 300, req_per_sec_stdev = 5,
                   log_path = Path ''wrk_log/wrk_client_2.log'' \<rparr>]"
              "\<lparr> worker_id = ''1'', latency_avg_ms = 10, latency_stdev_ms = 1,
                 req_per_sec_avg = 100, req_per_sec_stdev = 5,
                 log_path = Path ''wrk_log/wrk_client_1.log'' \<rparr>"]
        compute_run_metrics_contract
          [of "[\<lparr> worker_id = ''3'', latency_avg_ms = 0, latency_stdev_ms = 0,
                   req_per_sec_avg = 100, req_per_sec_stdev = 5,
                   log_path = Path ''wrk_log/wrk_client_3.log'' \<rparr>]"
              "\<lparr> worker_id = ''3'', latency_avg_ms = 0, latency_stdev_ms = 0,
                 req_per_sec_avg = 100, req_per_sec_stdev = 5,
                 log_path = Path ''wrk_log/wrk_client_3.log'' \<rparr>"]
  by (simp add: numeral_2_eq_2)

subsection \<open>Per-connection worker summaries\<close>

lemma py_int_error: "py_int t = Inl e \<Longrightarrow> e = IntValueError"
  by (auto simp: py_int_def Let_def split: prod.splits if_splits)

lemma truediv_Inr: "b \<noteq> 0 \<Longrightarrow> truediv a b = Inr (a / b)"
  by (simp add: truediv_def)

lemma summary_values_no_zero_division:
  "ebind (if (duration_ns :: int) > 0 then truediv (real_of_int duration_ns) (10 ^ 9) else Inr 0)
     (\<lambda>duration_sec.
   ebind (if duration_sec > 0 then truediv (real_of_int total_requests) duration_sec else Inr 0)
     (\<lambda>throughput.
   ebind (if (latency_count :: int) > 0
          then ebind (truediv (real_of_int latency_sum_ns) (real_of_int latency_count))
                 (\<lambda>q. truediv q (10 ^ 6))
          else Inr 0)
     (\<lambda>latency_avg.
   ebind (if (latency_min_ns :: int) > 0 then truediv (real_of_int latency_min_ns) (10 ^ 6) else Inr 0)
     (\<lambda>latency_min.
   ebind (if (latency_max_ns :: int) > 0 then truediv (real_of_int latency_max_ns) (10 ^ 6) else Inr 0)
     (\<lambda>latency_max. Inr (f duration_sec throughput latency_avg latency_min latency_max))))))
   = Inr (f (if duration_ns \<le> 0 then 0 else real_of_int duration_ns / 10 ^ 9)
            (if duration_ns \<le> 0 then 0
             else real_of_int total_requests / (real_of_int duration_ns / 10 ^ 9))
            (if latency_count \<le> 0 then 0
             else real_of_int latency_sum_ns / real_of_int latency_count / 10 ^ 6)
            (if latency_min_ns \<le> 0 then 0 else real_of_int latency_min_ns / 10 ^ 6)
            (if latency_max_ns \<le> 0 then 0 else real_of_int latency_max_ns / 10 ^ 6))"
  by (simp add: truediv_def)

lemma parse_summary_file_values:
  assumes "foldl summary_line Map.empty lines = data"
    and "list_all (\<lambda>key. data key \<noteq> None) required_keys"
    and "py_int (the (data ''success'')) = Inr success"
    and "py_int (the (data ''failure'')) = Inr failure"
    and "py_int (the (data ''latency_count'')) = Inr latency_count"
    and "py_int (the (data ''latency_sum_ns'')) = Inr latency_sum_ns"
    and "py_int (the (data ''latency_min_ns'')) = Inr latency_min_ns"
    and "py_int (the (data ''latency_max_ns'')) = Inr latency_max_ns"
    and "py_int (the (data ''duration_ns'')) = Inr duration_ns"
  shows "parse_summary_file p lines =
     Inr \<lparr> ws_worker_id = extract_worker_id p,
           ws_total_requests = success + failure,
           ws_success = success,
           ws_failure = failure,
           ws_duration_sec = (if duration_ns \<le> 0 then 0 else real_of_int duration_ns / 10 ^ 9),
           ws_throughput_req_per_sec =
             (if duration_ns \<le> 0 then 0
              else real_of_int (success + failure) / (real_of_int duration_ns / 10 ^ 9)),
           ws_latency_avg_ms =
             (if latency_count \<le> 0 then 0
              else real_of_int latency_sum_ns / real_of_int latency_count / 10 ^ 6),
           ws_latency_min_ms = (if latency_min_ns \<le> 0 then 0 else real_of_int latency_min_ns / 10 ^ 6),
           ws_latency_max_ms = (if latency_max_ns \<le> 0 then 0 else real_of_int latency_max_ns / 10 ^ 6),
           ws_summary_path = Path p \<rparr>"
proof -
  have m: "filter (\<lambda>key. data key = None) required_keys = []"
    using assms(2) by (simp add: filter_empty_conv list_all_iff)
  show ?thesis
    unfolding parse_summary_file_def Let_def assms(1) m
    apply (simp only: refl if_False assms(3-9) ebind.simps)
    apply (subst summary_values_no_zero_division)
    apply simp
    done
qed

lemma ebind_not_error:
  "m \<noteq> Inl e \<Longrightarrow> (\<And>v. f v \<noteq> Inl e) \<Longrightarrow> ebind m f \<noteq> Inl e"
  by (cases m) auto

lemma py_int_not_zero_division: "py_int t \<noteq> Inl ZeroDivisionError"
  using py_int_error[of t ZeroDivisionError] by auto

lemma parse_summary_file_no_zero_division:
  "parse_summary_file p lines \<noteq> Inl ZeroDivisionError"
  unfolding parse_summary_file_def Let_def
  apply (split if_split, intro conjI impI)
   apply simp
  apply (intro ebind_not_error py_int_not_zero_division)
       apply (auto simp: truediv_def)
  done

text \<open>
  Claim C9. \<open>parse_summary_file\<close> never divides by zero, whatever the lines are. When all
  required keys are present and parse as integers, it returns a summary in which the
  throughput is 0 if \<open>duration_ns \<le> 0\<close> (and the total of requests over the duration in
  seconds otherwise), the average latency is 0 if \<open>latency_count \<le> 0\<close> (and the sum over
  the count, in milliseconds, otherwise), and the minimum and maximum latencies are 0 for
  non-positive nanosecond values.
\<close>

theorem parse_summary_file_guards:
  "parse_summary_file p lines \<noteq> Inl ZeroDivisionError
   \<and> (foldl summary_line Map.empty lines = data
       \<and> list_all (\<lambda>key. data key \<noteq> None) required_keys
       \<and> py_int (the (data ''success'')) = Inr success
       \<and> py_int (the (data ''failure'')) = Inr failure
       \<and> py_int (the (data ''latency_count'')) = Inr latency_count
       \<and> py_int (the (data ''latency_sum_ns'')) = Inr latency_sum_ns
       \<and> py_int (the (data ''latency_min_ns'')) = Inr latency_min_ns
       \<and> py_int (the (data ''latency_max_ns'')) = Inr latency_max_ns
       \<and> py_int (the (data ''duration_ns'')) = Inr duration_ns
      \<longrightarrow> parse_summary_file p lines =
         Inr \<lparr> ws_worker_id = extract_worker_id p,
               ws_total_requests = success + failure,
               ws_success = success,
               ws_failure = failure,
               ws_duration_sec = (if duration_ns \<le> 0 then 0 else real_of_int duration_ns / 10 ^ 9),
               ws_throughput_req_per_sec =
                 (if duration_ns \<le> 0 then 0
                  else real_of_int (success + failure) / (real_of_int duration_ns / 10 ^ 9)),
               ws_latency_avg_ms =
                 (if latency_count \<le> 0 then 0
                  else real_of_int latency_sum_ns / real_of_int latency_count / 10 ^ 6),
               ws_latency_min_ms =
                 (if latency_min_ns \<le> 0 then 0 else real_of_int latency_min_ns / 10 ^ 6),
               ws_latency_max_ms =
                 (if latency_max_ns \<le> 0 then 0 else real_of_int latency_max_ns / 10 ^ 6),
               ws_summary_path = Path p \<rparr>)"
  using parse_summary_file_no_zero_division[of p lines]
        parse_summary_file_values[of lines data success failure latency_count latency_sum_ns
                                      latency_min_ns latency_max_ns duration_ns p]
  by blast

theorem parse_summary_file_guards_witness:
  "foldl summary_line Map.empty [''success=10'', ''failure=2'', ''latency_sum_ns=5000000'', ''latency_count=0'', ''latency_min_ns=0'', ''latency_max_ns=-5'', ''duration_ns=0'']
       = [''success'' \<mapsto> ''10'', ''failure'' \<mapsto> ''2'', ''latency_sum_ns'' \<mapsto> ''5000000'', ''latency_count'' \<mapsto> ''0'', ''latency_min_ns'' \<mapsto> ''0'', ''latency_max_ns'' \<mapsto> ''-5'', ''duration_ns'' \<mapsto> ''0'']
   \<and> py_int ''-5'' = Inr (- 5)
   \<and> parse_summary_file ''per_connection_wrk_log/worker_3.summary''
        [''success=10'', ''failure=2'', ''latency_sum_ns=5000000'', ''latency_count=0'', ''latency_min_ns=0'', ''latency_max_ns=-5'', ''duration_ns=0'']
       = Inr \<lparr> ws_worker_id = ''3'', ws_total_requests = 12, ws_success = 10, ws_failure = 2,
            ws_duration_sec = 0, ws_throughput_req_per_sec = 0, ws_latency_avg_ms = 0,
            ws_latency_min_ms = 0, ws_latency_max_ms = 0, ws_summary_path = Path ''per_connection_wrk_log/worker_3.summary'' \<rparr>
   \<and> foldl summary_line Map.empty [''success = 10'', ''failure=2'', [], ''# comment'', ''latency_sum_ns=8000000'', ''latency_count=4'', ''latency_min_ns=1000000'', ''latency_max_ns=3000000'', ''duration_ns=2_000_000_000'']
       = [''success'' \<mapsto> ''10'', ''failure'' \<mapsto> ''2'', ''latency_sum_ns'' \<mapsto> ''8000000'', ''latency_count'' \<mapsto> ''4'', ''latency_min_ns'' \<mapsto> ''1000000'', ''latency_max_ns'' \<mapsto> ''3000000'', ''duration_ns'' \<mapsto> ''2_000_000_000'']
   \<and> py_int ''2_000_000_000'' = Inr 2000000000
   \<and> parse_summary_file ''per_connection_wrk_log/worker_3.summary''
        [''success = 10'', ''failure=2'', [], ''# comment'', ''latency_sum_ns=8000000'', ''latency_count=4'', ''latency_min_ns=1000000'', ''latency_max_ns=3000000'', ''duration_ns=2_000_000_000'']
       = Inr \<lparr> ws_worker_id = ''3'', ws_total_requests = 12, ws_success = 10, ws_failure = 2,
            ws_duration_sec = 2, ws_throughput_req_per_sec = 6, ws_latency_avg_ms = 2,
            ws_latency_min_ms = 1, ws_latency_max_ms = 3, ws_summary_path = Path ''per_connection_wrk_log/worker_3.summary'' \<rparr>"
proof -
  have s0: "\<And>d. summary_line d ''success=10'' = d(''success'' \<mapsto> ''10'')"
    by (simp add: summary_line_def py_strip_def split_once_def is_space_def)
  have s1: "\<And>d. summary_line d ''failure=2'' = d(''failure'' \<mapsto> ''2'')"
    by (simp add: summary_line_def py_strip_def split_once_def is_space_def)
  have s2: "\<And>d. summary_line d ''latency_sum_ns=5000000'' = d(''latency_sum_ns'' \<mapsto> ''5000000'')"
    by (simp add: summary_line_def py_strip_def split_once_def is_space_def)
  have s3: "\<And>d. summary_line d ''latency_count=0'' = d(''latency_count'' \<mapsto> ''0'')"
    by (simp add: summary_line_def py_strip_def split_once_def is_space_def)
  have s4: "\<And>d. summary_line d ''latency_min_ns=0'' = d(''latency_min_ns'' \<mapsto> ''0'')"
    by (simp add: summary_line_def py_strip_def split_once_def is_space_def)
  have s5: "\<And>d. summary_line d ''latency_max_ns=-5'' = d(''latency_max_ns'' \<mapsto> ''-5'')"
    by (simp add: summary_line_def py_strip_def split_once_def is_space_def)
  have s6: "\<And>d. summary_line d ''duration_ns=0'' = d(''duration_ns'' \<mapsto> ''0'')"
    by (simp add: summary_line_def py_strip_def split_once_def is_space_def)
  have s7: "\<And>d. summary_line d ''success = 10'' = d(''success'' \<mapsto> ''10'')"
    by (simp add: summary_line_def py_strip_def split_once_def is_space_def)
  have s8: "\<And>d. summary_line d [] = d"
    by (simp add: summary_line_def py_strip_def split_once_def is_space_def)
  have s9: "\<And>d. summary_line d ''# comment'' = d"
    by (simp add: summary_line_def py_strip_def split_once_def is_space_def)
  have s10: "\<And>d. summary_line d ''latency_sum_ns=8000000'' = d(''latency_sum_ns'' \<mapsto> ''8000000'')"
    by (simp add: summary_line_def py_strip_def split_once_def is_space_def)
  have s11: "\<And>d. summary_line d ''latency_count=4'' = d(''latency_count'' \<mapsto> ''4'')"
    by (simp add: summary_line_def py_strip_def split_once_def is_space_def)
  have s12: "\<And>d. summary_line d ''latency_min_ns=1000000'' = d(''latency_min_ns'' \<mapsto> ''1000000'')"
    by (simp add: summary_line_def py_strip_def split_once_def is_space_def)
  have s13: "\<And>d. summary_line d ''latency_max_ns=3000000'' = d(''latency_max_ns'' \<mapsto> ''3000000'')"
    by (simp add: summary_line_def py_strip_def split_once_def is_space_def)
  have s14: "\<And>d. summary_line d ''duration_ns=2_000_000_000'' = d(''duration_ns'' \<mapsto> ''2_000_000_000'')"
    by (simp add: summary_line_def py_strip_def split_once_def is_space_def)
  have n0: "py_int ''10'' = Inr 10"
    by (simp add: py_int_def py_strip_def is_space_def is_digit_def nat_of_digits_def digit_val_def)
  have n1: "py_int ''2'' = Inr 2"
    by (simp add: py_int_def py_strip_def is_space_def is_digit_def nat_of_digits_def digit_val_def)
  have n2: "py_int ''5000000'' = Inr 5000000"
    by (simp add: py_int_def py_strip_def is_space_def is_digit_def nat_of_digits_def digit_val_def)
  have n3: "py_int ''0'' = Inr 0"
    by (simp add: py_int_def py_strip_def is_space_def is_digit_def nat_of_digits_def digit_val_def)
  have n4: "py_int ''-5'' = Inr (- 5)"
    by (simp add: py_int_def py_strip_def is_space_def is_digit_def nat_of_digits_def digit_val_def)
  have n5: "py_int ''8000000'' = Inr 8000000"
    by (simp add: py_int_def py_strip_def is_space_def is_digit_def nat_of_digits_def digit_val_def)
  have n6: "py_int ''4'' = Inr 4"
    by (simp add: py_int_def py_strip_def is_space_def is_digit_def nat_of_digits_def digit_val_def)
  have n7: "py_int ''1000000'' = Inr 1000000"
    by (simp add: py_int_def py_strip_def is_space_def is_digit_def nat_of_digits_def digit_val_def)
  have n8: "py_int ''3000000'' = Inr 3000000"
    by (simp add: py_int_def py_strip_def is_space_def is_digit_def nat_of_digits_def digit_val_def)
  have n9: "py_int ''2_000_000_000'' = Inr 2000000000"
    by (simp add: py_int_def py_strip_def is_space_def is_digit_def nat_of_digits_def digit_val_def)
  have d0: "foldl summary_line Map.empty [''success=10'', ''failure=2'', ''latency_sum_ns=5000000'', ''latency_count=0'', ''latency_min_ns=0'', ''latency_max_ns=-5'', ''duration_ns=0'']
       = [''success'' \<mapsto> ''10'', ''failure'' \<mapsto> ''2'', ''latency_sum_ns'' \<mapsto> ''5000000'', ''latency_count'' \<mapsto> ''0'', ''latency_min_ns'' \<mapsto> ''0'', ''latency_max_ns'' \<mapsto> ''-5'', ''duration_ns'' \<mapsto> ''0'']"
    by (simp add: s0 s1 s2 s3 s4 s5 s6 s7 s8 s9 s10 s11 s12 s13 s14)
  have d1: "foldl summary_line Map.empty [''success = 10'', ''failure=2'', [], ''# comment'', ''latency_sum_ns=8000000'', ''latency_count=4'', ''latency_min_ns=1000000'', ''latency_max_ns=3000000'', ''duration_ns=2_000_000_000'']
       = [''success'' \<mapsto> ''10'', ''failure'' \<mapsto> ''2'', ''latency_sum_ns'' \<mapsto> ''8000000'', ''latency_count'' \<mapsto> ''4'', ''latency_min_ns'' \<mapsto> ''1000000'', ''latency_max_ns'' \<mapsto> ''3000000'', ''duration_ns'' \<mapsto> ''2_000_000_000'']"
    by (simp add: s0 s1 s2 s3 s4 s5 s6 s7 s8 s9 s10 s11 s12 s13 s14)
  have w: "extract_worker_id ''per_connection_wrk_log/worker_3.summary'' = ''3''"
    by code_simp
  note t0 = parse_summary_file_guards
    [where p = "''per_connection_wrk_log/worker_3.summary''" and lines = "[''success=10'', ''failure=2'', ''latency_sum_ns=5000000'', ''latency_count=0'', ''latency_min_ns=0'', ''latency_max_ns=-5'', ''duration_ns=0'']"
       and data = "[''success'' \<mapsto> ''10'', ''failure'' \<mapsto> ''2'', ''latency_sum_ns'' \<mapsto> ''5000000'', ''latency_count'' \<mapsto> ''0'', ''latency_min_ns'' \<mapsto> ''0'', ''latency_max_ns'' \<mapsto> ''-5'', ''duration_ns'' \<mapsto> ''0'']"
       and success = "10" and failure = "2" and latency_count = "0" and latency_sum_ns = "5000000" and latency_min_ns = "0" and latency_max_ns = "(- 5)" and duration_ns = "0"]
  note t1 = parse_summary_file_guards
    [where p = "''per_connection_wrk_log/worker_3.summary''" and lines = "[''success = 10'', ''failure=2'', [], ''# comment'', ''latency_sum_ns=8000000'', ''latency_count=4'', ''latency_min_ns=1000000'', ''latency_max_ns=3000000'', ''duration_ns=2_000_000_000'']"
       and data = "[''success'' \<mapsto> ''10'', ''failure'' \<mapsto> ''2'', ''latency_sum_ns'' \<mapsto> ''8000000'', ''latency_count'' \<mapsto> ''4'', ''latency_min_ns'' \<mapsto> ''1000000'', ''latency_max_ns'' \<mapsto> ''3000000'', ''duration_ns'' \<mapsto> ''2_000_000_000'']"
       and success = "10" and failure = "2" and latency_count = "4" and latency_sum_ns = "8000000" and latency_min_ns = "1000000" and latency_max_ns = "3000000" and duration_ns = "2000000000"]
  show ?thesis
    using t0 t1 w d0 d1 n0 n1 n2 n3 n4 n5 n6 n7 n8 n9
    by (simp add: required_keys_def)
qed

subsection \<open>EvaluationPipeline\<close>

lemma finally_block_metrics: "metrics (finally_block w r) = metrics r"
  by (simp add: finally_block_def)

lemma finally_block_artifacts:
  "artifacts r key = Some text \<Longrightarrow> artifacts (finally_block w r) key = Some text"
  by (auto simp: finally_block_def)

lemma stopped_at_CompileFailed:
  "stopped_at w = CompileFailed \<longleftrightarrow> \<not> fst (run_go_generate w)"
  by (simp add: stopped_at_def)

lemma evaluate_compile_failed:
  "\<not> fst (run_go_generate w) \<Longrightarrow>
   evaluate w = Inr \<lparr> metrics = METRICS_DEFAULTS,
                      artifacts = [''compile_output'' \<mapsto> snd (run_go_generate w)] \<rparr>"
  by (simp add: evaluate_def Let_def case_prod_beta)

lemma evaluate_launch_failed:
  "fst (run_go_generate w) \<Longrightarrow> popen_servers w = Some msg \<Longrightarrow>
   evaluate w = Inr \<lparr> metrics = METRICS_DEFAULTS(''compile_successful'' \<mapsto> 1),
                      artifacts = [''compile_output'' \<mapsto> snd (run_go_generate w),
                                   ''launch_failure'' \<mapsto> ''Failed to launch servers: '' @ msg] \<rparr>"
  by (simp add: evaluate_def Let_def start_servers_def case_prod_beta)

lemma evaluate_started:
  "fst (run_go_generate w) \<Longrightarrow> popen_servers w = None \<Longrightarrow>
   evaluate w =
     (case evaluate_try w (METRICS_DEFAULTS(''compile_successful'' \<mapsto> 1))
             [''compile_output'' \<mapsto> snd (run_go_generate w)] of
        Inl exn \<Rightarrow> Inl exn
      | Inr r \<Rightarrow> Inr (finally_block w r))"
  by (simp add: evaluate_def Let_def start_servers_def case_prod_beta)

lemma evaluate_try_failure:
  assumes "\<not> wait_for_server_logs w \<or> poll_when_ready w \<noteq> None
           \<or> scan_server_logs_for_errors w \<noteq> []"
  shows "\<exists>a' text. evaluate_try w m a = Inr \<lparr> metrics = m, artifacts = a' \<rparr>
                    \<and> a' ''launch_failure'' = Some text"
  using assms by (auto simp: evaluate_try_def)

lemma evaluate_try_workload_failure:
  assumes "wait_for_server_logs w" "poll_when_ready w = None" "scan_server_logs_for_errors w = []"
    and "\<not> fst (run_workload w) \<or> \<not> path_exists w summary_path \<or> \<not> path_exists w metrics_path"
  shows "\<exists>a' text. evaluate_try w m a = Inr \<lparr> metrics = m, artifacts = a' \<rparr>
                    \<and> a' ''workload_failure'' = Some text"
  using assms by (auto simp: evaluate_try_def Let_def case_prod_beta)

lemma evaluate_try_parsed:
  assumes "wait_for_server_logs w" "poll_when_ready w = None" "scan_server_logs_for_errors w = []"
    and "fst (run_workload w)" "path_exists w summary_path" "path_exists w metrics_path"
  shows "evaluate_try w m a =
           (case parse_metrics_csv w of
              Inl exn \<Rightarrow> Inl exn
            | Inr (t, l, s) \<Rightarrow>
                Inr \<lparr> metrics = m(''average_tput'' \<mapsto> t, ''average_latency'' \<mapsto> l,
                                    ''total_score'' \<mapsto> s, ''run_successful'' \<mapsto> 1),
                      artifacts =
                        add_latest_log w ''cpu_stats*.log'' ''cpu_stats_log''
                          (add_latest_log w ''acceptq_stats*.log'' ''acceptq_stats_log''
                            (case collect_artifact w metrics_path of
                               None \<Rightarrow> (case collect_artifact w summary_path of
                                          None \<Rightarrow> a(''workload_stdout'' \<mapsto> stdout (snd (run_workload w)),
                                                    ''workload_stderr'' \<mapsto> stderr (snd (run_workload w)))
                                        | Some c \<Rightarrow> a(''workload_stdout'' \<mapsto> stdout (snd (run_workload w)),
                                                      ''workload_stderr'' \<mapsto> stderr (snd (run_workload w)),
                                                      ''basic_workload_summary_csv'' \<mapsto> c))
                             | Some c' \<Rightarrow> (case collect_artifact w summary_path of
                                          None \<Rightarrow> a(''workload_stdout'' \<mapsto> stdout (snd (run_workload w)),
                                                    ''workload_stderr'' \<mapsto> stderr (snd (run_workload w)))
                                        | Some c \<Rightarrow> a(''workload_stdout'' \<mapsto> stdout (snd (run_workload w)),
                                                      ''workload_stderr'' \<mapsto> stderr (snd (run_workload w)),
                                                      ''basic_workload_summary_csv'' \<mapsto> c))
                                       (''basic_workload_metrics_csv'' \<mapsto> c'))) \<rparr>)"
  using assms
  by (cases "parse_metrics_csv w")
     (auto simp: evaluate_try_def Let_def case_prod_beta split: option.splits)


lemma finally_block_record:
  "finally_block w \<lparr> metrics = m, artifacts = a \<rparr> =
     \<lparr> metrics = m,
       artifacts = (if server_output w \<noteq> [] \<and> a ''launch_servers_output'' = None
                    then a(''launch_servers_output'' \<mapsto> concat (server_output w)) else a) \<rparr>"
  by (simp add: finally_block_def)

lemma evaluate_result_shape:
  "(stopped_at w = CompileFailed
      \<and> (\<exists>a text. evaluate w = Inr \<lparr> metrics = METRICS_DEFAULTS, artifacts = a \<rparr>
                   \<and> a ''compile_output'' = Some text))
   \<or> (stopped_at w \<in> {LaunchFailed, NotReady, ExitedEarly, ErrorsInLogs}
      \<and> (\<exists>a text. evaluate w = Inr \<lparr> metrics = METRICS_DEFAULTS(''compile_successful'' \<mapsto> 1),
                                      artifacts = a \<rparr>
                   \<and> a ''launch_failure'' = Some text))
   \<or> (stopped_at w \<in> {WorkloadFailed, ArtifactsMissing}
      \<and> (\<exists>a text. evaluate w = Inr \<lparr> metrics = METRICS_DEFAULTS(''compile_successful'' \<mapsto> 1),
                                      artifacts = a \<rparr>
                   \<and> a ''workload_failure'' = Some text))
   \<or> (stopped_at w = SummaryParsed
      \<and> ((\<exists>exn. parse_metrics_csv w = Inl exn \<and> evaluate w = Inl exn)
         \<or> (\<exists>t l s a. parse_metrics_csv w = Inr (t, l, s)
               \<and> evaluate w = Inr \<lparr> metrics = METRICS_DEFAULTS
                                       (''compile_successful'' \<mapsto> 1, ''average_tput'' \<mapsto> t,
                                        ''average_latency'' \<mapsto> l, ''total_score'' \<mapsto> s,
                                        ''run_successful'' \<mapsto> 1),
                                     artifacts = a \<rparr>)))"
proof -
  let ?m = "METRICS_DEFAULTS(''compile_successful'' \<mapsto> 1)"
  let ?a = "[''compile_output'' \<mapsto> snd (run_go_generate w)]"
  consider (cf) "\<not> fst (run_go_generate w)"
    | (lf) msg where "fst (run_go_generate w)" "popen_servers w = Some msg"
    | (tf) "fst (run_go_generate w)" "popen_servers w = None"
           "\<not> wait_for_server_logs w \<or> poll_when_ready w \<noteq> None
            \<or> scan_server_logs_for_errors w \<noteq> []"
    | (wf) "fst (run_go_generate w)" "popen_servers w = None"
           "wait_for_server_logs w" "poll_when_ready w = None" "scan_server_logs_for_errors w = []"
           "\<not> fst (run_workload w) \<or> \<not> path_exists w summary_path \<or> \<not> path_exists w metrics_path"
    | (ok) "fst (run_go_generate w)" "popen_servers w = None"
           "wait_for_server_logs w" "poll_when_ready w = None" "scan_server_logs_for_errors w = []"
           "fst (run_workload w)" "path_exists w summary_path" "path_exists w metrics_path"
    by (cases "popen_servers w") auto
  then show ?thesis
  proof cases
    case cf
    then have "stopped_at w = CompileFailed" by (simp add: stopped_at_def)
    with evaluate_compile_failed[OF cf] show ?thesis by simp
  next
    case lf
    then have "stopped_at w = LaunchFailed" by (simp add: stopped_at_def)
    with evaluate_launch_failed[OF lf] show ?thesis by simp
  next
    case tf
    then have st: "stopped_at w \<in> {NotReady, ExitedEarly, ErrorsInLogs}"
      by (auto simp: stopped_at_def)
    from evaluate_try_failure[OF tf(3), of ?m ?a] obtain a' tx where
      "evaluate_try w ?m ?a = Inr \<lparr> metrics = ?m, artifacts = a' \<rparr>" "a' ''launch_failure'' = Some tx"
      by blast
    then have "\<exists>a text. evaluate w = Inr \<lparr> metrics = ?m, artifacts = a \<rparr>
                       \<and> a ''launch_failure'' = Some text"
      by (simp add: evaluate_started[OF tf(1,2)] finally_block_record)
    with st show ?thesis by blast
  next
    case wf
    then have st: "stopped_at w \<in> {WorkloadFailed, ArtifactsMissing}"
      by (auto simp: stopped_at_def)
    from evaluate_try_workload_failure[OF wf(3-6), of ?m ?a] obtain a' tx where
      "evaluate_try w ?m ?a = Inr \<lparr> metrics = ?m, artifacts = a' \<rparr>" "a' ''workload_failure'' = Some tx"
      by blast
    then have "\<exists>a text. evaluate w = Inr \<lparr> metrics = ?m, artifacts = a \<rparr>
                       \<and> a ''workload_failure'' = Some text"
      by (simp add: evaluate_started[OF wf(1,2)] finally_block_record)
    with st show ?thesis by blast
  next
    case ok
    then have st: "stopped_at w = SummaryParsed" by (simp add: stopped_at_def)
    show ?thesis
    proof (cases "parse_metrics_csv w")
      case (Inl exn)
      then have "evaluate w = Inl exn"
        by (simp add: evaluate_started[OF ok(1,2)] evaluate_try_parsed[OF ok(3-8)])
      with st Inl show ?thesis by blast
    next
      case (Inr v)
      obtain t l s where v: "v = (t, l, s)" by (cases v)
      with Inr have "\<exists>a. evaluate w = Inr \<lparr> metrics = ?m(''average_tput'' \<mapsto> t,
                         ''average_latency'' \<mapsto> l, ''total_score'' \<mapsto> s, ''run_successful'' \<mapsto> 1),
                       artifacts = a \<rparr>"
        by (simp add: evaluate_started[OF ok(1,2)] evaluate_try_parsed[OF ok(3-8)]
              finally_block_record)
      with st Inr v show ?thesis by blast
    qed
  qed
qed

lemma metrics_defaults_dom:
  "dom METRICS_DEFAULTS = {''average_tput'', ''average_latency'', ''total_score'',
                            ''run_successful'', ''compile_successful''}"
  by (auto simp: METRICS_DEFAULTS_def split: if_splits)

text \<open>
  Claim C3. Whenever \<open>evaluate\<close> returns a result, at whichever stage the pipeline stopped,
  its metrics map has exactly the five keys \<open>average_tput\<close>, \<open>average_latency\<close>,
  \<open>total_score\<close>, \<open>run_successful\<close> and \<open>compile_successful\<close>; the keys of the stages not
  reached are 0: \<open>compile_successful\<close> when the build failed, and the three run metrics
  and \<open>run_successful\<close> whenever the pipeline stopped before the summary was parsed. After
  a full run they hold the parsed values and 1.
\<close>

theorem evaluate_metrics_keys:
  "evaluate w = Inr r \<longrightarrow>
     dom (metrics r) = {''average_tput'', ''average_latency'', ''total_score'',
                        ''run_successful'', ''compile_successful''}
     \<and> (stopped_at w = CompileFailed \<longrightarrow> metrics r ''compile_successful'' = Some 0)
     \<and> (stopped_at w \<noteq> CompileFailed \<longrightarrow> metrics r ''compile_successful'' = Some 1)
     \<and> (stopped_at w \<noteq> SummaryParsed \<longrightarrow>
          metrics r ''average_tput'' = Some 0 \<and> metrics r ''average_latency'' = Some 0
          \<and> metrics r ''total_score'' = Some 0 \<and> metrics r ''run_successful'' = Some 0)
     \<and> (stopped_at w = SummaryParsed \<longrightarrow>
          (\<exists>t l s. parse_metrics_csv w = Inr (t, l, s)
             \<and> metrics r ''average_tput'' = Some t \<and> metrics r ''average_latency'' = Some l
             \<and> metrics r ''total_score'' = Some s \<and> metrics r ''run_successful'' = Some 1))"
proof
  assume r: "evaluate w = Inr r"
  have d: "\<And>m. dom m = dom METRICS_DEFAULTS \<Longrightarrow> dom m = {''average_tput'', ''average_latency'',
             ''total_score'', ''run_successful'', ''compile_successful''}"
    by (simp add: metrics_defaults_dom)
  from evaluate_result_shape[of w] r
  consider (cf) "stopped_at w = CompileFailed" "metrics r = METRICS_DEFAULTS"
    | (fl) "stopped_at w \<noteq> CompileFailed" "stopped_at w \<noteq> SummaryParsed"
           "metrics r = METRICS_DEFAULTS(''compile_successful'' \<mapsto> 1)"
    | (ok) t l s where "stopped_at w = SummaryParsed" "parse_metrics_csv w = Inr (t, l, s)"
           "metrics r = METRICS_DEFAULTS(''compile_successful'' \<mapsto> 1, ''average_tput'' \<mapsto> t,
                          ''average_latency'' \<mapsto> l, ''total_score'' \<mapsto> s, ''run_successful'' \<mapsto> 1)"
    by (elim disjE conjE exE) auto
  then show "dom (metrics r) = {''average_tput'', ''average_latency'', ''total_score'',
                        ''run_successful'', ''compile_successful''}
     \<and> (stopped_at w = CompileFailed \<longrightarrow> metrics r ''compile_successful'' = Some 0)
     \<and> (stopped_at w \<noteq> CompileFailed \<longrightarrow> metrics r ''compile_successful'' = Some 1)
     \<and> (stopped_at w \<noteq> SummaryParsed \<longrightarrow>
          metrics r ''average_tput'' = Some 0 \<and> metrics r ''average_latency'' = Some 0
          \<and> metrics r ''total_score'' = Some 0 \<and> metrics r ''run_successful'' = Some 0)
     \<and> (stopped_at w = SummaryParsed \<longrightarrow>
          (\<exists>t l s. parse_metrics_csv w = Inr (t, l, s)
             \<and> metrics r ''average_tput'' = Some t \<and> metrics r ''average_latency'' = Some l
             \<and> metrics r ''total_score'' = Some s \<and> metrics r ''run_successful'' = Some 1))"
  proof cases
    case cf
    then show ?thesis by (simp add: metrics_defaults_dom) (simp add: METRICS_DEFAULTS_def)
  next
    case fl
    then show ?thesis
      by (simp add: metrics_defaults_dom insert_absorb) (simp add: METRICS_DEFAULTS_def)
  next
    case ok
    have "dom (metrics r) = {''average_tput'', ''average_latency'', ''total_score'',
                        ''run_successful'', ''compile_successful''}"
      unfolding ok(3) by (auto simp: METRICS_DEFAULTS_def split: if_splits)
    with ok show ?thesis by simp
  qed
qed

theorem evaluate_metrics_keys_witness:
  "(\<exists>r. evaluate world_ok = Inr r
        \<and> dom (metrics r) = {''average_tput'', ''average_latency'', ''total_score'',
                             ''run_successful'', ''compile_successful''}
        \<and> metrics r ''compile_successful'' = Some 1
        \<and> metrics r ''average_tput'' = Some 200 \<and> metrics r ''average_latency'' = Some 10
        \<and> metrics r ''total_score'' = Some 20 \<and> metrics r ''run_successful'' = Some 1)
   \<and> stopped_at world_compile_error = CompileFailed
   \<and> (\<exists>r. evaluate world_compile_error = Inr r
        \<and> dom (metrics r) = {''average_tput'', ''average_latency'', ''total_score'',
                             ''run_successful'', ''compile_successful''}
        \<and> metrics r ''compile_successful'' = Some 0
        \<and> metrics r ''average_tput'' = Some 0 \<and> metrics r ''average_latency'' = Some 0
        \<and> metrics r ''total_score'' = Some 0 \<and> metrics r ''run_successful'' = Some 0)
   \<and> stopped_at world_not_ready = NotReady
   \<and> (\<exists>r. evaluate world_not_ready = Inr r
        \<and> dom (metrics r) = {''average_tput'', ''average_latency'', ''total_score'',
                             ''run_successful'', ''compile_successful''}
        \<and> metrics r ''compile_successful'' = Some 1
        \<and> metrics r ''average_tput'' = Some 0 \<and> metrics r ''average_latency'' = Some 0
        \<and> metrics r ''total_score'' = Some 0 \<and> metrics r ''run_successful'' = Some 0)"
proof -
  have s1: "stopped_at world_ok = SummaryParsed" by code_simp
  have p1: "parse_metrics_csv world_ok = Inr (200, 10, 20)" by code_simp
  have s2: "stopped_at world_compile_error = CompileFailed" by code_simp
  have s3: "stopped_at world_not_ready = NotReady" by code_simp
  from evaluate_result_shape[of world_ok] s1 p1
  obtain r1 where r1: "evaluate world_ok = Inr r1" by auto
  from evaluate_result_shape[of world_compile_error] s2
  obtain r2 where r2: "evaluate world_compile_error = Inr r2" by auto
  from evaluate_result_shape[of world_not_ready] s3
  obtain r3 where r3: "evaluate world_not_ready = Inr r3" by auto
  show ?thesis
    using evaluate_metrics_keys[of world_ok r1] evaluate_metrics_keys[of world_compile_error r2]
          evaluate_metrics_keys[of world_not_ready r3] r1 r2 r3 s1 s2 s3 p1
    by simp
qed

lemma run_go_generate_ok:
  "fst (run_go_generate w) \<longleftrightarrow> (\<exists>c. go_generate w = Completed c \<and> returncode c = 0)"
  by (cases "go_generate w") (simp_all add: run_go_generate_def)

lemma run_workload_ok:
  "fst (run_workload w) \<longleftrightarrow> (\<exists>c. workload w = Completed c \<and> returncode c = 0)"
  by (cases "workload w") (simp_all add: run_workload_def)

lemma returns_failure_try:
  assumes "fst (run_go_generate w)" "popen_servers w = None"
    and "evaluate_try w (METRICS_DEFAULTS(''compile_successful'' \<mapsto> 1))
           [''compile_output'' \<mapsto> snd (run_go_generate w)]
         = Inr \<lparr> metrics = METRICS_DEFAULTS(''compile_successful'' \<mapsto> 1), artifacts = a \<rparr>"
    and "a key = Some tx"
  shows "returns_failure w key tx"
proof -
  let ?r = "\<lparr> metrics = METRICS_DEFAULTS(''compile_successful'' \<mapsto> 1), artifacts = a \<rparr>"
  have "evaluate w = Inr (finally_block w ?r)"
    using assms(3) by (simp add: evaluate_started[OF assms(1,2)])
  moreover have "metrics (finally_block w ?r) ''run_successful'' = Some 0"
    by (simp add: finally_block_metrics METRICS_DEFAULTS_def)
  moreover have "artifacts (finally_block w ?r) key = Some tx"
    using assms(4) by (intro finally_block_artifacts) simp
  ultimately show ?thesis unfolding returns_failure_def by blast
qed

lemma failure_go_not_found:
  "go_generate w = FileNotFoundError msg \<Longrightarrow>
   returns_failure w ''compile_output'' (''Failed to execute go generate: '' @ msg)"
proof -
  assume a: "go_generate w = FileNotFoundError msg"
  then have "\<not> fst (run_go_generate w)" by (simp add: run_go_generate_def)
  from evaluate_compile_failed[OF this] a show ?thesis
    by (simp add: returns_failure_def METRICS_DEFAULTS_def run_go_generate_def)
qed

lemma failure_go_exit:
  "go_generate w = Completed c \<Longrightarrow> returncode c \<noteq> 0 \<Longrightarrow>
   returns_failure w ''compile_output'' (py_strip (stdout c @ stderr c))"
proof -
  assume a: "go_generate w = Completed c" "returncode c \<noteq> 0"
  then have "\<not> fst (run_go_generate w)" by (simp add: run_go_generate_def)
  from evaluate_compile_failed[OF this] a show ?thesis
    by (simp add: returns_failure_def METRICS_DEFAULTS_def run_go_generate_def)
qed

lemma failure_popen:
  assumes "go_generate w = Completed c" "returncode c = 0" "popen_servers w = Some msg"
  shows "returns_failure w ''launch_failure'' (''Failed to launch servers: '' @ msg)"
proof -
  have "fst (run_go_generate w)" using assms(1,2) by (simp add: run_go_generate_ok)
  from evaluate_launch_failed[OF this assms(3)] show ?thesis
    by (simp add: returns_failure_def METRICS_DEFAULTS_def)
qed

lemma failure_not_ready:
  assumes "go_generate w = Completed c"
    "returncode c = 0"
    "popen_servers w = None"
    "\<not> wait_for_server_logs w"
  shows "returns_failure w ''launch_failure''
           (''Server logs did not appear before timeout (exit_code=''
              @ str_opt_int (poll_after_wait w) @ '').'')"
proof -
  have g: "fst (run_go_generate w)" using assms(1,2) by (simp add: run_go_generate_ok)
  have e: "evaluate_try w (METRICS_DEFAULTS(''compile_successful'' \<mapsto> 1)) [''compile_output'' \<mapsto> snd (run_go_generate w)]
           = Inr \<lparr> metrics = METRICS_DEFAULTS(''compile_successful'' \<mapsto> 1),
                   artifacts = [''compile_output'' \<mapsto> snd (run_go_generate w)](''launch_failure'' \<mapsto>
                     ''Server logs did not appear before timeout (exit_code=''
              @ str_opt_int (poll_after_wait w) @ '').'') \<rparr>"
    using assms(4-4) by (simp add: evaluate_try_def )
  show ?thesis
    by (rule returns_failure_try[OF g assms(3) e]) simp
qed

lemma failure_exited_early:
  assumes "go_generate w = Completed c"
    "returncode c = 0"
    "popen_servers w = None"
    "wait_for_server_logs w"
    "poll_when_ready w = Some code"
  shows "returns_failure w ''launch_failure''
           (''launch_servers.sh exited early with code '' @ str_int code)"
proof -
  have g: "fst (run_go_generate w)" using assms(1,2) by (simp add: run_go_generate_ok)
  have e: "evaluate_try w (METRICS_DEFAULTS(''compile_successful'' \<mapsto> 1)) [''compile_output'' \<mapsto> snd (run_go_generate w)]
           = Inr \<lparr> metrics = METRICS_DEFAULTS(''compile_successful'' \<mapsto> 1),
                   artifacts = [''compile_output'' \<mapsto> snd (run_go_generate w)](''launch_failure'' \<mapsto>
                     ''launch_servers.sh exited early with code '' @ str_int code) \<rparr>"
    using assms(4-5) by (simp add: evaluate_try_def str_opt_int_def)
  show ?thesis
    by (rule returns_failure_try[OF g assms(3) e]) simp
qed

lemma failure_error_logs:
  assumes "go_generate w = Completed c"
    "returncode c = 0"
    "popen_servers w = None"
    "wait_for_server_logs w"
    "poll_when_ready w = None"
    "scan_server_logs_for_errors w \<noteq> []"
  shows "returns_failure w ''launch_failure''
           (''Detected 'error' keyword in server logs.'')"
proof -
  have g: "fst (run_go_generate w)" using assms(1,2) by (simp add: run_go_generate_ok)
  have e: "evaluate_try w (METRICS_DEFAULTS(''compile_successful'' \<mapsto> 1)) [''compile_output'' \<mapsto> snd (run_go_generate w)]
           = Inr \<lparr> metrics = METRICS_DEFAULTS(''compile_successful'' \<mapsto> 1),
                   artifacts = (fold (\<lambda>(name, content) a'. a'(''log_'' @ name \<mapsto> content))
                       (scan_server_logs_for_errors w) [''compile_output'' \<mapsto> snd (run_go_generate w)])
                     (''launch_failure'' \<mapsto> ''Detected 'error' keyword in server logs.'') \<rparr>"
    using assms(4-6) by (simp add: evaluate_try_def )
  show ?thesis
    by (rule returns_failure_try[OF g assms(3) e]) simp
qed

lemma failure_workload_not_found:
  assumes "go_generate w = Completed c"
    "returncode c = 0"
    "popen_servers w = None"
    "wait_for_server_logs w"
    "poll_when_ready w = None"
    "scan_server_logs_for_errors w = []"
    "workload w = FileNotFoundError msg"
  shows "returns_failure w ''workload_failure''
           (''basic-workload.sh exited with code '' @ str_int 127)"
proof -
  have g: "fst (run_go_generate w)" using assms(1,2) by (simp add: run_go_generate_ok)
  have e: "evaluate_try w (METRICS_DEFAULTS(''compile_successful'' \<mapsto> 1)) [''compile_output'' \<mapsto> snd (run_go_generate w)]
           = Inr \<lparr> metrics = METRICS_DEFAULTS(''compile_successful'' \<mapsto> 1),
                   artifacts = [''compile_output'' \<mapsto> snd (run_go_generate w)](''workload_stdout'' \<mapsto> [], ''workload_stderr'' \<mapsto> msg,
                     ''workload_failure'' \<mapsto> ''basic-workload.sh exited with code '' @ str_int 127) \<rparr>"
    using assms(4-7) by (simp add: evaluate_try_def run_workload_def)
  show ?thesis
    by (rule returns_failure_try[OF g assms(3) e]) simp
qed

lemma failure_workload_exit:
  assumes "go_generate w = Completed c"
    "returncode c = 0"
    "popen_servers w = None"
    "wait_for_server_logs w"
    "poll_when_ready w = None"
    "scan_server_logs_for_errors w = []"
    "workload w = Completed c'"
    "returncode c' \<noteq> 0"
  shows "returns_failure w ''workload_failure''
           (''basic-workload.sh exited with code '' @ str_int (returncode c'))"
proof -
  have g: "fst (run_go_generate w)" using assms(1,2) by (simp add: run_go_generate_ok)
  have e: "evaluate_try w (METRICS_DEFAULTS(''compile_successful'' \<mapsto> 1)) [''compile_output'' \<mapsto> snd (run_go_generate w)]
           = Inr \<lparr> metrics = METRICS_DEFAULTS(''compile_successful'' \<mapsto> 1),
                   artifacts = [''compile_output'' \<mapsto> snd (run_go_generate w)](''workload_stdout'' \<mapsto> stdout c', ''workload_stderr'' \<mapsto> stderr c',
                     ''workload_failure'' \<mapsto> ''basic-workload.sh exited with code '' @ str_int (returncode c')) \<rparr>"
    using assms(4-8) by (simp add: evaluate_try_def run_workload_def)
  show ?thesis
    by (rule returns_failure_try[OF g assms(3) e]) simp
qed

lemma failure_missing_files:
  assumes "go_generate w = Completed c"
    "returncode c = 0"
    "popen_servers w = None"
    "wait_for_server_logs w"
    "poll_when_ready w = None"
    "scan_server_logs_for_errors w = []"
    "workload w = Completed c'"
    "returncode c' = 0"
    "\<not> path_exists w summary_path \<or> \<not> path_exists w metrics_path"
  shows "returns_failure w ''workload_failure''
           (''Expected workload summary files were not generated.'')"
proof -
  have g: "fst (run_go_generate w)" using assms(1,2) by (simp add: run_go_generate_ok)
  have e: "evaluate_try w (METRICS_DEFAULTS(''compile_successful'' \<mapsto> 1)) [''compile_output'' \<mapsto> snd (run_go_generate w)]
           = Inr \<lparr> metrics = METRICS_DEFAULTS(''compile_successful'' \<mapsto> 1),
                   artifacts = [''compile_output'' \<mapsto> snd (run_go_generate w)](''workload_stdout'' \<mapsto> stdout c', ''workload_stderr'' \<mapsto> stderr c',
                     ''workload_failure'' \<mapsto> ''Expected workload summary files were not generated.'') \<rparr>"
    using assms(4-9) by (auto simp add: evaluate_try_def run_workload_def)
  show ?thesis
    by (rule returns_failure_try[OF g assms(3) e]) simp
qed


lemma fold_log_keeps:
  "a k \<noteq> None \<Longrightarrow>
   fold (\<lambda>(name, content) a'. a'(''log_'' @ name \<mapsto> content)) xs a k \<noteq> None"
  by (induction xs arbitrary: a) (simp_all add: case_prod_beta)

lemma evaluate_try_stops:
  assumes "\<not> wait_for_server_logs w \<or> poll_when_ready w \<noteq> None
           \<or> scan_server_logs_for_errors w \<noteq> [] \<or> \<not> fst (run_workload w)
           \<or> \<not> path_exists w summary_path \<or> \<not> path_exists w metrics_path"
    and "a ''compile_output'' \<noteq> None"
  shows "\<exists>a'. evaluate_try w m a = Inr \<lparr> metrics = m, artifacts = a' \<rparr>
              \<and> a' ''compile_output'' \<noteq> None
              \<and> (a' ''launch_failure'' \<noteq> None \<or> a' ''workload_failure'' \<noteq> None)"
proof (cases "\<not> wait_for_server_logs w \<or> poll_when_ready w \<noteq> None")
  case True
  with assms(2) show ?thesis by (auto simp: evaluate_try_def)
next
  case rdy: False
  show ?thesis
  proof (cases "scan_server_logs_for_errors w = []")
    case False
    have "fold (\<lambda>(name, content) a'. a'(''log_'' @ name \<mapsto> content))
            (scan_server_logs_for_errors w) a ''compile_output'' \<noteq> None"
      using assms(2) by (rule fold_log_keeps)
    with False rdy show ?thesis by (simp add: evaluate_try_def)
  next
    case True
    with assms(1) rdy
    have "\<not> fst (run_workload w) \<or> \<not> path_exists w summary_path \<or> \<not> path_exists w metrics_path"
      by blast
    with True rdy assms(2) show ?thesis
      by (auto simp: evaluate_try_def Let_def case_prod_beta)
  qed
qed

text \<open>
  Claim C2, as the code has it, stated on what \<open>evaluate\<close> observes. In the order of the
  pipeline: \<open>go generate\<close> that cannot be started or exits with a code other than 0; the
  launch script that cannot be started; server logs that do not appear; the launch script
  exiting early; an error found by the scan of the server logs; the workload script that
  cannot be started or exits with a code other than 0; a summary file that is missing.
  Each of them makes \<open>evaluate\<close> return normally, with \<open>run_successful = 0\<close> and the
  explanatory text of that stage under its key (\<open>compile_output\<close>, \<open>launch_failure\<close>,
  \<open>workload_failure\<close>). The last conjunct puts the stages together: whenever one of these
  observations fails, \<open>evaluate\<close> returns a result with \<open>run_successful = 0\<close>, never an
  exception.
\<close>

theorem evaluate_failure_reported:
  "(go_generate w = FileNotFoundError msg \<longrightarrow>
      returns_failure w ''compile_output'' (''Failed to execute go generate: '' @ msg))
   \<and> (go_generate w = Completed c \<and> returncode c \<noteq> 0 \<longrightarrow>
      returns_failure w ''compile_output'' (py_strip (stdout c @ stderr c)))
   \<and> (go_generate w = Completed c \<and> returncode c = 0 \<longrightarrow>
      (popen_servers w = Some lmsg \<longrightarrow>
         returns_failure w ''launch_failure'' (''Failed to launch servers: '' @ lmsg))
    \<and> (popen_servers w = None \<longrightarrow>
        (\<not> wait_for_server_logs w \<longrightarrow>
           returns_failure w ''launch_failure''
             (''Server logs did not appear before timeout (exit_code=''
                @ str_opt_int (poll_after_wait w) @ '').''))
      \<and> (wait_for_server_logs w \<longrightarrow>
          (poll_when_ready w = Some code \<longrightarrow>
             returns_failure w ''launch_failure''
               (''launch_servers.sh exited early with code '' @ str_int code))
        \<and> (poll_when_ready w = None \<longrightarrow>
            (scan_server_logs_for_errors w \<noteq> [] \<longrightarrow>
               returns_failure w ''launch_failure'' ''Detected 'error' keyword in server logs.'')
          \<and> (scan_server_logs_for_errors w = [] \<longrightarrow>
              (workload w = FileNotFoundError wmsg \<longrightarrow>
                 returns_failure w ''workload_failure''
                   (''basic-workload.sh exited with code '' @ str_int 127))
            \<and> (workload w = Completed c' \<and> returncode c' \<noteq> 0 \<longrightarrow>
                 returns_failure w ''workload_failure''
                   (''basic-workload.sh exited with code '' @ str_int (returncode c')))
            \<and> (workload w = Completed c' \<and> returncode c' = 0
                 \<and> (\<not> path_exists w summary_path \<or> \<not> path_exists w metrics_path) \<longrightarrow>
                 returns_failure w ''workload_failure''
                   ''Expected workload summary files were not generated.''))))))
   \<and> ((\<exists>m. go_generate w = FileNotFoundError m)
        \<or> (\<exists>p. go_generate w = Completed p \<and> returncode p \<noteq> 0)
        \<or> popen_servers w \<noteq> None
        \<or> \<not> wait_for_server_logs w
        \<or> poll_when_ready w \<noteq> None
        \<or> scan_server_logs_for_errors w \<noteq> []
        \<or> (\<exists>m. workload w = FileNotFoundError m)
        \<or> (\<exists>p. workload w = Completed p \<and> returncode p \<noteq> 0)
        \<or> \<not> path_exists w summary_path
        \<or> \<not> path_exists w metrics_path \<longrightarrow>
       (\<exists>r. evaluate w = Inr r \<and> metrics r ''run_successful'' = Some 0
            \<and> artifacts r ''compile_output'' \<noteq> None
            \<and> (metrics r ''compile_successful'' = Some 0
                \<or> artifacts r ''launch_failure'' \<noteq> None
                \<or> artifacts r ''workload_failure'' \<noteq> None)))"
proof (intro conjI impI)
  assume "go_generate w = FileNotFoundError msg"
  then show "returns_failure w ''compile_output'' (''Failed to execute go generate: '' @ msg)"
    by (rule failure_go_not_found)
next
  assume "go_generate w = Completed c \<and> returncode c \<noteq> 0"
  then show "returns_failure w ''compile_output'' (py_strip (stdout c @ stderr c))"
    by (elim conjE) (rule failure_go_exit, assumption+)
next
  assume "go_generate w = Completed c \<and> returncode c = 0" "popen_servers w = Some lmsg"
  then show "returns_failure w ''launch_failure'' (''Failed to launch servers: '' @ lmsg)"
    by (elim conjE) (rule failure_popen, assumption+)
next
  assume "go_generate w = Completed c \<and> returncode c = 0" "popen_servers w = None"
    "\<not> wait_for_server_logs w"
  then show "returns_failure w ''launch_failure''
               (''Server logs did not appear before timeout (exit_code=''
                  @ str_opt_int (poll_after_wait w) @ '').'')"
    by (elim conjE) (rule failure_not_ready, assumption+)
next
  assume "go_generate w = Completed c \<and> returncode c = 0" "popen_servers w = None"
    "wait_for_server_logs w" "poll_when_ready w = Some code"
  then show "returns_failure w ''launch_failure''
               (''launch_servers.sh exited early with code '' @ str_int code)"
    by (elim conjE) (rule failure_exited_early, assumption+)
next
  assume "go_generate w = Completed c \<and> returncode c = 0" "popen_servers w = None"
    "wait_for_server_logs w" "poll_when_ready w = None" "scan_server_logs_for_errors w \<noteq> []"
  then show "returns_failure w ''launch_failure'' ''Detected 'error' keyword in server logs.''"
    by (elim conjE) (rule failure_error_logs, assumption+)
next
  assume "go_generate w = Completed c \<and> returncode c = 0" "popen_servers w = None"
    "wait_for_server_logs w" "poll_when_ready w = None" "scan_server_logs_for_errors w = []"
    "workload w = FileNotFoundError wmsg"
  then show "returns_failure w ''workload_failure''
               (''basic-workload.sh exited with code '' @ str_int 127)"
    by (elim conjE) (rule failure_workload_not_found, assumption+)
next
  assume "go_generate w = Completed c \<and> returncode c = 0" "popen_servers w = None"
    "wait_for_server_logs w" "poll_when_ready w = None" "scan_server_logs_for_errors w = []"
    "workload w = Completed c' \<and> returncode c' \<noteq> 0"
  then show "returns_failure w ''workload_failure''
               (''basic-workload.sh exited with code '' @ str_int (returncode c'))"
    by (elim conjE) (rule failure_workload_exit, assumption+)
next
  assume "go_generate w = Completed c \<and> returncode c = 0" "popen_servers w = None"
    "wait_for_server_logs w" "poll_when_ready w = None" "scan_server_logs_for_errors w = []"
    "workload w = Completed c' \<and> returncode c' = 0
       \<and> (\<not> path_exists w summary_path \<or> \<not> path_exists w metrics_path)"
  then show "returns_failure w ''workload_failure''
               ''Expected workload summary files were not generated.''"
    by (elim conjE) (rule failure_missing_files, assumption+)
next
  assume f: "(\<exists>m. go_generate w = FileNotFoundError m)
        \<or> (\<exists>p. go_generate w = Completed p \<and> returncode p \<noteq> 0)
        \<or> popen_servers w \<noteq> None
        \<or> \<not> wait_for_server_logs w
        \<or> poll_when_ready w \<noteq> None
        \<or> scan_server_logs_for_errors w \<noteq> []
        \<or> (\<exists>m. workload w = FileNotFoundError m)
        \<or> (\<exists>p. workload w = Completed p \<and> returncode p \<noteq> 0)
        \<or> \<not> path_exists w summary_path
        \<or> \<not> path_exists w metrics_path"
  let ?goal = "\<exists>r. evaluate w = Inr r \<and> metrics r ''run_successful'' = Some 0
            \<and> artifacts r ''compile_output'' \<noteq> None
            \<and> (metrics r ''compile_successful'' = Some 0
                \<or> artifacts r ''launch_failure'' \<noteq> None
                \<or> artifacts r ''workload_failure'' \<noteq> None)"
  show ?goal
  proof (cases "fst (run_go_generate w)")
    case False
    from evaluate_compile_failed[OF False] show ?thesis
      by (simp add: METRICS_DEFAULTS_def)
  next
    case g: True
    then obtain c0 where c0: "go_generate w = Completed c0" "returncode c0 = 0"
      by (auto simp: run_go_generate_ok)
    show ?thesis
    proof (cases "popen_servers w")
      case (Some m)
      from evaluate_launch_failed[OF g Some] show ?thesis
        by (simp add: METRICS_DEFAULTS_def)
    next
      case None
      let ?m = "METRICS_DEFAULTS(''compile_successful'' \<mapsto> 1)"
      have nf: "\<not> (\<exists>m. go_generate w = FileNotFoundError m)"
        "\<not> (\<exists>p. go_generate w = Completed p \<and> returncode p \<noteq> 0)"
        using c0 by auto
      have wk: "(\<exists>m. workload w = FileNotFoundError m)
                \<or> (\<exists>p. workload w = Completed p \<and> returncode p \<noteq> 0)
                \<Longrightarrow> \<not> fst (run_workload w)"
        by (auto simp: run_workload_ok)
      from f nf None wk
      have st: "\<not> wait_for_server_logs w \<or> poll_when_ready w \<noteq> None
            \<or> scan_server_logs_for_errors w \<noteq> [] \<or> \<not> fst (run_workload w)
            \<or> \<not> path_exists w summary_path \<or> \<not> path_exists w metrics_path"
        by blast
      have co: "[''compile_output'' \<mapsto> snd (run_go_generate w)] ''compile_output'' \<noteq> None"
        by simp
      from evaluate_try_stops[of w "[''compile_output'' \<mapsto> snd (run_go_generate w)]" ?m, OF st co]
      obtain a where a: "evaluate_try w ?m [''compile_output'' \<mapsto> snd (run_go_generate w)]
                         = Inr \<lparr> metrics = ?m, artifacts = a \<rparr>"
          "a ''compile_output'' \<noteq> None"
          "a ''launch_failure'' \<noteq> None \<or> a ''workload_failure'' \<noteq> None"
        by blast
      let ?r = "finally_block w \<lparr> metrics = ?m, artifacts = a \<rparr>"
      have ev: "evaluate w = Inr ?r"
        using a(1) by (simp add: evaluate_started[OF g None])
      have k: "\<And>k. a k \<noteq> None \<Longrightarrow> artifacts ?r k \<noteq> None"
        by (auto simp: finally_block_def)
      have "metrics ?r ''run_successful'' = Some 0"
        by (simp add: finally_block_metrics METRICS_DEFAULTS_def)
      moreover have "artifacts ?r ''compile_output'' \<noteq> None"
        using a(2) by (rule k)
      moreover have "artifacts ?r ''launch_failure'' \<noteq> None
                     \<or> artifacts ?r ''workload_failure'' \<noteq> None"
        using a(3) k by blast
      ultimately show ?thesis using ev by blast
    qed
  qed
qed

theorem evaluate_failure_reported_witness:
  "go_generate world_go_missing = FileNotFoundError ''go''
   \<and> returns_failure world_go_missing ''compile_output'' ''Failed to execute go generate: go''
   \<and> go_generate world_compile_error
         = Completed \<lparr> returncode = 1, stdout = [], stderr = ''build failed'' \<rparr>
   \<and> returns_failure world_compile_error ''compile_output'' ''build failed''
   \<and> popen_servers world_launch_missing = Some ''launch_servers.sh''
   \<and> returns_failure world_launch_missing ''launch_failure''
         ''Failed to launch servers: launch_servers.sh''
   \<and> \<not> wait_for_server_logs world_not_ready
   \<and> returns_failure world_not_ready ''launch_failure''
         ''Server logs did not appear before timeout (exit_code=1).''
   \<and> poll_when_ready world_exited_early = Some 3
   \<and> returns_failure world_exited_early ''launch_failure''
         ''launch_servers.sh exited early with code 3''
   \<and> scan_server_logs_for_errors world_error_logs = [(''server1.log'', ''bind error'')]
   \<and> returns_failure world_error_logs ''launch_failure''
         ''Detected 'error' keyword in server logs.''
   \<and> workload world_workload_missing = FileNotFoundError ''basic-workload.sh''
   \<and> returns_failure world_workload_missing ''workload_failure''
         ''basic-workload.sh exited with code 127''
   \<and> workload world_workload_exit_2
         = Completed \<lparr> returncode = 2, stdout = [], stderr = ''wrk failed'' \<rparr>
   \<and> returns_failure world_workload_exit_2 ''workload_failure''
         ''basic-workload.sh exited with code 2''
   \<and> (\<exists>r. evaluate world_workload_exit_2 = Inr r \<and> metrics r ''run_successful'' = Some 0
            \<and> artifacts r ''compile_output'' \<noteq> None
            \<and> (metrics r ''compile_successful'' = Some 0
                \<or> artifacts r ''launch_failure'' \<noteq> None
                \<or> artifacts r ''workload_failure'' \<noteq> None))
   \<and> \<not> path_exists world_no_summary summary_path
   \<and> returns_failure world_no_summary ''workload_failure''
         ''Expected workload summary files were not generated.''"
proof -
  let ?ok = "\<lparr> returncode = 0, stdout = [], stderr = [] \<rparr>"
  let ?done = "\<lparr> returncode = 0, stdout = ''done'', stderr = [] \<rparr>"
  let ?build = "\<lparr> returncode = 1, stdout = [], stderr = ''build failed'' \<rparr>"
  let ?wrk = "\<lparr> returncode = 2, stdout = [], stderr = ''wrk failed'' \<rparr>"
  have n1: "str_int 1 = ''1''" by code_simp
  have n2: "str_int 2 = ''2''" by code_simp
  have n3: "str_int 3 = ''3''" by code_simp
  have n127: "str_int 127 = ''127''" by code_simp
  have st: "py_strip ''build failed'' = ''build failed''" by code_simp
  have h1: "go_generate world_go_missing = FileNotFoundError ''go''"
    by (simp add: world_go_missing_def)
  have h2: "go_generate world_compile_error = Completed ?build"
    by (simp add: world_compile_error_def)
  have h3: "go_generate world_launch_missing = Completed ?ok"
    "popen_servers world_launch_missing = Some ''launch_servers.sh''"
    by (simp_all add: world_launch_missing_def world_ok_def)
  have h4: "go_generate world_not_ready = Completed ?ok" "popen_servers world_not_ready = None"
    "\<not> wait_for_server_logs world_not_ready" "poll_after_wait world_not_ready = Some 1"
    by (simp_all add: world_not_ready_def world_ok_def)
  have h5: "go_generate world_exited_early = Completed ?ok"
    "popen_servers world_exited_early = None" "wait_for_server_logs world_exited_early"
    "poll_when_ready world_exited_early = Some 3"
    by (simp_all add: world_exited_early_def world_ok_def)
  have h6: "go_generate world_error_logs = Completed ?ok"
    "popen_servers world_error_logs = None" "wait_for_server_logs world_error_logs"
    "poll_when_ready world_error_logs = None"
    "scan_server_logs_for_errors world_error_logs = [(''server1.log'', ''bind error'')]"
    by (simp_all add: world_error_logs_def world_ok_def)
  have h7: "go_generate world_workload_missing = Completed ?ok"
    "popen_servers world_workload_missing = None" "wait_for_server_logs world_workload_missing"
    "poll_when_ready world_workload_missing = None"
    "scan_server_logs_for_errors world_workload_missing = []"
    "workload world_workload_missing = FileNotFoundError ''basic-workload.sh''"
    by (simp_all add: world_workload_missing_def world_ok_def)
  have h8: "go_generate world_workload_exit_2 = Completed ?ok"
    "popen_servers world_workload_exit_2 = None" "wait_for_server_logs world_workload_exit_2"
    "poll_when_ready world_workload_exit_2 = None"
    "scan_server_logs_for_errors world_workload_exit_2 = []"
    "workload world_workload_exit_2 = Completed ?wrk"
    by (simp_all add: world_workload_exit_2_def world_ok_def)
  have h9: "go_generate world_no_summary = Completed ?ok"
    "popen_servers world_no_summary = None" "wait_for_server_logs world_no_summary"
    "poll_when_ready world_no_summary = None"
    "scan_server_logs_for_errors world_no_summary = []"
    "workload world_no_summary = Completed ?done"
    "\<not> path_exists world_no_summary summary_path"
    by (simp_all add: world_no_summary_def world_ok_def)
  have c1: "returns_failure world_go_missing ''compile_output''
              ''Failed to execute go generate: go''"
    using evaluate_failure_reported[where w = world_go_missing and msg = "''go''"] h1 by simp
  have c2: "returns_failure world_compile_error ''compile_output'' ''build failed''"
    using evaluate_failure_reported[where w = world_compile_error and c = ?build] h2 st by simp
  have c3: "returns_failure world_launch_missing ''launch_failure''
              ''Failed to launch servers: launch_servers.sh''"
    using evaluate_failure_reported[where w = world_launch_missing and c = ?ok
            and lmsg = "''launch_servers.sh''"] h3 by simp
  have c4: "returns_failure world_not_ready ''launch_failure''
              ''Server logs did not appear before timeout (exit_code=1).''"
    using evaluate_failure_reported[where w = world_not_ready and c = ?ok] h4 n1
    by (simp add: str_opt_int_def)
  have c5: "returns_failure world_exited_early ''launch_failure''
              ''launch_servers.sh exited early with code 3''"
    using evaluate_failure_reported[where w = world_exited_early and c = ?ok and code = 3] h5 n3
    by simp
  have c6: "returns_failure world_error_logs ''launch_failure''
              ''Detected 'error' keyword in server logs.''"
    using evaluate_failure_reported[where w = world_error_logs and c = ?ok] h6 by simp
  have c7: "returns_failure world_workload_missing ''workload_failure''
              ''basic-workload.sh exited with code 127''"
    using evaluate_failure_reported[where w = world_workload_missing and c = ?ok
            and wmsg = "''basic-workload.sh''"] h7 n127 by simp
  have c8: "returns_failure world_workload_exit_2 ''workload_failure''
              ''basic-workload.sh exited with code 2''"
    using evaluate_failure_reported[where w = world_workload_exit_2 and c = ?ok and c' = ?wrk]
      h8 n2 by simp
  have c8': "\<exists>r. evaluate world_workload_exit_2 = Inr r \<and> metrics r ''run_successful'' = Some 0
            \<and> artifacts r ''compile_output'' \<noteq> None
            \<and> (metrics r ''compile_successful'' = Some 0
                \<or> artifacts r ''launch_failure'' \<noteq> None
                \<or> artifacts r ''workload_failure'' \<noteq> None)"
    using evaluate_failure_reported[where w = world_workload_exit_2 and c = ?ok and c' = ?wrk]
      h8 by simp
  have c9: "returns_failure world_no_summary ''workload_failure''
              ''Expected workload summary files were not generated.''"
    using evaluate_failure_reported[where w = world_no_summary and c = ?ok and c' = ?done]
      h9 by simp
  show ?thesis
    using h1 h2 h3(2) h4(3) h5(4) h6(5) h7(6) h8(6) h9(7) c1 c2 c3 c4 c5 c6 c7 c8 c8' c9
    by (intro conjI)
qed

text \<open>
  The claim as the specification words it also covers malformed summary files, and fails
  there: with both files present, a metrics file without a data row, or with a cell that
  is not a number, makes \<open>_parse_metrics_csv\<close> raise \<open>ValueError\<close>, which \<open>evaluate\<close>
  passes on to its caller once the servers are torn down.
\<close>

theorem evaluate_malformed_summary_counterexample:
  "stopped_at world_no_rows = SummaryParsed
   \<and> evaluate world_no_rows = Inl (ValueError ''No rows found in metrics CSV'')
   \<and> stopped_at world_bad_number = SummaryParsed
   \<and> evaluate world_bad_number = Inl (ValueError ''could not convert string to float'')"
proof -
  have s1: "stopped_at world_no_rows = SummaryParsed" by code_simp
  have p1: "parse_metrics_csv world_no_rows = Inl (ValueError ''No rows found in metrics CSV'')"
    by code_simp
  have s2: "stopped_at world_bad_number = SummaryParsed" by code_simp
  have p2: "parse_metrics_csv world_bad_number = Inl (ValueError ''could not convert string to float'')"
    by code_simp
  from evaluate_result_shape[of world_no_rows] s1 p1
  have e1: "evaluate world_no_rows = Inl (ValueError ''No rows found in metrics CSV'')" by auto
  from evaluate_result_shape[of world_bad_number] s2 p2
  have e2: "evaluate world_bad_number = Inl (ValueError ''could not convert string to float'')" by auto
  from s1 e1 s2 e2 show ?thesis by simp
qed

end
